theory Spec2Isabelle
  imports Main "HOL-Library.Sublist"
begin

section \<open>JavaScript values\<close>

text \<open>
  The service is a Node.js program in two variants: \<^verbatim>\<open>server.js\<close> and a second,
  unnamed file (called the second variant below). Request payloads, sheet cells and
  configuration records are data: the values of JSON and \<open>undefined\<close>. A number is an
  integer here (the model leaves out fractions and the exponent notation of very large
  numbers), a string is a list of 8-bit code units, an object is an association list of
  its own properties in insertion order (the first entry for a key is the property). No
  data value is or contains a function; the built-in objects and functions that a
  property read can reach through a prototype are values of their own (see
  \<open>rval\<close> below).
\<close>

datatype jsval =
    JUndefined
  | JNull
  | JBool bool
  | JNum int
  | JStr string
  | JArr "jsval list"
  | JObj "(string \<times> jsval) list"

text \<open>
  A thrown value is an \<open>Error\<close> object: its name, its message, and the two fields the
  code reads from upstream errors (\<open>e.code\<close>, \<open>e.statusCode\<close>).
\<close>

record js_error =
  err_name :: string
  err_message :: string
  err_code :: jsval
  err_statusCode :: jsval

definition Error :: "string \<Rightarrow> js_error" where
  "Error msg = \<lparr>err_name = ''Error'', err_message = msg, err_code = JUndefined,
     err_statusCode = JUndefined\<rparr>"

definition TypeError :: "string \<Rightarrow> js_error" where
  "TypeError msg = \<lparr>err_name = ''TypeError'', err_message = msg, err_code = JUndefined,
     err_statusCode = JUndefined\<rparr>"

text \<open>Sequencing of computations that may throw: \<open>Inl\<close> is the thrown error.\<close>

definition bindE :: "js_error + 'a \<Rightarrow> ('a \<Rightarrow> js_error + 'b) \<Rightarrow> js_error + 'b" where
  "bindE m f = (case m of Inl e \<Rightarrow> Inl e | Inr x \<Rightarrow> f x)"

fun mapE :: "('a \<Rightarrow> js_error + 'b) \<Rightarrow> 'a list \<Rightarrow> js_error + 'b list" where
  "mapE f [] = Inr []"
| "mapE f (x # xs) = bindE (f x) (\<lambda>y. bindE (mapE f xs) (\<lambda>ys. Inr (y # ys)))"

fun filterE :: "('a \<Rightarrow> js_error + bool) \<Rightarrow> 'a list \<Rightarrow> js_error + 'a list" where
  "filterE p [] = Inr []"
| "filterE p (x # xs) =
     bindE (p x) (\<lambda>b. bindE (filterE p xs) (\<lambda>ys. Inr (if b then x # ys else ys)))"

fun truthy :: "jsval \<Rightarrow> bool" where
  "truthy JUndefined = False"
| "truthy JNull = False"
| "truthy (JBool b) = b"
| "truthy (JNum n) = (n \<noteq> 0)"
| "truthy (JStr s) = (s \<noteq> [])"
| "truthy (JArr xs) = True"
| "truthy (JObj kvs) = True"

fun js_typeof :: "jsval \<Rightarrow> string" where
  "js_typeof JUndefined = ''undefined''"
| "js_typeof JNull = ''object''"
| "js_typeof (JBool b) = ''boolean''"
| "js_typeof (JNum n) = ''number''"
| "js_typeof (JStr s) = ''string''"
| "js_typeof (JArr xs) = ''object''"
| "js_typeof (JObj kvs) = ''object''"

text \<open>\<open>v == null\<close>: true of \<open>undefined\<close> and \<open>null\<close> only.\<close>

definition is_nullish :: "jsval \<Rightarrow> bool" where
  "is_nullish v = (v = JUndefined \<or> v = JNull)"

subsection \<open>Decimal numerals\<close>

definition digit_char :: "nat \<Rightarrow> char" where
  "digit_char d = ''0123456789'' ! d"

fun nat_dec :: "nat \<Rightarrow> string" where
  "nat_dec n = (if n < 10 then [digit_char n] else nat_dec (n div 10) @ [digit_char (n mod 10)])"

declare nat_dec.simps [simp del]

definition int_dec :: "int \<Rightarrow> string" where
  "int_dec i = (if i < 0 then CHR ''-'' # nat_dec (nat (- i)) else nat_dec (nat i))"

subsection \<open>Properties\<close>

text \<open>
  The own properties of a data value: the entries of an object, the indices and the
  length of an array or of a string.
\<close>

definition index_keys :: "nat \<Rightarrow> string list" where
  "index_keys n = map nat_dec [0..<n]"

fun own_prop :: "jsval \<Rightarrow> string \<Rightarrow> jsval option" where
  "own_prop (JObj kvs) k = map_of kvs k"
| "own_prop (JArr xs) k =
     (if k = ''length'' then Some (JNum (int (length xs)))
      else map_of (zip (index_keys (length xs)) xs) k)"
| "own_prop (JStr s) k =
     (if k = ''length'' then Some (JNum (int (length s)))
      else map_of (zip (index_keys (length s)) (map (\<lambda>c. JStr [c]) s)) k)"
| "own_prop JUndefined k = None"
| "own_prop JNull k = None"
| "own_prop (JBool b) k = None"
| "own_prop (JNum n) k = None"

text \<open>
  Everything else a property read can find comes from the prototype chain, and it can
  leave the data: \<open>{}.constructor\<close> is the function \<open>Object\<close>, \<open>{}.__proto__\<close> is the
  object \<open>Object.prototype\<close>, and \<open>Object.caller\<close> is an accessor that throws. A value
  at run time is a data value or a built-in of the runtime, known by its name: a built-in
  object that is not a function (\<open>BObj\<close>, a prototype object: \<open>typeof\<close> gives
  \<open>object\<close>) or a built-in function (\<open>BFun\<close>).
\<close>

datatype rval =
    Data jsval
  | BObj string
  | BFun string

text \<open>
  What a built-in property holds: a primitive or another built-in, never an object of
  the data.
\<close>

datatype given =
    GNull
  | GBool bool
  | GNum int
  | GStr string
  | GObj string
  | GFun string

fun given_val :: "given \<Rightarrow> rval" where
  "given_val GNull = Data JNull"
| "given_val (GBool b) = Data (JBool b)"
| "given_val (GNum n) = Data (JNum n)"
| "given_val (GStr s) = Data (JStr s)"
| "given_val (GObj b) = BObj b"
| "given_val (GFun f) = BFun f"

text \<open>
  Which built-ins exist and what they hold depends on the runtime: the model takes them
  as a parameter, the realm, so that every theorem below holds whatever the runtime
  provides. \<open>inherited rt v k\<close> is the property \<open>k\<close> that the data value \<open>v\<close> finds
  on its prototype chain, \<open>object_prop rt b k\<close> and \<open>function_prop rt f k\<close> are
  the property \<open>k\<close> (own or inherited) of a built-in; \<open>None\<close> means that there is no
  such property. What the language fixes is in the types. The prototype objects of data
  values (\<open>Object.prototype\<close>, \<open>Array.prototype\<close>, \<open>String.prototype\<close>,
  \<open>Number.prototype\<close>, \<open>Boolean.prototype\<close>) have data properties and the accessor
  \<open>__proto__\<close>, so a read on a data value or on a prototype object returns. A built-in
  function also has the accessors \<open>caller\<close> and \<open>arguments\<close> of
  \<open>Function.prototype\<close>, whose read throws a TypeError: a read on a function returns
  or throws. \<open>String(b)\<close> of a built-in returns a text (\<open>[object Object]\<close>, the source
  text of a function).
\<close>

record realm =
  inherited :: "jsval \<Rightarrow> string \<Rightarrow> given option"
  object_prop :: "string \<Rightarrow> string \<Rightarrow> given option"
  function_prop :: "string \<Rightarrow> string \<Rightarrow> (js_error + given) option"
  object_text :: "string \<Rightarrow> string"
  function_text :: "string \<Rightarrow> string"

fun lookup_prop :: "realm \<Rightarrow> rval \<Rightarrow> string \<Rightarrow> (js_error + rval) option" where
  "lookup_prop rt (Data v) k =
     (case own_prop v k of
        Some x \<Rightarrow> Some (Inr (Data x))
      | None \<Rightarrow> (case inherited rt v k of None \<Rightarrow> None | Some g \<Rightarrow> Some (Inr (given_val g))))"
| "lookup_prop rt (BObj b) k =
     (case object_prop rt b k of None \<Rightarrow> None | Some g \<Rightarrow> Some (Inr (given_val g)))"
| "lookup_prop rt (BFun f) k =
     (case function_prop rt f k of
        None \<Rightarrow> None
      | Some (Inl e) \<Rightarrow> Some (Inl e)
      | Some (Inr g) \<Rightarrow> Some (Inr (given_val g)))"

text \<open>Truthiness, \<open>typeof\<close> and \<open>v == null\<close> of a value at run time.\<close>

fun r_truthy :: "rval \<Rightarrow> bool" where
  "r_truthy (Data v) = truthy v"
| "r_truthy (BObj b) = True"
| "r_truthy (BFun f) = True"

fun r_typeof :: "rval \<Rightarrow> string" where
  "r_typeof (Data v) = js_typeof v"
| "r_typeof (BObj b) = ''object''"
| "r_typeof (BFun f) = ''function''"

fun r_nullish :: "rval \<Rightarrow> bool" where
  "r_nullish (Data v) = is_nullish v"
| "r_nullish (BObj b) = False"
| "r_nullish (BFun f) = False"

text \<open>
  \<open>k in v\<close> throws a TypeError unless \<open>v\<close> is an object (an array, a plain object or a
  built-in) and does not run an accessor; \<open>v[k]\<close> throws a TypeError on \<open>undefined\<close>
  and \<open>null\<close>, and otherwise gives what the property holds, or what its accessor throws.
\<close>

fun is_object :: "jsval \<Rightarrow> bool" where
  "is_object (JArr xs) = True"
| "is_object (JObj kvs) = True"
| "is_object JUndefined = False"
| "is_object JNull = False"
| "is_object (JBool b) = False"
| "is_object (JNum n) = False"
| "is_object (JStr s) = False"

fun r_is_object :: "rval \<Rightarrow> bool" where
  "r_is_object (Data v) = is_object v"
| "r_is_object (BObj b) = True"
| "r_is_object (BFun f) = True"

definition js_in :: "realm \<Rightarrow> string \<Rightarrow> rval \<Rightarrow> js_error + bool" where
  "js_in rt k v =
     (if r_is_object v then Inr (lookup_prop rt v k \<noteq> None)
      else Inl (TypeError ''Cannot use 'in' operator to search for a key in a non-object''))"

definition js_get :: "realm \<Rightarrow> rval \<Rightarrow> string \<Rightarrow> js_error + rval" where
  "js_get rt v k =
     (if r_nullish v then Inl (TypeError ''Cannot read properties of undefined or null'')
      else (case lookup_prop rt v k of None \<Rightarrow> Inr (Data JUndefined) | Some r \<Rightarrow> r))"

text \<open>
  A property read with a fixed name (\<open>payload.template_key\<close>, \<open>row.is_active\<close>): none of
  the names the program reads this way is a property of any built-in, so the read sees
  own properties only, and on a built-in it gives \<open>undefined\<close>. It is used on values
  that are not \<open>undefined\<close> or \<open>null\<close>.
\<close>

definition js_prop :: "jsval \<Rightarrow> string \<Rightarrow> jsval" where
  "js_prop v k = (case own_prop v k of Some x \<Rightarrow> x | None \<Rightarrow> JUndefined)"

fun r_prop :: "rval \<Rightarrow> string \<Rightarrow> jsval" where
  "r_prop (Data v) k = js_prop v k"
| "r_prop (BObj b) k = JUndefined"
| "r_prop (BFun f) k = JUndefined"

subsection \<open>Strings\<close>

text \<open>\<open>s.split(c)\<close> for a one-character separator: never empty, \<open>''''\<close> gives \<open>['''']\<close>.\<close>

fun split_on :: "char \<Rightarrow> string \<Rightarrow> string list" where
  "split_on c [] = [[]]"
| "split_on c (x # xs) =
     (if x = c then [] # split_on c xs
      else (case split_on c xs of [] \<Rightarrow> [[x]] | w # ws \<Rightarrow> (x # w) # ws))"

text \<open>
  \<open>trim\<close> removes white space at both ends (of the 8-bit code units: tab, line feed,
  vertical tab, form feed, carriage return, space, no-break space); \<open>toLowerCase\<close> maps
  the upper-case letters of the same range.
\<close>

definition is_space :: "char \<Rightarrow> bool" where
  "is_space c = ((of_char c :: nat) \<in> {9, 10, 11, 12, 13, 32, 160})"

definition trim :: "string \<Rightarrow> string" where
  "trim s = rev (dropWhile is_space (rev (dropWhile is_space s)))"

definition lower_char :: "char \<Rightarrow> char" where
  "lower_char c =
     (let n = (of_char c :: nat)
      in if (65 \<le> n \<and> n \<le> 90) \<or> (192 \<le> n \<and> n \<le> 222 \<and> n \<noteq> 215)
         then char_of (n + 32) else c)"

definition toLowerCase :: "string \<Rightarrow> string" where
  "toLowerCase s = map lower_char s"

definition endsWith :: "string \<Rightarrow> string \<Rightarrow> bool" where
  "endsWith s suf = suffix suf s"

definition includes_str :: "string \<Rightarrow> string \<Rightarrow> bool" where
  "includes_str s sub = sublist sub s"

fun join_with :: "string \<Rightarrow> string list \<Rightarrow> string" where
  "join_with sep [] = []"
| "join_with sep [x] = x"
| "join_with sep (x # y # ys) = x @ sep @ join_with sep (y # ys)"

lemma mapE_cong [fundef_cong]:
  "\<lbrakk>xs = ys; \<And>x. x \<in> set ys \<Longrightarrow> f x = g x\<rbrakk> \<Longrightarrow> mapE f xs = mapE g ys"
  by (induction ys arbitrary: xs) (auto simp: bindE_def)

text \<open>
  \<open>String(v)\<close> of a data value, also the conversion a template literal applies. An
  array is joined with commas, \<open>undefined\<close> and \<open>null\<close> elements as empty strings.
  A plain object gives \<open>[object Object]\<close> through the inherited \<open>toString\<close>; when
  the object has an own property \<open>toString\<close> (data, so not a function) no conversion
  to a primitive succeeds and a TypeError is thrown.
\<close>

fun js_String :: "jsval \<Rightarrow> js_error + string" where
  "js_String JUndefined = Inr ''undefined''"
| "js_String JNull = Inr ''null''"
| "js_String (JBool b) = Inr (if b then ''true'' else ''false'')"
| "js_String (JNum n) = Inr (int_dec n)"
| "js_String (JStr s) = Inr s"
| "js_String (JArr xs) =
     bindE (mapE (\<lambda>x. if is_nullish x then Inr [] else js_String x) xs)
       (\<lambda>parts. Inr (join_with '','' parts))"
| "js_String (JObj kvs) =
     (if ''toString'' \<in> set (map fst kvs)
      then Inl (TypeError ''Cannot convert object to primitive value'')
      else Inr ''[object Object]'')"

text \<open>\<open>String(v)\<close> of a value at run time.\<close>

fun r_String :: "realm \<Rightarrow> rval \<Rightarrow> js_error + string" where
  "r_String rt (Data v) = js_String v"
| "r_String rt (BObj b) = Inr (object_text rt b)"
| "r_String rt (BFun f) = Inr (function_text rt f)"

section \<open>Cell parsing\<close>

text \<open>\<^verbatim>\<open>parseBoolean\<close> of \<^verbatim>\<open>server.js\<close> and \<^verbatim>\<open>toBool\<close> of the second variant.\<close>

definition parseBoolean :: "jsval \<Rightarrow> js_error + bool" where
  "parseBoolean v =
     (case v of
        JBool b \<Rightarrow> Inr b
      | _ \<Rightarrow>
          if is_nullish v then Inr False
          else bindE (js_String v) (\<lambda>s.
            Inr (toLowerCase (trim s) \<in> set [''true'', ''1'', ''yes''])))"

definition toBool :: "jsval \<Rightarrow> js_error + bool" where
  "toBool v =
     (case v of
        JBool b \<Rightarrow> Inr b
      | _ \<Rightarrow>
          if is_nullish v then Inr False
          else bindE (js_String v) (\<lambda>s.
            Inr (toLowerCase (trim s)
                  \<in> set [''true'', ''1'', ''yes'', ''y'', ''si'', [CHR ''s'', CHR 0xED]])))"

text \<open>
  \<open>JSON.parse\<close> is the runtime's; the model takes it as a parameter \<open>parse\<close> that
  returns the parsed value or the SyntaxError it throws.
\<close>

type_synonym json_parser = "string \<Rightarrow> js_error + jsval"

fun isArray :: "jsval \<Rightarrow> bool" where
  "isArray (JArr xs) = True"
| "isArray JUndefined = False"
| "isArray JNull = False"
| "isArray (JBool b) = False"
| "isArray (JNum n) = False"
| "isArray (JStr s) = False"
| "isArray (JObj kvs) = False"

text \<open>
  \<^verbatim>\<open>parseJsonArray(raw, fieldName)\<close> of \<^verbatim>\<open>server.js\<close>. The error thrown inside the
  \<open>try\<close> for a value that is not an array is caught by the same \<open>catch\<close> and wrapped
  like a syntax error.
\<close>

definition parseJsonArray_try :: "json_parser \<Rightarrow> jsval \<Rightarrow> string \<Rightarrow> js_error + jsval" where
  "parseJsonArray_try parse raw fieldName =
     bindE (bindE (js_String raw) parse) (\<lambda>parsed.
       if \<not> isArray parsed then Inl (Error (fieldName @ '' must be a JSON array''))
       else Inr parsed)"

definition parseJsonArray :: "json_parser \<Rightarrow> jsval \<Rightarrow> string \<Rightarrow> js_error + jsval" where
  "parseJsonArray parse raw fieldName =
     (if \<not> truthy raw then Inr (JArr [])
      else (case parseJsonArray_try parse raw fieldName of
              Inr parsed \<Rightarrow> Inr parsed
            | Inl error \<Rightarrow>
                Inl (Error (''Invalid JSON in '' @ fieldName @ '': '' @ err_message error))))"

text \<open>
  \<^verbatim>\<open>safeJsonParse(str, fallback)\<close> of the second variant: the whole body is inside
  \<open>try\<close>, and the \<open>catch\<close> returns the fallback.
\<close>

definition safeJsonParse_try :: "json_parser \<Rightarrow> jsval \<Rightarrow> jsval \<Rightarrow> js_error + jsval" where
  "safeJsonParse_try parse str fallback =
     (if js_typeof str \<noteq> ''string'' then Inr fallback
      else bindE (js_String str) parse)"

definition safeJsonParse :: "json_parser \<Rightarrow> jsval \<Rightarrow> jsval \<Rightarrow> jsval" where
  "safeJsonParse parse str fallback =
     (case safeJsonParse_try parse str fallback of
        Inr v \<Rightarrow> v
      | Inl e \<Rightarrow> fallback)"

text \<open>A small parser for concrete instances: it knows three texts and rejects the rest.\<close>

definition quoted :: "string \<Rightarrow> string" where
  "quoted s = CHR 0x22 # s @ [CHR 0x22]"

definition toy_parse :: json_parser where
  "toy_parse s =
     (if s = ''[]'' then Inr (JArr [])
      else if s = ''['' @ quoted ''fecha'' @ '','' @ quoted ''object.run'' @ '']''
      then Inr (JArr [JStr ''fecha'', JStr ''object.run''])
      else if s = ''{}'' then Inr (JObj [])
      else Inl \<lparr>err_name = ''SyntaxError'', err_message = ''Unexpected token'',
                err_code = JUndefined, err_statusCode = JUndefined\<rparr>)"

section \<open>Dotted-path lookup\<close>

text \<open>
  \<^verbatim>\<open>getValueByPath(obj, path)\<close> of \<^verbatim>\<open>server.js\<close>. \<open>path.split\<close> throws when the path is
  not a string. The loop leaves with \<open>undefined\<close> as soon as the current value is
  \<open>undefined\<close> or \<open>null\<close>, is not of type object, or lacks the segment.
\<close>

fun getValueByPath_loop :: "realm \<Rightarrow> rval \<Rightarrow> string list \<Rightarrow> js_error + rval" where
  "getValueByPath_loop rt current [] = Inr current"
| "getValueByPath_loop rt current (segment # rest) =
     (if r_nullish current \<or> r_typeof current \<noteq> ''object'' then Inr (Data JUndefined)
      else bindE (js_in rt segment current) (\<lambda>present.
        if present then bindE (js_get rt current segment) (\<lambda>v. getValueByPath_loop rt v rest)
        else Inr (Data JUndefined)))"

definition getValueByPath :: "realm \<Rightarrow> jsval \<Rightarrow> jsval \<Rightarrow> js_error + rval" where
  "getValueByPath rt obj path =
     (case path of
        JStr p \<Rightarrow> getValueByPath_loop rt (Data obj) (split_on CHR ''.'' p)
      | _ \<Rightarrow> Inl (TypeError ''path.split is not a function''))"

text \<open>
  \<^verbatim>\<open>getByPath(obj, path)\<close> of the second variant: a falsy path gives \<open>undefined\<close>; the
  reduction goes through every segment, with
  \<^verbatim>\<open>acc && acc[key] !== undefined ? acc[key] : undefined\<close> as its step. The step reads
  the property of every truthy value, a built-in function included.
\<close>

definition getByPath_step :: "realm \<Rightarrow> rval \<Rightarrow> string \<Rightarrow> js_error + rval" where
  "getByPath_step rt acc key =
     (if r_truthy acc then
        bindE (js_get rt acc key) (\<lambda>v.
          if v \<noteq> Data JUndefined then js_get rt acc key else Inr (Data JUndefined))
      else Inr (Data JUndefined))"

fun reduceE :: "('b \<Rightarrow> 'a \<Rightarrow> js_error + 'b) \<Rightarrow> 'a list \<Rightarrow> 'b \<Rightarrow> js_error + 'b" where
  "reduceE f [] acc = Inr acc"
| "reduceE f (x # xs) acc = bindE (f acc x) (\<lambda>acc'. reduceE f xs acc')"

definition getByPath :: "realm \<Rightarrow> jsval \<Rightarrow> jsval \<Rightarrow> js_error + rval" where
  "getByPath rt obj path =
     (if truthy path then
        (case path of
           JStr p \<Rightarrow> reduceE (getByPath_step rt) (split_on CHR ''.'' p) (Data obj)
         | _ \<Rightarrow> Inl (TypeError ''path.split is not a function''))
      else Inr (Data JUndefined))"

text \<open>
  The specification's reading of a path: walk the segments, each one a step that either
  reaches a value or cannot be taken. What counts as a step that can be taken is each
  helper's own: \<^verbatim>\<open>getValueByPath\<close> steps through values of type object that have the
  segment (own or inherited), \<^verbatim>\<open>getByPath\<close> through truthy values whose property is not
  \<open>undefined\<close>.
\<close>

fun reach :: "(rval \<Rightarrow> string \<Rightarrow> rval option) \<Rightarrow> rval \<Rightarrow> string list \<Rightarrow> rval option" where
  "reach step v [] = Some v"
| "reach step v (k # ks) = (case step v k of None \<Rightarrow> None | Some w \<Rightarrow> reach step w ks)"

definition step_in :: "realm \<Rightarrow> rval \<Rightarrow> string \<Rightarrow> rval option" where
  "step_in rt v k =
     (if r_nullish v \<or> r_typeof v \<noteq> ''object'' then None
      else (case lookup_prop rt v k of Some (Inr w) \<Rightarrow> Some w | _ \<Rightarrow> None))"

definition step_get :: "realm \<Rightarrow> rval \<Rightarrow> string \<Rightarrow> rval option" where
  "step_get rt v k =
     (if r_truthy v then
        (case lookup_prop rt v k of
           Some (Inr w) \<Rightarrow> if w = Data JUndefined then None else Some w
         | _ \<Rightarrow> None)
      else None)"

definition or_undefined :: "rval option \<Rightarrow> rval" where
  "or_undefined r = (case r of None \<Rightarrow> Data JUndefined | Some v \<Rightarrow> v)"

text \<open>
  The walk of \<^verbatim>\<open>getByPath\<close> reads a property of a built-in function: it stands on one
  with a segment still to go.
\<close>

fun reads_function :: "realm \<Rightarrow> rval \<Rightarrow> string list \<Rightarrow> bool" where
  "reads_function rt v [] = False"
| "reads_function rt v (k # ks) =
     (case v of
        BFun f \<Rightarrow> True
      | _ \<Rightarrow> (case step_get rt v k of None \<Rightarrow> False | Some w \<Rightarrow> reads_function rt w ks))"

subsection \<open>A part of Node's built-ins\<close>

text \<open>
  For concrete instances: the prototype objects of data values with the properties of
  ECMAScript 5 (later editions add methods), and what every built-in function has.
  The name of a method is its key; \<open>constructor\<close> is the function named before
  \<open>.prototype\<close>; \<open>Function.prototype\<close> is the function with the empty name.
\<close>

definition object_methods :: "string list" where
  "object_methods =
     [''hasOwnProperty'', ''isPrototypeOf'', ''propertyIsEnumerable'', ''toLocaleString'',
      ''toString'', ''valueOf'', ''__defineGetter__'', ''__defineSetter__'',
      ''__lookupGetter__'', ''__lookupSetter__'']"

definition prototype_methods :: "string \<Rightarrow> string list" where
  "prototype_methods b =
     (if b = ''Array.prototype'' then
        [''concat'', ''every'', ''filter'', ''forEach'', ''indexOf'', ''join'', ''lastIndexOf'',
         ''map'', ''pop'', ''push'', ''reduce'', ''reduceRight'', ''reverse'', ''shift'',
         ''slice'', ''some'', ''sort'', ''splice'', ''unshift'']
      else if b = ''String.prototype'' then
        [''charAt'', ''charCodeAt'', ''concat'', ''indexOf'', ''lastIndexOf'', ''localeCompare'',
         ''match'', ''replace'', ''search'', ''slice'', ''split'', ''substr'', ''substring'',
         ''toLocaleLowerCase'', ''toLocaleUpperCase'', ''toLowerCase'', ''toUpperCase'',
         ''trim'']
      else if b = ''Number.prototype'' then [''toExponential'', ''toFixed'', ''toPrecision'']
      else [])"

definition node_object_prop :: "string \<Rightarrow> string \<Rightarrow> given option" where
  "node_object_prop b k =
     (if k = ''constructor'' then Some (GFun (takeWhile (\<lambda>c. c \<noteq> CHR ''.'') b))
      else if k = ''__proto__''
      then Some (if b = ''Object.prototype'' then GNull else GObj ''Object.prototype'')
      else if k = ''length'' \<and> (b = ''Array.prototype'' \<or> b = ''String.prototype'')
      then Some (GNum 0)
      else if k \<in> set (prototype_methods b @ object_methods) then Some (GFun k)
      else None)"

definition prototype_of :: "jsval \<Rightarrow> string option" where
  "prototype_of v =
     (case v of
        JObj kvs \<Rightarrow> Some ''Object.prototype''
      | JArr xs \<Rightarrow> Some ''Array.prototype''
      | JStr s \<Rightarrow> Some ''String.prototype''
      | JNum n \<Rightarrow> Some ''Number.prototype''
      | JBool b \<Rightarrow> Some ''Boolean.prototype''
      | _ \<Rightarrow> None)"

definition node_inherited :: "jsval \<Rightarrow> string \<Rightarrow> given option" where
  "node_inherited v k =
     (case prototype_of v of
        None \<Rightarrow> None
      | Some b \<Rightarrow> if k = ''__proto__'' then Some (GObj b) else node_object_prop b k)"

definition restricted_message :: string where
  "restricted_message =
     CHR 0x27 # ''caller', 'callee', and 'arguments' properties may not be accessed on strict mode functions or the arguments objects for calls to them''"

definition node_function_prop :: "string \<Rightarrow> string \<Rightarrow> (js_error + given) option" where
  "node_function_prop f k =
     (if k = ''caller'' \<or> k = ''arguments'' then Some (Inl (TypeError restricted_message))
      else if k = ''name'' then Some (Inr (GStr f))
      else if k = ''constructor'' then Some (Inr (GFun ''Function''))
      else if k = ''__proto__''
      then Some (Inr (if f = [] then GObj ''Object.prototype'' else GFun []))
      else if k = ''prototype''
      then (if f \<in> set [''Object'', ''Array'', ''String'', ''Number'', ''Boolean'']
            then Some (Inr (GObj (f @ ''.prototype'')))
            else if f = ''Function'' then Some (Inr (GFun []))
            else None)
      else if k \<in> set ([''apply'', ''bind'', ''call''] @ object_methods)
      then Some (Inr (GFun k))
      else None)"

definition node_object_text :: "string \<Rightarrow> string" where
  "node_object_text b =
     (if b = ''Object.prototype'' then ''[object Object]''
      else if b = ''Number.prototype'' then ''0''
      else if b = ''Boolean.prototype'' then ''false''
      else [])"

definition node_function_text :: "string \<Rightarrow> string" where
  "node_function_text f = ''function '' @ f @ ''() { [native code] }''"

definition node_realm :: realm where
  "node_realm =
     \<lparr>inherited = node_inherited, object_prop = node_object_prop,
      function_prop = node_function_prop, object_text = node_object_text,
      function_text = node_function_text\<rparr>"

section \<open>Upstream services and server state\<close>

text \<open>
  Calls to Google Sheets, Docs and Drive and to the CRM are the program's effects. Each
  call is recorded as an event in a trace, in the order the program issues it; what the
  service answers is an input (the record \<open>world\<close>), so that every theorem holds for every
  behaviour of the services. A sheet is a list of rows of formatted cell texts.
\<close>

type_synonym sheet = "string list list"

datatype event =
    SheetsGet string
  | DriveCopy jsval jsval
  | DriveGet string
  | Sleep nat
  | DocsBatchUpdate string "(string \<times> string) list"
  | DriveExport string
  | DriveCreate string jsval
  | DriveDelete string
  | SellNote jsval jsval string

record created_file =
  file_id :: jsval
  file_name :: jsval
  file_webViewLink :: jsval

record fetch_response =
  resp_ok :: bool
  resp_status :: nat
  resp_text :: string

record utc_date =
  year :: int
  month :: nat
  day :: nat

record world =
  now_start :: int
  now_store :: int
  sheets_result :: "js_error + (sheet option \<times> sheet option)"
  today :: utc_date
  copy_result :: "js_error + string"
  get_result :: "nat \<Rightarrow> js_error option"
  batchUpdate_result :: "js_error option"
  export_result :: "js_error + string"
  create_result :: "js_error + created_file"
  delete_result :: "nat \<Rightarrow> js_error option"
  fetch_result :: "js_error + fetch_response"
  authorize_result :: "js_error option"

record env =
  RENDER_API_KEY :: "string option"
  SHEETS_SPREADSHEET_ID :: "string option"
  SELL_PAT :: "string option"
  SELL_BASE_URL :: "string option"
  GOOGLE_CLIENT_EMAIL :: "string option"
  GOOGLE_PRIVATE_KEY :: "string option"

text \<open>An environment variable is falsy when it is unset or empty.\<close>

definition env_truthy :: "string option \<Rightarrow> bool" where
  "env_truthy v = (case v of None \<Rightarrow> False | Some s \<Rightarrow> s \<noteq> [])"

section \<open>Configuration loading\<close>

text \<open>
  \<open>obj[k] = v\<close> on a plain object, for a value that is a string or \<open>undefined\<close>: the
  property is replaced in place or appended; the name \<open>__proto__\<close> reaches the inherited
  setter, which ignores such values.
\<close>

fun set_own :: "string \<Rightarrow> jsval \<Rightarrow> (string \<times> jsval) list \<Rightarrow> (string \<times> jsval) list" where
  "set_own k v [] = [(k, v)]"
| "set_own k v ((k', v') # kvs) =
     (if k' = k then (k, v) # kvs else (k', v') # set_own k v kvs)"

definition assign_prop :: "(string \<times> jsval) list \<Rightarrow> string \<Rightarrow> jsval \<Rightarrow> (string \<times> jsval) list" where
  "assign_prop obj k v = (if k = ''__proto__'' then obj else set_own k v obj)"

definition cell_at :: "string list \<Rightarrow> nat \<Rightarrow> jsval" where
  "cell_at row i = (if i < length row then JStr (row ! i) else JUndefined)"

definition values_or_empty :: "sheet option \<Rightarrow> sheet" where
  "values_or_empty v = (case v of None \<Rightarrow> [] | Some rows \<Rightarrow> rows)"

subsection \<open>\<^verbatim>\<open>server.js\<close>\<close>

definition CONFIG_TTL_MS :: int where
  "CONFIG_TTL_MS = 60 * 1000"

record config_cache =
  expiresAt :: int
  data :: jsval

record server_state =
  configCache :: config_cache
  trace :: "event list"

definition initial_state :: server_state where
  "initial_state = \<lparr>configCache = \<lparr>expiresAt = 0, data = JNull\<rparr>, trace = []\<rparr>"

definition row_object :: "string list \<Rightarrow> string list \<Rightarrow> jsval" where
  "row_object header row =
     JObj (foldl (\<lambda>obj (column, index).
             assign_prop obj column
               (if is_nullish (cell_at row index) then JStr [] else cell_at row index))
           [] (zip header [0..<length header]))"

definition mapRowsToObjects :: "sheet \<Rightarrow> jsval list" where
  "mapRowsToObjects rows =
     (case rows of [] \<Rightarrow> [] | header # dataRows \<Rightarrow> map (row_object header) dataRows)"

definition template_of_row :: "json_parser \<Rightarrow> jsval \<Rightarrow> js_error + jsval" where
  "template_of_row parse row =
     bindE (js_String (js_prop row ''template_key'')) (\<lambda>key_text.
     bindE (parseJsonArray parse (js_prop row ''required_placeholders'')
              (''templates.'' @ key_text @ ''.required_placeholders'')) (\<lambda>required.
     bindE (parseBoolean (js_prop row ''keep_intermediate_doc'')) (\<lambda>keep.
       Inr (JObj
         [(''template_key'', js_prop row ''template_key''),
          (''display_name'', js_prop row ''display_name''),
          (''engine'', js_prop row ''engine''),
          (''doc_template_id'', js_prop row ''doc_template_id''),
          (''output_filename_pattern'', js_prop row ''output_filename_pattern''),
          (''required_placeholders'', required),
          (''default_package_key'', js_prop row ''default_package_key''),
          (''keep_intermediate_doc'', JBool keep),
          (''version'', js_prop row ''version''),
          (''is_active'', JBool True),
          (''notes'', js_prop row ''notes'')]))))"

definition normalizeTemplates :: "json_parser \<Rightarrow> sheet \<Rightarrow> js_error + jsval list" where
  "normalizeTemplates parse rows =
     bindE (filterE (\<lambda>row. parseBoolean (js_prop row ''is_active'')) (mapRowsToObjects rows))
       (mapE (template_of_row parse))"

definition package_of_row :: "json_parser \<Rightarrow> jsval \<Rightarrow> js_error + jsval" where
  "package_of_row parse row =
     bindE (js_String (js_prop row ''package_key'')) (\<lambda>key_text.
     bindE (parseJsonArray parse (js_prop row ''exams'')
              (''exam_packages.'' @ key_text @ ''.exams'')) (\<lambda>exams.
       Inr (JObj
         [(''package_key'', js_prop row ''package_key''),
          (''display_name'', js_prop row ''display_name''),
          (''exams'', exams),
          (''default_template_key'', js_prop row ''default_template_key''),
          (''version'', js_prop row ''version''),
          (''is_active'', JBool True),
          (''notes'', js_prop row ''notes'')])))"

definition normalizeExamPackages :: "json_parser \<Rightarrow> sheet \<Rightarrow> js_error + jsval list" where
  "normalizeExamPackages parse rows =
     bindE (filterE (\<lambda>row. parseBoolean (js_prop row ''is_active'')) (mapRowsToObjects rows))
       (mapE (package_of_row parse))"

text \<open>
  \<^verbatim>\<open>loadConfig()\<close> of \<^verbatim>\<open>server.js\<close>. Both reads are issued before either is awaited;
  \<open>sheets_result\<close> is what \<open>Promise.all\<close> gives. The clock is read once for the test
  (\<open>now_start\<close>) and once more when the result is stored (\<open>now_store\<close>).
\<close>

definition build_config :: "json_parser \<Rightarrow> sheet \<Rightarrow> sheet \<Rightarrow> js_error + jsval" where
  "build_config parse templatesRows packagesRows =
     bindE (normalizeTemplates parse templatesRows) (\<lambda>templates.
     bindE (normalizeExamPackages parse packagesRows) (\<lambda>packages.
       Inr (JObj [(''templates'', JArr templates), (''exam_packages'', JArr packages)])))"

definition loadConfig :: "json_parser \<Rightarrow> world \<Rightarrow> server_state \<Rightarrow> (js_error + jsval) \<times> server_state" where
  "loadConfig parse w st =
     (if truthy (data (configCache st)) \<and> now_start w < expiresAt (configCache st)
      then (Inr (data (configCache st)), st)
      else
        (let st1 = st\<lparr>trace := trace st @
                      [SheetsGet ''templates!A:Z'', SheetsGet ''exam_packages!A:Z'']\<rparr>
         in case sheets_result w of
              Inl e \<Rightarrow> (Inl e, st1)
            | Inr (templatesValues, packagesValues) \<Rightarrow>
                (case build_config parse (values_or_empty templatesValues)
                        (values_or_empty packagesValues) of
                   Inl e \<Rightarrow> (Inl e, st1)
                 | Inr config \<Rightarrow>
                     (Inr config,
                      st1\<lparr>configCache :=
                            \<lparr>expiresAt = now_store w + CONFIG_TTL_MS, data = config\<rparr>\<rparr>))))"

subsection \<open>Second variant\<close>

record config_cache2 =
  ts :: int
  ttlMs :: int
  data2 :: jsval

record server_state2 =
  CONFIG_CACHE :: config_cache2
  trace2 :: "event list"

definition initial_state2 :: server_state2 where
  "initial_state2 = \<lparr>CONFIG_CACHE = \<lparr>ts = 0, ttlMs = 60000, data2 = JNull\<rparr>, trace2 = []\<rparr>"

text \<open>
  \<^verbatim>\<open>rowsToObjects(values)\<close>: fewer than two rows give nothing, header cells are trimmed,
  rows whose cells are all blank are dropped, and a cell beyond the end of a short row is
  \<open>undefined\<close>.
\<close>

definition row_object2 :: "string list \<Rightarrow> string list \<Rightarrow> jsval" where
  "row_object2 headers r =
     JObj (foldl (\<lambda>obj (h, i). assign_prop obj h (cell_at r i))
           [] (zip headers [0..<length headers]))"

definition rowsToObjects :: "sheet option \<Rightarrow> jsval list" where
  "rowsToObjects values =
     (let rows = values_or_empty values
      in if length rows < 2 then []
         else (let headers = map trim (hd rows)
               in map (row_object2 headers)
                    (filter (\<lambda>r. list_ex (\<lambda>cell. trim cell \<noteq> []) r) (tl rows))))"

definition template_of_raw :: "json_parser \<Rightarrow> jsval \<Rightarrow> js_error + jsval" where
  "template_of_raw parse t =
     bindE (toBool (js_prop t ''keep_intermediate_doc'')) (\<lambda>keep.
     bindE (toBool (js_prop t ''is_active'')) (\<lambda>active.
       Inr (JObj
         [(''template_key'', js_prop t ''template_key''),
          (''display_name'', js_prop t ''display_name''),
          (''engine'', js_prop t ''engine''),
          (''doc_template_id'', js_prop t ''doc_template_id''),
          (''output_filename_pattern'', js_prop t ''output_filename_pattern''),
          (''required_placeholders'',
             safeJsonParse parse (js_prop t ''required_placeholders'') (JArr [])),
          (''default_package_key'', js_prop t ''default_package_key''),
          (''keep_intermediate_doc'', JBool keep),
          (''version'', js_prop t ''version''),
          (''is_active'', JBool active),
          (''notes'', js_prop t ''notes'')])))"

definition package_of_raw :: "json_parser \<Rightarrow> jsval \<Rightarrow> js_error + jsval" where
  "package_of_raw parse p =
     bindE (toBool (js_prop p ''is_active'')) (\<lambda>active.
       Inr (JObj
         [(''package_key'', js_prop p ''package_key''),
          (''display_name'', js_prop p ''display_name''),
          (''exams'', safeJsonParse parse (js_prop p ''exams'') (JArr [])),
          (''default_template_key'', js_prop p ''default_template_key''),
          (''version'', js_prop p ''version''),
          (''is_active'', JBool active),
          (''notes'', js_prop p ''notes'')]))"

text \<open>
  \<open>Object.fromEntries\<close>: the key is converted to a string, and a later entry for a key
  replaces the earlier one.
\<close>

fun fromEntries :: "(jsval \<times> jsval) list \<Rightarrow> (string \<times> jsval) list \<Rightarrow> js_error + jsval" where
  "fromEntries [] obj = Inr (JObj obj)"
| "fromEntries ((k, v) # es) obj =
     bindE (js_String k) (\<lambda>key. fromEntries es (set_own key v obj))"

definition build_config2 :: "json_parser \<Rightarrow> sheet option \<Rightarrow> sheet option \<Rightarrow> js_error + jsval" where
  "build_config2 parse templatesValues packagesValues =
     bindE (mapE (template_of_raw parse) (rowsToObjects templatesValues)) (\<lambda>mapped.
     bindE (mapE (package_of_raw parse) (rowsToObjects packagesValues)) (\<lambda>mappedp.
       (let templates = filter (\<lambda>t. truthy (js_prop t ''is_active'')) mapped;
            exam_packages = filter (\<lambda>p. truthy (js_prop p ''is_active'')) mappedp
        in bindE (fromEntries (map (\<lambda>t. (js_prop t ''template_key'', t)) templates) [])
             (\<lambda>byTemplateKey.
           bindE (fromEntries (map (\<lambda>p. (js_prop p ''package_key'', p)) exam_packages) [])
             (\<lambda>byPackageKey.
             Inr (JObj [(''templates'', JArr templates),
                        (''exam_packages'', JArr exam_packages),
                        (''byTemplateKey'', byTemplateKey),
                        (''byPackageKey'', byPackageKey)]))))))"

text \<open>
  \<^verbatim>\<open>loadConfig(clients)\<close> of the second variant. The clock is read once, at the start,
  and that reading is what the cache stores as its time stamp.
\<close>

definition loadConfig2 :: "json_parser \<Rightarrow> env \<Rightarrow> world \<Rightarrow> server_state2 \<Rightarrow> (js_error + jsval) \<times> server_state2" where
  "loadConfig2 parse ev w st =
     (let now = now_start w
      in if truthy (data2 (CONFIG_CACHE st)) \<and> now - ts (CONFIG_CACHE st) < ttlMs (CONFIG_CACHE st)
         then (Inr (data2 (CONFIG_CACHE st)), st)
         else if \<not> env_truthy (SHEETS_SPREADSHEET_ID ev)
         then (Inl (Error ''Missing env: SHEETS_SPREADSHEET_ID''), st)
         else
           (let st1 = st\<lparr>trace2 := trace2 st @
                         [SheetsGet ''templates!A:K'', SheetsGet ''exam_packages!A:G'']\<rparr>
            in case sheets_result w of
                 Inl e \<Rightarrow> (Inl e, st1)
               | Inr (templatesValues, packagesValues) \<Rightarrow>
                   (case build_config2 parse templatesValues packagesValues of
                      Inl e \<Rightarrow> (Inl e, st1)
                    | Inr config \<Rightarrow>
                        (Inr config,
                         st1\<lparr>CONFIG_CACHE := (CONFIG_CACHE st1)\<lparr>data2 := config, ts := now\<rparr>\<rparr>))))"

section \<open>Predicates of the configuration claims\<close>

text \<open>The elements of an array value (nothing for any other value).\<close>

definition elems :: "jsval \<Rightarrow> jsval list" where
  "elems v = (case v of JArr xs \<Rightarrow> xs | _ \<Rightarrow> [])"

definition is_active_record :: "jsval \<Rightarrow> bool" where
  "is_active_record r = (js_prop r ''is_active'' = JBool True)"

definition all_active :: "jsval \<Rightarrow> bool" where
  "all_active config =
     (list_all is_active_record (elems (js_prop config ''templates''))
      \<and> list_all is_active_record (elems (js_prop config ''exam_packages'')))"

definition cache_active :: "jsval \<Rightarrow> bool" where
  "cache_active d = (if truthy d then all_active d else True)"

text \<open>
  A concrete world, environment and sheet for the instances below: one active and one
  inactive row in each tab, every upstream call succeeding.
\<close>

definition example_world :: world where
  "example_world =
     \<lparr>now_start = 1000, now_store = 1500,
      sheets_result = Inr
        (Some [[''template_key'', ''is_active'', ''required_placeholders'', ''doc_template_id''],
               [''ORDEN'', ''TRUE'', ''[]'', ''doc1''],
               [''VIEJO'', ''no'', ''[]'', ''doc2'']],
         Some [[''package_key'', ''is_active'', ''default_template_key'', ''exams''],
               [''PRE_PAD'', ''yes'', ''ORDEN'', ''[]''],
               [''OLD'', ''0'', ''VIEJO'', ''[]'']]),
      today = \<lparr>year = 2025, month = 5, day = 20\<rparr>,
      copy_result = Inr ''tmp1'',
      get_result = (\<lambda>n. None),
      batchUpdate_result = None,
      export_result = Inr ''%PDF'',
      create_result = Inr \<lparr>file_id = JStr ''pdf1'', file_name = JStr ''out.pdf'',
                           file_webViewLink = JStr ''https://drive/pdf1''\<rparr>,
      delete_result = (\<lambda>n. None),
      fetch_result = Inr \<lparr>resp_ok = True, resp_status = 200, resp_text = ''{}''\<rparr>,
      authorize_result = None\<rparr>"

definition example_env :: env where
  "example_env =
     \<lparr>RENDER_API_KEY = Some ''secret'', SHEETS_SPREADSHEET_ID = Some ''sheet1'',
      SELL_PAT = Some ''pat'', SELL_BASE_URL = Some ''https://api.getbase.com'',
      GOOGLE_CLIENT_EMAIL = Some ''svc@example.com'', GOOGLE_PRIVATE_KEY = Some ''key''\<rparr>"


text \<open>
  The test at the head of each \<^verbatim>\<open>loadConfig\<close>, and the two reads each variant issues
  when the test fails.
\<close>

definition cache_hit :: "world \<Rightarrow> server_state \<Rightarrow> bool" where
  "cache_hit w st = (truthy (data (configCache st)) \<and> now_start w < expiresAt (configCache st))"

definition cache_hit2 :: "world \<Rightarrow> server_state2 \<Rightarrow> bool" where
  "cache_hit2 w st =
     (truthy (data2 (CONFIG_CACHE st)) \<and> now_start w - ts (CONFIG_CACHE st) < ttlMs (CONFIG_CACHE st))"

definition sheet_reads :: "event list" where
  "sheet_reads = [SheetsGet ''templates!A:Z'', SheetsGet ''exam_packages!A:Z'']"

definition sheet_reads2 :: "event list" where
  "sheet_reads2 = [SheetsGet ''templates!A:K'', SheetsGet ''exam_packages!A:G'']"

text \<open>
  A load that starts at clock reading 0 and stores its result at 5000, and a later call
  whose clock reads \<open>t\<close>.
\<close>

definition slow_load_world :: world where
  "slow_load_world = example_world\<lparr>now_start := 0, now_store := 5000\<rparr>"

definition later_world :: "int \<Rightarrow> world" where
  "later_world t = example_world\<lparr>now_start := t, now_store := t\<rparr>"

section \<open>Template resolution\<close>

text \<open>
  \<open>a === b\<close> between a configuration value and a payload value: two objects are never
  the same object, everything else compares by value.
\<close>

definition strict_eq :: "jsval \<Rightarrow> jsval \<Rightarrow> bool" where
  "strict_eq a b = (if is_object a \<or> is_object b then False else a = b)"

definition js_find :: "(jsval \<Rightarrow> bool) \<Rightarrow> jsval list \<Rightarrow> jsval" where
  "js_find p xs = (case List.find p xs of Some x \<Rightarrow> x | None \<Rightarrow> JUndefined)"

text \<open>\<^verbatim>\<open>resolveTemplate(config, payload)\<close> of \<^verbatim>\<open>server.js\<close>; \<open>find\<close> gives the first match or \<open>undefined\<close>.\<close>

definition resolveTemplate :: "jsval \<Rightarrow> jsval \<Rightarrow> jsval" where
  "resolveTemplate config payload =
     (if truthy (js_prop payload ''template_key'') then
        js_find (\<lambda>t. strict_eq (js_prop t ''template_key'') (js_prop payload ''template_key''))
          (elems (js_prop config ''templates''))
      else if \<not> truthy (js_prop payload ''package_key'') then JNull
      else
        (let examPackage =
               js_find (\<lambda>p. strict_eq (js_prop p ''package_key'') (js_prop payload ''package_key''))
                 (elems (js_prop config ''exam_packages''))
         in if \<not> truthy examPackage then JNull
            else js_find (\<lambda>t. strict_eq (js_prop t ''template_key'')
                                (js_prop examPackage ''default_template_key''))
                   (elems (js_prop config ''templates''))))"

text \<open>
  The second variant resolves inside the route, through the index objects
  \<open>byTemplateKey\<close> and \<open>byPackageKey\<close>. \<open>obj[k]\<close> converts the key to a string and
  then looks at own and inherited properties, so what it finds is a record of the index
  or a built-in.
\<close>

definition index_get :: "realm \<Rightarrow> jsval \<Rightarrow> jsval \<Rightarrow> js_error + rval" where
  "index_get rt obj k = bindE (js_String k) (\<lambda>key. js_get rt (Data obj) key)"

definition resolveTemplate2 :: "realm \<Rightarrow> jsval \<Rightarrow> jsval \<Rightarrow> js_error + rval" where
  "resolveTemplate2 rt config payload =
     (let templateKey = js_prop payload ''template_key'';
          packageKey = js_prop payload ''package_key''
      in bindE (if truthy templateKey
                then index_get rt (js_prop config ''byTemplateKey'') templateKey
                else Inr (Data JNull)) (\<lambda>template.
           if \<not> r_truthy template \<and> truthy packageKey then
             bindE (index_get rt (js_prop config ''byPackageKey'') packageKey) (\<lambda>pkg.
               if truthy (r_prop pkg ''default_template_key'')
               then index_get rt (js_prop config ''byTemplateKey'')
                      (r_prop pkg ''default_template_key'')
               else Inr template)
           else Inr template))"







text \<open>
  Keys that are strings, and lookups that do not hit a name inherited from
  \<open>Object.prototype\<close>.
\<close>

fun is_str :: "jsval \<Rightarrow> bool" where
  "is_str (JStr s) = True"
| "is_str JUndefined = False"
| "is_str JNull = False"
| "is_str (JBool b) = False"
| "is_str (JNum n) = False"
| "is_str (JArr xs) = False"
| "is_str (JObj kvs) = False"

definition str_or_absent :: "jsval \<Rightarrow> bool" where
  "str_or_absent v = (v = JUndefined \<or> is_str v)"

definition example_config2 :: jsval where
  "example_config2 =
     (case fst (loadConfig2 toy_parse example_env example_world initial_state2) of
        Inr c \<Rightarrow> c | Inl e \<Rightarrow> JNull)"

definition example_config :: jsval where
  "example_config =
     (case fst (loadConfig toy_parse example_world initial_state) of
        Inr c \<Rightarrow> c | Inl e \<Rightarrow> JNull)"





section \<open>File names\<close>

text \<open>
  \<open>s.padStart(n, c)\<close>, and the head of \<open>date.toISOString()\<close>: the year with four digits
  when it lies in 0..9999 and with a sign and six digits otherwise, then month and day
  with two digits each and the letter T (the time of day follows; the first ten
  characters never reach it).
\<close>

definition padStart :: "nat \<Rightarrow> char \<Rightarrow> string \<Rightarrow> string" where
  "padStart n c s = replicate (n - length s) c @ s"

definition iso_year :: "int \<Rightarrow> string" where
  "iso_year y =
     (if 0 \<le> y \<and> y \<le> 9999 then padStart 4 CHR ''0'' (nat_dec (nat y))
      else (if y < 0 then ''-'' else ''+'') @ padStart 6 CHR ''0'' (nat_dec (nat \<bar>y\<bar>)))"

definition toISOString_head :: "utc_date \<Rightarrow> string" where
  "toISOString_head d =
     iso_year (year d) @ ''-'' @ padStart 2 CHR ''0'' (nat_dec (month d)) @ ''-''
       @ padStart 2 CHR ''0'' (nat_dec (day d)) @ ''T''"

text \<open>\<open>s.replace(/{YYYYMMDD}/g, r)\<close>: every occurrence, left to right, not overlapping.\<close>

function replace_date_token :: "string \<Rightarrow> string \<Rightarrow> string" where
  "replace_date_token r [] = []"
| "replace_date_token r (c # cs) =
     (if prefix ''{YYYYMMDD}'' (c # cs) then r @ replace_date_token r (drop 9 cs)
      else c # replace_date_token r cs)"
  by pat_completeness auto
termination
  by (relation "measure (\<lambda>(r, s). length s)") auto

text \<open>
  \<open>s.replace(/{([^}]+)}/g, f)\<close>: at an opening brace followed by at least one character
  other than a closing brace and then a closing brace, the callback's result replaces the
  token; anywhere else the character is kept. The callback runs for each token in order,
  and what it throws leaves the replacement.
\<close>

function replace_tokens :: "(string \<Rightarrow> js_error + string) \<Rightarrow> string \<Rightarrow> js_error + string" where
  "replace_tokens f [] = Inr []"
| "replace_tokens f (c # cs) =
     (if c = CHR ''{'' \<and> takeWhile (\<lambda>x. x \<noteq> CHR ''}'') cs \<noteq> []
           \<and> dropWhile (\<lambda>x. x \<noteq> CHR ''}'') cs \<noteq> []
      then bindE (f (takeWhile (\<lambda>x. x \<noteq> CHR ''}'') cs)) (\<lambda>r.
             bindE (replace_tokens f (tl (dropWhile (\<lambda>x. x \<noteq> CHR ''}'') cs))) (\<lambda>s.
               Inr (r @ s)))
      else bindE (replace_tokens f cs) (\<lambda>s. Inr (c # s)))"
  by pat_completeness auto
termination
  by (relation "measure (\<lambda>(f, s). length s)")
    (auto simp: length_dropWhile_le less_Suc_eq_le intro: le_trans [OF diff_le_self])

declare replace_date_token.simps [simp del] replace_tokens.simps [simp del]

text \<open>\<open>s.replace(/[\\/]/g, '_')\<close>.\<close>

definition is_separator :: "char \<Rightarrow> bool" where
  "is_separator c = (c = CHR ''/'' \<or> c = CHR 0x5C)"

definition sanitize :: "string \<Rightarrow> string" where
  "sanitize s = map (\<lambda>c. if is_separator c then CHR ''_'' else c) s"

text \<open>
  The last line of both builders:
  \<^verbatim>\<open>name.toLowerCase().endsWith('.pdf') ? name : name + '.pdf'\<close>.
\<close>

definition ensure_pdf :: "string \<Rightarrow> string" where
  "ensure_pdf s = (if endsWith (toLowerCase s) ''.pdf'' then s else s @ ''.pdf'')"

text \<open>
  \<^verbatim>\<open>buildPdfFileName(pattern, payload)\<close> of \<^verbatim>\<open>server.js\<close>. The pattern is a cell text or
  \<open>undefined\<close>; any other truthy value has no \<open>replace\<close> method.
\<close>

definition dateToken :: "utc_date \<Rightarrow> string" where
  "dateToken d = filter (\<lambda>c. c \<noteq> CHR ''-'') (take 10 (toISOString_head d))"

definition token_value :: "realm \<Rightarrow> jsval \<Rightarrow> string \<Rightarrow> js_error + string" where
  "token_value rt payload tokenPath =
     bindE (getValueByPath rt payload (JStr tokenPath)) (\<lambda>v.
       if r_nullish v then Inr [] else r_String rt v)"

definition buildPdfFileName :: "realm \<Rightarrow> utc_date \<Rightarrow> jsval \<Rightarrow> jsval \<Rightarrow> js_error + string" where
  "buildPdfFileName rt now pattern payload =
     (case (if truthy pattern then pattern else JStr ''documento_{YYYYMMDD}'') of
        JStr p \<Rightarrow>
          bindE (replace_tokens (token_value rt payload)
                   (replace_date_token (dateToken now) p)) (\<lambda>expanded.
            (let base = trim (sanitize expanded);
                 finalName = (if base \<noteq> [] then base else ''documento_'' @ dateToken now)
             in Inr (ensure_pdf finalName)))
      | _ \<Rightarrow> Inl (TypeError ''pattern.replace is not a function''))"

text \<open>
  \<^verbatim>\<open>fmtYYYYMMDD\<close> and \<^verbatim>\<open>buildFilename(pattern, payload)\<close> of the second variant (the
  date is the local calendar date there).
\<close>

definition fmtYYYYMMDD :: "utc_date \<Rightarrow> string" where
  "fmtYYYYMMDD d =
     int_dec (year d) @ padStart 2 CHR ''0'' (nat_dec (month d))
       @ padStart 2 CHR ''0'' (nat_dec (day d))"

definition token_value2 :: "realm \<Rightarrow> string \<Rightarrow> jsval \<Rightarrow> string \<Rightarrow> js_error + string" where
  "token_value2 rt ymd payload token =
     (let t = trim token
      in if t = ''YYYYMMDD'' then Inr ymd
         else bindE (getByPath rt payload (JStr t)) (\<lambda>val.
                if val = Data JUndefined \<or> val = Data JNull \<or> val = Data (JStr [])
                then Inr ''NA''
                else r_String rt val))"

definition buildFilename :: "realm \<Rightarrow> utc_date \<Rightarrow> jsval \<Rightarrow> jsval \<Rightarrow> js_error + string" where
  "buildFilename rt now pattern payload =
     bindE (js_String (if truthy pattern then pattern
                       else JStr ''output_{YYYYMMDD}_{object.run}'')) (\<lambda>p.
     bindE (replace_tokens (token_value2 rt (fmtYYYYMMDD now) payload) p) (\<lambda>expanded.
       (let base = sanitize expanded
        in Inr (ensure_pdf base))))"

text \<open>
  A value is plain when no object in it has an own property \<open>toString\<close>: every value of
  parsed JSON is, unless it uses that key.
\<close>

fun plain :: "jsval \<Rightarrow> bool" where
  "plain (JArr xs) = list_all plain xs"
| "plain (JObj kvs) = (''toString'' \<notin> set (map fst kvs) \<and> list_all plain (map snd kvs))"
| "plain JUndefined = True"
| "plain JNull = True"
| "plain (JBool b) = True"
| "plain (JNum n) = True"
| "plain (JStr s) = True"

fun r_plain :: "rval \<Rightarrow> bool" where
  "r_plain (Data v) = plain v"
| "r_plain (BObj b) = True"
| "r_plain (BFun f) = True"

text \<open>
  The tokens of a pattern, in the order in which \<open>replace\<close> hands them to the
  callback, and the text each builder expands: the pattern, or the default when the
  pattern is missing or empty.
\<close>

function tokens_of :: "string \<Rightarrow> string list" where
  "tokens_of [] = []"
| "tokens_of (c # cs) =
     (if c = CHR ''{'' \<and> takeWhile (\<lambda>x. x \<noteq> CHR ''}'') cs \<noteq> []
           \<and> dropWhile (\<lambda>x. x \<noteq> CHR ''}'') cs \<noteq> []
      then takeWhile (\<lambda>x. x \<noteq> CHR ''}'') cs
             # tokens_of (tl (dropWhile (\<lambda>x. x \<noteq> CHR ''}'') cs))
      else tokens_of cs)"
  by pat_completeness auto
termination
  by (relation "measure length")
    (auto simp: length_dropWhile_le less_Suc_eq_le intro: le_trans [OF diff_le_self])

declare tokens_of.simps [simp del]

definition pattern_text :: "string \<Rightarrow> jsval \<Rightarrow> string" where
  "pattern_text dflt pattern =
     (if truthy pattern then (case pattern of JStr p \<Rightarrow> p | _ \<Rightarrow> dflt) else dflt)"

text \<open>No token of the text is a path whose walk reads a property of a built-in function.\<close>

definition tokens_stay :: "realm \<Rightarrow> jsval \<Rightarrow> string \<Rightarrow> bool" where
  "tokens_stay rt payload text =
     list_all (\<lambda>t. \<not> reads_function rt (Data payload) (split_on CHR ''.'' (trim t)))
       (tokens_of text)"

definition no_separator :: "string \<Rightarrow> bool" where
  "no_separator s = (list_all (\<lambda>c. \<not> is_separator c) s)"

text \<open>The request of the README's example.\<close>

definition example_payload :: jsval where
  "example_payload =
     JObj [(''template_key'', JStr ''ORDEN''), (''package_key'', JStr ''PRE_PAD''),
           (''fecha'', JStr ''20 de Mayo, 2025''),
           (''object'', JObj [(''run'', JStr ''12.345.678-9''), (''nombres'', JStr ''JUANA'')]),
           (''deal'', JObj [(''id'', JNum 123), (''folder_id'', JStr ''FOLDER'')])]"

section \<open>Routes of \<^verbatim>\<open>server.js\<close>\<close>

text \<open>
  A response is the status given to \<open>res.status\<close> (200 when the handler calls
  \<open>res.json\<close> directly) and the JSON body.
\<close>

record response =
  status :: jsval
  body :: jsval

definition respond :: "int \<Rightarrow> jsval \<Rightarrow> response" where
  "respond code b = \<lparr>status = JNum code, body = b\<rparr>"

definition error_body :: "string \<Rightarrow> jsval" where
  "error_body msg = JObj [(''error'', JStr msg)]"

text \<open>
  \<^verbatim>\<open>requireApiKey(req, res, next)\<close>: \<open>None\<close> stands for the call of \<open>next()\<close>, after which
  the handler runs; the header is absent (\<open>undefined\<close>) or a string.
\<close>

definition requireApiKey :: "env \<Rightarrow> string option \<Rightarrow> response option" where
  "requireApiKey ev header =
     (if \<not> env_truthy (RENDER_API_KEY ev) then None
      else if header \<noteq> RENDER_API_KEY ev then Some (respond 401 (error_body ''Unauthorized''))
      else None)"

text \<open>\<^verbatim>\<open>createSellNote(payload, template, pdf)\<close>; \<open>Inr JNull\<close> is the early \<open>return null\<close>.\<close>

definition destructure_default :: "jsval \<Rightarrow> string \<Rightarrow> jsval" where
  "destructure_default payload k =
     (if js_prop payload k = JUndefined then JObj [] else js_prop payload k)"

definition read_field :: "jsval \<Rightarrow> string \<Rightarrow> js_error + jsval" where
  "read_field v k =
     (if is_nullish v then Inl (TypeError ''Cannot read properties of null'')
      else Inr (js_prop v k))"

definition sell_note_lines ::
    "jsval \<Rightarrow> jsval \<Rightarrow> jsval \<Rightarrow> jsval \<Rightarrow> js_error + string list" where
  "sell_note_lines payload template pdf actor =
     bindE (js_String (if truthy (js_prop template ''display_name'')
                       then js_prop template ''display_name''
                       else js_prop template ''template_key'')) (\<lambda>tname.
     bindE (js_String (js_prop pdf ''name'')) (\<lambda>pname.
     bindE (js_String (js_prop pdf ''web_view_url'')) (\<lambda>plink.
     bindE (if truthy (js_prop payload ''package_key'')
            then bindE (js_String (js_prop payload ''package_key''))
                   (\<lambda>k. Inr [''Package: '' @ k])
            else Inr []) (\<lambda>pkg_line.
     bindE (read_field actor ''email'') (\<lambda>email.
     bindE (if truthy email
            then bindE (js_String email) (\<lambda>m. Inr [''Actor: '' @ m])
            else Inr []) (\<lambda>actor_line.
       Inr ([''Template: '' @ tname, ''PDF: '' @ pname, ''Link: '' @ plink]
              @ pkg_line @ actor_line)))))))"

definition sell_note_request ::
    "env \<Rightarrow> jsval \<Rightarrow> jsval \<Rightarrow> jsval \<Rightarrow> js_error + (jsval \<times> jsval \<times> string) option" where
  "sell_note_request ev payload template pdf =
     (let sell = destructure_default payload ''sell'';
          actor = destructure_default payload ''actor''
      in bindE (read_field sell ''resource_type'') (\<lambda>resource_type.
         bindE (if truthy resource_type then read_field sell ''resource_id''
                else Inr JUndefined) (\<lambda>resource_id.
           if \<not> truthy resource_type \<or> \<not> truthy resource_id then Inr None
           else if \<not> env_truthy (SELL_PAT ev) \<or> \<not> env_truthy (SELL_BASE_URL ev)
           then Inl (Error ''SELL_PAT and SELL_BASE_URL are required to create Sell notes'')
           else bindE (sell_note_lines payload template pdf actor) (\<lambda>lines.
                  Inr (Some (resource_type, resource_id, join_with [CHR 0x0A] lines))))))"

definition createSellNote ::
    "json_parser \<Rightarrow> env \<Rightarrow> world \<Rightarrow> jsval \<Rightarrow> jsval \<Rightarrow> jsval \<Rightarrow> (js_error + jsval) \<times> event list" where
  "createSellNote parse ev w payload template pdf =
     (case sell_note_request ev payload template pdf of
        Inl e \<Rightarrow> (Inl e, [])
      | Inr None \<Rightarrow> (Inr JNull, [])
      | Inr (Some (resource_type, resource_id, content)) \<Rightarrow>
          ((case fetch_result w of
              Inl e \<Rightarrow> Inl e
            | Inr resp \<Rightarrow>
                if \<not> resp_ok resp
                then Inl (Error (''Sell note creation failed: '' @ nat_dec (resp_status resp)
                                  @ '' '' @ resp_text resp))
                else parse (resp_text resp)),
           [SellNote resource_type resource_id content]))"

text \<open>
  The body of the \<open>try\<close> block of \<^verbatim>\<open>POST /v1/render\<close>, after the configuration is loaded.
  It returns the response or the thrown error, the events, the value of \<open>copiedDocId\<close>
  when it leaves (the empty string stands for both \<open>undefined\<close> and \<open>null\<close>: all are
  falsy) and the number of delete calls made.
\<close>

record render_exit =
  outcome :: "js_error + response"
  events :: "event list"
  copiedDocId :: string
  deletes :: nat

definition is_missing :: "rval \<Rightarrow> bool" where
  "is_missing value =
     (value = Data JUndefined \<or> value = Data JNull \<or> value = Data (JStr []))"

definition missing_placeholders :: "realm \<Rightarrow> jsval \<Rightarrow> jsval list \<Rightarrow> js_error + jsval list" where
  "missing_placeholders rt payload paths =
     filterE (\<lambda>path. bindE (getValueByPath rt payload path) (\<lambda>value. Inr (is_missing value)))
       paths"

definition replace_requests :: "realm \<Rightarrow> jsval \<Rightarrow> jsval list \<Rightarrow> js_error + (string \<times> string) list" where
  "replace_requests rt payload paths =
     mapE (\<lambda>path.
       bindE (js_String path) (\<lambda>p.
       bindE (getValueByPath rt payload path) (\<lambda>value.
       bindE (r_String rt value) (\<lambda>text. Inr (''{{'' @ p @ ''}}'', text))))) paths"

definition payload_folder :: "jsval \<Rightarrow> jsval" where
  "payload_folder payload =
     (if truthy (js_prop (js_prop payload ''deal'') ''folder_id'')
      then js_prop (js_prop payload ''deal'') ''folder_id''
      else js_prop payload ''folder_id'')"

definition parents_of :: "jsval \<Rightarrow> jsval" where
  "parents_of folderId = (if truthy folderId then JArr [folderId] else JUndefined)"

definition leave :: "js_error + response \<Rightarrow> event list \<Rightarrow> string \<Rightarrow> nat \<Rightarrow> render_exit" where
  "leave r evs doc n = \<lparr>outcome = r, events = evs, copiedDocId = doc, deletes = n\<rparr>"

definition after_upload ::
    "json_parser \<Rightarrow> env \<Rightarrow> world \<Rightarrow> jsval \<Rightarrow> jsval \<Rightarrow> created_file \<Rightarrow> event list \<Rightarrow> string \<Rightarrow> nat
      \<Rightarrow> render_exit" where
  "after_upload parse ev w payload template created evs doc n =
     (let pdf = JObj [(''file_id'', file_id created), (''name'', file_name created),
                      (''web_view_url'', file_webViewLink created)]
      in case createSellNote parse ev w payload template pdf of
           (Inl e, evs') \<Rightarrow> leave (Inl e) (evs @ evs') doc n
         | (Inr note, evs') \<Rightarrow>
             leave (Inr (respond 200
                      (if truthy note then JObj [(''pdf'', pdf), (''note'', note)]
                       else JObj [(''pdf'', pdf)])))
               (evs @ evs') doc n)"

definition render_try ::
    "json_parser \<Rightarrow> realm \<Rightarrow> env \<Rightarrow> world \<Rightarrow> jsval \<Rightarrow> jsval \<Rightarrow> render_exit" where
  "render_try parse rt ev w config payload =
     (let template = resolveTemplate config payload
      in if \<not> truthy template
         then leave (Inr (respond 400
                (error_body ''Unable to resolve template from template_key/package_key''))) [] [] 0
         else
           (case js_prop template ''required_placeholders'' of
              JArr paths \<Rightarrow>
                (case missing_placeholders rt payload paths of
                   Inl e \<Rightarrow> leave (Inl e) [] [] 0
                 | Inr missing \<Rightarrow>
                     if missing \<noteq> []
                     then leave (Inr (respond 400
                            (JObj [(''error'', JStr ''Missing required placeholders''),
                                   (''missing'', JArr missing)]))) [] [] 0
                     else
                       (let folderId = payload_folder payload;
                            e1 = [DriveCopy (js_prop template ''doc_template_id'')
                                    (parents_of folderId)]
                        in case bindE (js_String (js_prop template ''template_key''))
                                  (\<lambda>tmp_name. copy_result w) of
                             Inl e \<Rightarrow>
                               leave (Inl e)
                                 (if isl (js_String (js_prop template ''template_key''))
                                  then [] else e1) [] 0
                           | Inr doc \<Rightarrow>
                               (case replace_requests rt payload paths of
                                  Inl e \<Rightarrow> leave (Inl e) e1 doc 0
                                | Inr requests \<Rightarrow>
                                    (let e2 = e1 @ [DocsBatchUpdate doc requests]
                                     in case batchUpdate_result w of
                                          Some e \<Rightarrow> leave (Inl e) e2 doc 0
                                        | None \<Rightarrow>
                                            (let e3 = e2 @ [DriveExport doc]
                                             in case export_result w of
                                                  Inl e \<Rightarrow> leave (Inl e) e3 doc 0
                                                | Inr pdfData \<Rightarrow>
     (case buildPdfFileName rt (today w) (js_prop template ''output_filename_pattern'') payload of
        Inl e \<Rightarrow> leave (Inl e) e3 doc 0
      | Inr pdfName \<Rightarrow>
          (let e4 = e3 @ [DriveCreate pdfName (parents_of folderId)]
           in case create_result w of
                Inl e \<Rightarrow> leave (Inl e) e4 doc 0
              | Inr created \<Rightarrow>
                  if \<not> truthy (js_prop template ''keep_intermediate_doc'') \<and> doc \<noteq> []
                  then (case delete_result w 0 of
                          Some e \<Rightarrow> leave (Inl e) (e4 @ [DriveDelete doc]) doc 1
                        | None \<Rightarrow>
                            after_upload parse ev w payload template created
                              (e4 @ [DriveDelete doc]) [] 1)
                  else after_upload parse ev w payload template created e4 doc 0)))))))
            | _ \<Rightarrow> leave (Inl (TypeError ''required_placeholders.filter is not a function''))
                     [] [] 0))"

text \<open>
  The \<open>catch\<close> block: when \<open>copiedDocId\<close> is set, one more delete is issued and whatever
  it throws is dropped; the response is 500 with the message of the error caught.
\<close>

definition render_catch :: "render_exit \<Rightarrow> response \<times> event list" where
  "render_catch x =
     (case outcome x of
        Inr r \<Rightarrow> (r, events x)
      | Inl error \<Rightarrow>
          (respond 500 (error_body (err_message error)),
           events x @ (if copiedDocId x \<noteq> [] then [DriveDelete (copiedDocId x)] else [])))"

definition or_empty_object :: "jsval \<Rightarrow> jsval" where
  "or_empty_object b = (if truthy b then b else JObj [])"

definition render_handler ::
    "json_parser \<Rightarrow> realm \<Rightarrow> env \<Rightarrow> world \<Rightarrow> server_state \<Rightarrow> jsval \<Rightarrow> response \<times> server_state" where
  "render_handler parse rt ev w st reqBody =
     (case loadConfig parse w st of
        (Inl e, st1) \<Rightarrow> (respond 500 (error_body (err_message e)), st1)
      | (Inr config, st1) \<Rightarrow>
          (case render_catch (render_try parse rt ev w config (or_empty_object reqBody)) of
             (r, evs) \<Rightarrow> (r, st1\<lparr>trace := trace st1 @ evs\<rparr>)))"

definition config_handler :: "json_parser \<Rightarrow> world \<Rightarrow> server_state \<Rightarrow> response \<times> server_state" where
  "config_handler parse w st =
     (case loadConfig parse w st of
        (Inl e, st1) \<Rightarrow> (respond 500 (error_body (err_message e)), st1)
      | (Inr config, st1) \<Rightarrow> (respond 200 config, st1))"

text \<open>A route with the guard in front: the handler runs only after \<open>next()\<close>.\<close>

definition guarded :: "response option \<Rightarrow> ('s \<Rightarrow> response \<times> 's) \<Rightarrow> 's \<Rightarrow> response \<times> 's" where
  "guarded guard handler st = (case guard of Some r \<Rightarrow> (r, st) | None \<Rightarrow> handler st)"

definition post_render ::
    "json_parser \<Rightarrow> realm \<Rightarrow> env \<Rightarrow> world \<Rightarrow> string option \<Rightarrow> jsval \<Rightarrow> server_state
      \<Rightarrow> response \<times> server_state" where
  "post_render parse rt ev w header reqBody st =
     guarded (requireApiKey ev header) (\<lambda>s. render_handler parse rt ev w s reqBody) st"

definition get_config ::
    "json_parser \<Rightarrow> env \<Rightarrow> world \<Rightarrow> string option \<Rightarrow> server_state \<Rightarrow> response \<times> server_state" where
  "get_config parse ev w header st =
     guarded (requireApiKey ev header) (config_handler parse w) st"

section \<open>Routes of the second variant\<close>

text \<open>
  \<^verbatim>\<open>authGuard\<close>: the key is read once at start-up as
  \<^verbatim>\<open>process.env.RENDER_API_KEY || ""\<close>.
\<close>

definition RENDER_API_KEY_const :: "env \<Rightarrow> string" where
  "RENDER_API_KEY_const ev = (case RENDER_API_KEY ev of None \<Rightarrow> [] | Some k \<Rightarrow> k)"

definition authGuard :: "env \<Rightarrow> string option \<Rightarrow> response option" where
  "authGuard ev key =
     (if RENDER_API_KEY_const ev = [] then None
      else if key \<noteq> Some (RENDER_API_KEY_const ev)
      then Some (respond 401 (error_body ''unauthorized''))
      else None)"

text \<open>
  \<^verbatim>\<open>waitForFile(drive, fileId)\<close>: one existence check per delay; \<open>n\<close> counts the checks
  of the request so far, and \<open>get_result w n\<close> is what the service answers to the next
  one (\<open>None\<close>: the file is there). The result comes with the events and the new count.
\<close>

definition delays :: "nat list" where
  "delays = [200, 350, 550, 800, 1200, 1600]"

definition notFound :: "js_error \<Rightarrow> bool" where
  "notFound e =
     (includes_str
        (toLowerCase (if err_message e \<noteq> [] then err_message e else err_name e))
        ''file not found''
      \<or> err_code e = JNum 404)"

fun waitForFile_loop ::
    "world \<Rightarrow> string \<Rightarrow> nat list \<Rightarrow> nat \<Rightarrow> (js_error + bool) \<times> event list \<times> nat" where
  "waitForFile_loop w fileId [] n =
     (Inl (Error (''File not found (after retries): '' @ fileId)), [], n)"
| "waitForFile_loop w fileId (d # ds) n =
     (case get_result w n of
        None \<Rightarrow> (Inr True, [DriveGet fileId], Suc n)
      | Some e \<Rightarrow>
          if \<not> notFound e then (Inl e, [DriveGet fileId], Suc n)
          else (case waitForFile_loop w fileId ds (Suc n) of
                  (r, evs, n') \<Rightarrow> (r, DriveGet fileId # Sleep d # evs, n')))"

definition waitForFile :: "world \<Rightarrow> string \<Rightarrow> nat \<Rightarrow> (js_error + bool) \<times> event list \<times> nat" where
  "waitForFile w fileId n = waitForFile_loop w fileId delays n"

text \<open>
  \<^verbatim>\<open>normalizeDriveId(input)\<close>: the identifier after \<open>/folders/\<close>, after \<open>/d/\<close> or after
  \<open>?id=\<close> or \<open>&id=\<close> (the leftmost place where one is followed by at least one
  identifier character, tried in this order), or the trimmed text itself.
\<close>

definition is_id_char :: "char \<Rightarrow> bool" where
  "is_id_char c =
     (let n = (of_char c :: nat)
      in (97 \<le> n \<and> n \<le> 122) \<or> (65 \<le> n \<and> n \<le> 90) \<or> (48 \<le> n \<and> n \<le> 57)
         \<or> c = CHR ''_'' \<or> c = CHR ''-'')"

fun first_capture :: "string list \<Rightarrow> string \<Rightarrow> string option" where
  "first_capture lits [] = None"
| "first_capture lits (c # cs) =
     (case filter (\<lambda>l. prefix l (c # cs)
                        \<and> takeWhile is_id_char (drop (length l) (c # cs)) \<noteq> []) lits of
        l # ls \<Rightarrow> Some (takeWhile is_id_char (drop (length l) (c # cs)))
      | [] \<Rightarrow> first_capture lits cs)"

definition normalizeDriveId :: "jsval \<Rightarrow> js_error + string" where
  "normalizeDriveId input =
     (if \<not> truthy input then Inr []
      else bindE (js_String input) (\<lambda>text.
        (let s = trim text
         in Inr (case first_capture [''/folders/''] s of
                   Some m \<Rightarrow> m
                 | None \<Rightarrow>
                     (case first_capture [''/d/''] s of
                        Some m \<Rightarrow> m
                      | None \<Rightarrow>
                          (case first_capture [''?id='', ''&id=''] s of
                             Some m \<Rightarrow> m
                           | None \<Rightarrow> s))))))"

text \<open>
  \<^verbatim>\<open>renderGoogleDocToPdf\<close>. Nothing in it catches an error except around the two
  deletes. The result is the returned object or the thrown error, with the events.
\<close>

definition placeholder_request ::
    "realm \<Rightarrow> jsval \<Rightarrow> jsval \<Rightarrow> js_error + (bool \<times> string \<times> string)" where
  "placeholder_request rt payload path =
     bindE (getByPath rt payload path) (\<lambda>value.
     bindE (js_String path) (\<lambda>p.
     bindE (if r_nullish value then Inr [] else r_String rt value) (\<lambda>text.
       Inr (is_missing value, ''{{'' @ p @ ''}}'', text))))"

definition missing_error :: "jsval list \<Rightarrow> js_error + js_error" where
  "missing_error missing =
     bindE (mapE (\<lambda>p. if is_nullish p then Inr [] else js_String p) missing) (\<lambda>names.
       Inr \<lparr>err_name = ''Error'',
            err_message = ''Missing required placeholders: '' @ join_with '', '' names,
            err_code = JUndefined, err_statusCode = JNum 400\<rparr>)"

definition render_upload ::
    "realm \<Rightarrow> world \<Rightarrow> jsval \<Rightarrow> jsval \<Rightarrow> string \<Rightarrow> string \<Rightarrow> event list \<Rightarrow> nat
      \<Rightarrow> (js_error + jsval) \<times> event list" where
  "render_upload rt w template payload folderId docId evs n =
     (case waitForFile w docId n of
        (Inl e, g, n') \<Rightarrow> (Inl e, evs @ g)
      | (Inr ok, g, n') \<Rightarrow>
          (let e3 = evs @ g @ [DriveExport docId]
           in case export_result w of
                Inl e \<Rightarrow> (Inl e, e3)
              | Inr pdfData \<Rightarrow>
                  (case buildFilename rt (today w)
                          (js_prop template ''output_filename_pattern'') payload of
                     Inl e \<Rightarrow> (Inl e, e3)
                   | Inr filename \<Rightarrow>
                       (let e4 = e3 @ [DriveCreate filename
                                        (if folderId \<noteq> [] then JArr [JStr folderId]
                                         else JUndefined)]
                        in case create_result w of
                             Inl e \<Rightarrow> (Inl e, e4)
                           | Inr uploaded \<Rightarrow>
                               (Inr (JObj
                                  [(''pdf_file_id'', file_id uploaded),
                                   (''pdf_name'', file_name uploaded),
                                   (''pdf_web_view_url'', file_webViewLink uploaded),
                                   (''tmp_doc_id'',
                                      if truthy (js_prop template ''keep_intermediate_doc'')
                                      then JStr docId else JUndefined)]),
                                e4 @ (if \<not> truthy (js_prop template ''keep_intermediate_doc'')
                                      then [DriveDelete docId] else []))))))"

definition renderGoogleDocToPdf ::
    "realm \<Rightarrow> world \<Rightarrow> jsval \<Rightarrow> jsval \<Rightarrow> string \<Rightarrow> (js_error + jsval) \<times> event list" where
  "renderGoogleDocToPdf rt w template payload folderId =
     (case js_String (js_prop template ''template_key'') of
        Inl e \<Rightarrow> (Inl e, [])
      | Inr tmp_name \<Rightarrow>
          (let e1 = [DriveCopy (js_prop template ''doc_template_id'') JUndefined]
           in case copy_result w of
                Inl e \<Rightarrow> (Inl e, e1)
              | Inr docId \<Rightarrow>
                  (case waitForFile w docId 0 of
                     (Inl e, g, n) \<Rightarrow> (Inl e, e1 @ g)
                   | (Inr ok, g, n) \<Rightarrow>
                       (let required = (if isArray (js_prop template ''required_placeholders'')
                                        then elems (js_prop template ''required_placeholders'')
                                        else []);
                            e2 = e1 @ g
                        in case mapE (placeholder_request rt payload) required of
                             Inl e \<Rightarrow> (Inl e, e2)
                           | Inr built \<Rightarrow>
                               (let missing = map fst (filter (\<lambda>(p, m, r). m) (zip required built));
                                    requests = map snd built
                                in if missing \<noteq> []
                                   then (case missing_error missing of
                                           Inl e \<Rightarrow> Inl e
                                         | Inr err \<Rightarrow> Inl err,
                                         e2 @ (if \<not> truthy (js_prop template
                                                              ''keep_intermediate_doc'')
                                               then [DriveDelete docId] else []))
                                   else if requests \<noteq> []
                                   then (case batchUpdate_result w of
                                           Some e \<Rightarrow>
                                             (Inl e, e2 @ [DocsBatchUpdate docId requests])
                                         | None \<Rightarrow>
                                             render_upload rt w template payload folderId docId
                                               (e2 @ [DocsBatchUpdate docId requests]) n)
                                   else render_upload rt w template payload folderId docId
                                          e2 n)))))"

text \<open>
  \<^verbatim>\<open>sellCreateNote\<close> and the optional note of the route (the emoji that starts the
  note text is left out).
\<close>

definition sellCreateNote ::
    "json_parser \<Rightarrow> env \<Rightarrow> world \<Rightarrow> jsval \<Rightarrow> jsval \<Rightarrow> string \<Rightarrow> (js_error + jsval) \<times> event list" where
  "sellCreateNote parse ev w resource_type resource_id content =
     (if \<not> env_truthy (SELL_PAT ev) then (Inl (Error ''Missing env: SELL_PAT''), [])
      else
        ((case fetch_result w of
            Inl e \<Rightarrow> Inl e
          | Inr resp \<Rightarrow>
              if \<not> resp_ok resp
              then Inl (Error (''Sell note error '' @ nat_dec (resp_status resp) @ '': ''
                                @ resp_text resp))
              else if resp_text resp \<noteq> [] then parse (resp_text resp) else Inr (JObj [])),
         [SellNote resource_type resource_id content]))"

definition note_text :: "jsval \<Rightarrow> jsval \<Rightarrow> jsval \<Rightarrow> js_error + string" where
  "note_text template out payload =
     bindE (js_String (js_prop template ''display_name'')) (\<lambda>dn.
     bindE (js_String (js_prop out ''pdf_name'')) (\<lambda>pn.
     bindE (js_String (js_prop out ''pdf_web_view_url'')) (\<lambda>pl.
     bindE (if truthy (js_prop payload ''package_key'')
            then bindE (js_String (js_prop payload ''package_key''))
                   (\<lambda>k. Inr (''Pack: '' @ k @ [CHR 0x0A]))
            else Inr []) (\<lambda>pack.
     bindE (if truthy (js_prop (js_prop payload ''actor'') ''email'')
            then bindE (js_String (js_prop (js_prop payload ''actor'') ''email''))
                   (\<lambda>m. Inr (''Solicitado por: '' @ m @ [CHR 0x0A]))
            else Inr []) (\<lambda>actor.
       Inr (''Documento generado: '' @ dn @ [CHR 0x0A] @ ''Archivo: '' @ pn @ [CHR 0x0A]
              @ ''Link: '' @ pl @ [CHR 0x0A] @ pack @ actor))))))"

definition makeGoogleClients :: "env \<Rightarrow> world \<Rightarrow> js_error option" where
  "makeGoogleClients ev w =
     (if \<not> env_truthy (GOOGLE_CLIENT_EMAIL ev) \<or> \<not> env_truthy (GOOGLE_PRIVATE_KEY ev)
      then Some (Error ''Missing GOOGLE_CLIENT_EMAIL or GOOGLE_PRIVATE_KEY'')
      else authorize_result w)"

text \<open>
  The \<open>try\<close> block of \<^verbatim>\<open>POST /v1/render\<close> and its \<open>catch\<close>, which answers with
  \<^verbatim>\<open>e.statusCode || 500\<close>. Everything the route and \<^verbatim>\<open>renderGoogleDocToPdf\<close> read
  from the resolved template is a property with a fixed name, so a built-in resolved as
  template is read like an object without properties.
\<close>

fun fields_of :: "rval \<Rightarrow> jsval" where
  "fields_of (Data v) = v"
| "fields_of (BObj b) = JObj []"
| "fields_of (BFun f) = JObj []"

definition payload_folder2 :: "jsval \<Rightarrow> jsval" where
  "payload_folder2 payload =
     (if truthy (js_prop (js_prop payload ''deal'') ''folder_id'')
      then js_prop (js_prop payload ''deal'') ''folder_id''
      else if truthy (js_prop payload ''folder_id'') then js_prop payload ''folder_id''
      else JStr [])"

definition render_after_config ::
    "json_parser \<Rightarrow> realm \<Rightarrow> env \<Rightarrow> world \<Rightarrow> jsval \<Rightarrow> jsval
      \<Rightarrow> (js_error + response) \<times> event list" where
  "render_after_config parse rt ev w config payload =
     (case resolveTemplate2 rt config payload of
        Inl e \<Rightarrow> (Inl e, [])
      | Inr resolved \<Rightarrow>
          if \<not> r_truthy resolved
          then (Inr (respond 400 (error_body ''template not found (template_key / package_key)'')),
                [])
          else
            (case normalizeDriveId (payload_folder2 payload) of
               Inl e \<Rightarrow> (Inl e, [])
             | Inr folderId \<Rightarrow>
                 (case renderGoogleDocToPdf rt w (fields_of resolved) payload folderId of
                    (Inl e, evs) \<Rightarrow> (Inl e, evs)
                  | (Inr out, evs) \<Rightarrow>
                      (let sell = js_prop payload ''sell''
                       in if truthy (js_prop sell ''resource_type'')
                             \<and> truthy (js_prop sell ''resource_id'')
                          then (case note_text (fields_of resolved) out payload of
                                  Inl e \<Rightarrow> (Inl e, evs)
                                | Inr noteText \<Rightarrow>
                                    (case sellCreateNote parse ev w
                                            (js_prop sell ''resource_type'')
                                            (js_prop sell ''resource_id'') noteText of
                                       (Inl e, evs') \<Rightarrow> (Inl e, evs @ evs')
                                     | (Inr note, evs') \<Rightarrow>
                                         (Inr (respond 200
                                            (JObj [(''pdf'', out), (''note'', note)])),
                                          evs @ evs')))
                          else (Inr (respond 200 (JObj [(''pdf'', out)])), evs)))))"

definition catch_status :: "js_error + response \<Rightarrow> response" where
  "catch_status r =
     (case r of
        Inr resp \<Rightarrow> resp
      | Inl e \<Rightarrow>
          \<lparr>status = (if truthy (err_statusCode e) then err_statusCode e else JNum 500),
           body = error_body (err_message e)\<rparr>)"

definition render_handler2 ::
    "json_parser \<Rightarrow> realm \<Rightarrow> env \<Rightarrow> world \<Rightarrow> server_state2 \<Rightarrow> jsval \<Rightarrow> response \<times> server_state2" where
  "render_handler2 parse rt ev w st reqBody =
     (case makeGoogleClients ev w of
        Some e \<Rightarrow> (catch_status (Inl e), st)
      | None \<Rightarrow>
          (case loadConfig2 parse ev w st of
             (Inl e, st1) \<Rightarrow> (catch_status (Inl e), st1)
           | (Inr config, st1) \<Rightarrow>
               (case render_after_config parse rt ev w config (or_empty_object reqBody) of
                  (r, evs) \<Rightarrow> (catch_status r, st1\<lparr>trace2 := trace2 st1 @ evs\<rparr>))))"

definition post_render2 ::
    "json_parser \<Rightarrow> realm \<Rightarrow> env \<Rightarrow> world \<Rightarrow> string option \<Rightarrow> jsval \<Rightarrow> server_state2
      \<Rightarrow> response \<times> server_state2" where
  "post_render2 parse rt ev w key reqBody st =
     guarded (authGuard ev key) (\<lambda>s. render_handler2 parse rt ev w s reqBody) st"

section \<open>Observations on traces\<close>

text \<open>The number of existence checks in a trace, and the delays slept, in order.\<close>

definition gets_of :: "event list \<Rightarrow> nat" where
  "gets_of evs = length (filter (\<lambda>e. case e of DriveGet f \<Rightarrow> True | _ \<Rightarrow> False) evs)"

definition sleeps_of :: "event list \<Rightarrow> nat list" where
  "sleeps_of evs = concat (map (\<lambda>e. case e of Sleep d \<Rightarrow> [d] | _ \<Rightarrow> []) evs)"

text \<open>The \<open>k\<close> checks from the \<open>n\<close>-th on are all answered with a not-found error.\<close>

fun not_found_run :: "world \<Rightarrow> nat \<Rightarrow> nat \<Rightarrow> bool" where
  "not_found_run w n 0 = True"
| "not_found_run w n (Suc k) =
     ((case get_result w n of Some e \<Rightarrow> notFound e | None \<Rightarrow> False)
      \<and> not_found_run w (Suc n) k)"

text \<open>
  Worlds in which the first \<open>k\<close> checks answer not-found and every later one fails with
  \<open>e\<close>, or succeeds.
\<close>

definition flaky_world :: "nat \<Rightarrow> js_error \<Rightarrow> world" where
  "flaky_world k e =
     example_world\<lparr>get_result :=
       (\<lambda>n. if n < k then Some (Error ''File not found: tmp1'') else Some e)\<rparr>"

definition eventually_world :: "nat \<Rightarrow> world" where
  "eventually_world k =
     example_world\<lparr>get_result :=
       (\<lambda>n. if n < k then Some (Error ''File not found: tmp1'') else None)\<rparr>"

section \<open>Predicates of the render claims\<close>

text \<open>
  A world whose template has the given text in its \<open>required_placeholders\<close> cell; the
  world whose template requires \<open>fecha\<close> and \<open>object.run\<close>, and a request that lacks
  both.
\<close>

definition placeholders_world :: "string \<Rightarrow> world" where
  "placeholders_world cell =
     example_world\<lparr>sheets_result := Inr
        (Some [[''template_key'', ''is_active'', ''required_placeholders'', ''doc_template_id'',
                ''output_filename_pattern'', ''keep_intermediate_doc''],
               [''ORDEN'', ''TRUE'', cell,
                ''doc1'', ''orden_{object.run}_{YYYYMMDD}'', ''FALSE'']],
         Some [[''package_key'', ''is_active'', ''default_template_key'', ''exams''],
               [''PRE_PAD'', ''yes'', ''ORDEN'', ''[]'']])\<rparr>"

definition render_world :: world where
  "render_world = placeholders_world (''['' @ quoted ''fecha'' @ '','' @ quoted ''object.run'' @ '']'')"

text \<open>
  Two more cell texts, with a parser that knows them besides those of \<open>toy_parse\<close>: a
  list with an entry that is not a string, and a list with a path into the function
  \<open>Object\<close>.
\<close>

definition number_path_cell :: string where
  "number_path_cell = ''['' @ quoted ''fecha'' @ '',5]''"

definition function_path_cell :: string where
  "function_path_cell = ''['' @ quoted ''fecha'' @ '','' @ quoted ''constructor.caller'' @ '']''"

definition paths_parse :: json_parser where
  "paths_parse s =
     (if s = number_path_cell then Inr (JArr [JStr ''fecha'', JNum 5])
      else if s = function_path_cell then Inr (JArr [JStr ''fecha'', JStr ''constructor.caller''])
      else toy_parse s)"

definition incomplete_payload :: jsval where
  "incomplete_payload =
     JObj [(''template_key'', JStr ''ORDEN''), (''fecha'', JStr ''''),
           (''object'', JObj [(''nombres'', JStr ''JUANA'')])]"

text \<open>
  A required path resolves in the payload to \<open>undefined\<close>, \<open>null\<close> or the empty string,
  by each variant's lookup; and the 400 response of \<^verbatim>\<open>server.js\<close> that lists such paths.
\<close>

definition resolves_missing :: "realm \<Rightarrow> jsval \<Rightarrow> jsval \<Rightarrow> bool" where
  "resolves_missing rt payload p =
     (case getValueByPath rt payload p of Inr v \<Rightarrow> is_missing v | Inl e \<Rightarrow> False)"

definition resolves_missing2 :: "realm \<Rightarrow> jsval \<Rightarrow> jsval \<Rightarrow> bool" where
  "resolves_missing2 rt payload p =
     (case getByPath rt payload p of Inr v \<Rightarrow> is_missing v | Inl e \<Rightarrow> False)"

definition missing_response :: "jsval list \<Rightarrow> response" where
  "missing_response missing =
     respond 400 (JObj [(''error'', JStr ''Missing required placeholders''),
                        (''missing'', JArr missing)])"

text \<open>
  The paths of a list are strings whose walk by \<^verbatim>\<open>getByPath\<close> reads no property of a
  built-in function.
\<close>

definition paths_stay :: "realm \<Rightarrow> jsval \<Rightarrow> jsval list \<Rightarrow> bool" where
  "paths_stay rt payload ps =
     list_all (\<lambda>p. case p of
                      JStr s \<Rightarrow> \<not> reads_function rt (Data payload) (split_on CHR ''.'' s)
                    | _ \<Rightarrow> False) ps"

section \<open>Predicates of the placeholder claim\<close>

text \<open>The error the second variant throws for missing placeholders: status code 400.\<close>

definition missing_error_of :: "string list \<Rightarrow> js_error" where
  "missing_error_of missing =
     \<lparr>err_name = ''Error'',
      err_message = ''Missing required placeholders: '' @ join_with '', '' missing,
      err_code = JUndefined, err_statusCode = JNum 400\<rparr>"

fun str_of :: "jsval \<Rightarrow> string" where
  "str_of (JStr s) = s"
| "str_of JUndefined = []"
| "str_of JNull = []"
| "str_of (JBool b) = []"
| "str_of (JNum n) = []"
| "str_of (JArr xs) = []"
| "str_of (JObj kvs) = []"

text \<open>
  The events of the pipeline proper: replacing text, exporting and uploading. Then the
  configuration and the resolved template of the concrete instances, and a world whose
  copy call fails.
\<close>

definition pipeline_event :: "event \<Rightarrow> bool" where
  "pipeline_event x =
     (case x of DocsBatchUpdate d r \<Rightarrow> True | DriveExport d \<Rightarrow> True
      | DriveCreate n p \<Rightarrow> True | _ \<Rightarrow> False)"

definition render_config :: jsval where
  "render_config =
     (case fst (loadConfig toy_parse render_world initial_state) of
        Inr c \<Rightarrow> c | Inl e \<Rightarrow> JNull)"

definition render_config2 :: jsval where
  "render_config2 =
     (case fst (loadConfig2 toy_parse example_env render_world initial_state2) of
        Inr c \<Rightarrow> c | Inl e \<Rightarrow> JNull)"

definition render_template2 :: rval where
  "render_template2 =
     (case resolveTemplate2 node_realm render_config2 incomplete_payload of
        Inr t \<Rightarrow> t | Inl e \<Rightarrow> Data JNull)"

definition copy_fails_world :: world where
  "copy_fails_world = render_world\<lparr>copy_result := Inl (Error ''File not found: doc1'')\<rparr>"

definition export_fails_world :: world where
  "export_fails_world = render_world\<lparr>export_result := Inl (Error ''export failed'')\<rparr>"





text \<open>A request whose \<open>template_key\<close> is the name of a property every object inherits.\<close>

definition constructor_payload :: jsval where
  "constructor_payload = JObj [(''template_key'', JStr ''constructor'')]"

section \<open>Path lookup: proofs\<close>

lemma split_on_not_Nil: "split_on c s \<noteq> []"
  by (induction s) (auto split: list.splits)

lemma typeof_object_reads:
  "\<lbrakk>\<not> r_nullish v; r_typeof v = ''object''\<rbrakk>
   \<Longrightarrow> r_is_object v \<and> lookup_prop rt v k \<noteq> Some (Inl e)"
proof (cases v)
  case (Data d)
  assume "\<not> r_nullish v" "r_typeof v = ''object''"
  with Data show ?thesis
    by (cases d) (auto simp: is_nullish_def split: option.splits)
next
  case (BObj b)
  then show ?thesis by (auto split: option.splits)
next
  case (BFun f)
  assume "r_typeof v = ''object''"
  with BFun show ?thesis by simp
qed

lemma truthy_data_not_nullish: "truthy d \<Longrightarrow> \<not> is_nullish d"
  by (cases d) (auto simp: is_nullish_def)

lemma truthy_not_nullish: "r_truthy v \<Longrightarrow> \<not> r_nullish v"
  by (cases v) (auto dest: truthy_data_not_nullish)

lemma getValueByPath_loop_reach:
  "getValueByPath_loop rt v ks = Inr (or_undefined (reach (step_in rt) v ks))"
proof (induction ks arbitrary: v)
  case Nil
  show ?case by (simp add: or_undefined_def)
next
  case (Cons k ks)
  show ?case
  proof (cases "r_nullish v \<or> r_typeof v \<noteq> ''object''")
    case True
    then show ?thesis by (auto simp: step_in_def or_undefined_def)
  next
    case False
    then have obj: "r_is_object v" and nn: "\<not> r_nullish v"
      and q: "\<And>e. lookup_prop rt v k \<noteq> Some (Inl e)"
      using typeof_object_reads by auto
    show ?thesis
    proof (cases "lookup_prop rt v k")
      case None
      with False obj show ?thesis
        by (simp add: js_in_def bindE_def step_in_def or_undefined_def)
    next
      case (Some r)
      with q obtain w where w: "r = Inr w" by (cases r) auto
      with Some False obj nn Cons.IH [of w] show ?thesis
        by (simp add: js_in_def js_get_def bindE_def step_in_def)
    qed
  qed
qed

lemma getByPath_step_eq:
  "\<lbrakk>\<And>f. acc \<noteq> BFun f\<rbrakk> \<Longrightarrow> getByPath_step rt acc k = Inr (or_undefined (step_get rt acc k))"
  by (cases acc)
     (auto simp: getByPath_step_def step_get_def js_get_def bindE_def or_undefined_def
      dest: truthy_data_not_nullish split: option.splits sum.splits)

lemma reduceE_undefined:
  "reduceE (getByPath_step rt) ks (Data JUndefined) = Inr (Data JUndefined)"
  by (induction ks) (simp_all add: getByPath_step_def bindE_def)

lemma getByPath_reduce_reach:
  "\<not> reads_function rt v ks
   \<Longrightarrow> reduceE (getByPath_step rt) ks v = Inr (or_undefined (reach (step_get rt) v ks))"
proof (induction ks arbitrary: v)
  case Nil
  show ?case by (simp add: or_undefined_def)
next
  case (Cons k ks)
  from Cons.prems have nf: "\<And>f. v \<noteq> BFun f" by auto
  note st = getByPath_step_eq [of v rt k, OF nf]
  show ?case
  proof (cases "step_get rt v k")
    case None
    with st show ?thesis
      by (simp add: bindE_def or_undefined_def reduceE_undefined)
  next
    case (Some w)
    with Cons.prems nf have "\<not> reads_function rt w ks" by (cases v) auto
    with st Some Cons.IH [of w] show ?thesis
      by (simp add: bindE_def or_undefined_def)
  qed
qed

lemma getValueByPath_reach:
  "getValueByPath rt obj (JStr p)
     = Inr (or_undefined (reach (step_in rt) (Data obj) (split_on CHR ''.'' p)))"
  by (simp add: getValueByPath_def getValueByPath_loop_reach)

lemma getByPath_empty: "getByPath rt obj (JStr []) = Inr (Data JUndefined)"
  by (simp add: getByPath_def)

lemma getByPath_reach:
  "\<lbrakk>p \<noteq> []; \<not> reads_function rt (Data obj) (split_on CHR ''.'' p)\<rbrakk>
   \<Longrightarrow> getByPath rt obj (JStr p)
       = Inr (or_undefined (reach (step_get rt) (Data obj) (split_on CHR ''.'' p)))"
  by (simp add: getByPath_def getByPath_reduce_reach)

text \<open>
  Claim C10 (amended). \<^verbatim>\<open>getValueByPath\<close> returns a value, never an error, for every
  value and every path string, whatever the runtime provides: the value reached when
  every segment can be stepped through, \<open>undefined\<close> otherwise. \<^verbatim>\<open>getByPath\<close> returns
  \<open>undefined\<close> for the empty path; for every other path whose walk does not read a
  property of a built-in function it returns a value, never an error: the value reached
  when every segment can be stepped through, \<open>undefined\<close> otherwise.
\<close>

theorem path_lookup:
  "getValueByPath rt obj (JStr p)
     = Inr (or_undefined (reach (step_in rt) (Data obj) (split_on CHR ''.'' p)))
   \<and> getByPath rt obj (JStr []) = Inr (Data JUndefined)
   \<and> (p \<noteq> [] \<and> \<not> reads_function rt (Data obj) (split_on CHR ''.'' p)
      \<longrightarrow> getByPath rt obj (JStr p)
          = Inr (or_undefined (reach (step_get rt) (Data obj) (split_on CHR ''.'' p))))"
  using getValueByPath_reach [of rt obj p] getByPath_empty [of rt obj]
    getByPath_reach [of p rt obj]
  by blast

theorem path_lookup_witness:
  "getValueByPath node_realm example_payload (JStr ''object.run'')
     = Inr (Data (JStr ''12.345.678-9''))
   \<and> getValueByPath node_realm example_payload (JStr ''object.run.length'')
     = Inr (Data JUndefined)
   \<and> getValueByPath node_realm example_payload (JStr ''constructor.caller'')
     = Inr (Data JUndefined)
   \<and> \<not> reads_function node_realm (Data example_payload) (split_on CHR ''.'' ''deal.id'')
   \<and> getByPath node_realm example_payload (JStr ''deal.id'') = Inr (Data (JNum 123))
   \<and> \<not> reads_function node_realm (Data example_payload) (split_on CHR ''.'' ''fecha.length'')
   \<and> getByPath node_realm example_payload (JStr ''fecha.length'') = Inr (Data (JNum 16))
   \<and> \<not> reads_function node_realm (Data example_payload) (split_on CHR ''.'' ''deal.name.first'')
   \<and> getByPath node_realm example_payload (JStr ''deal.name.first'') = Inr (Data JUndefined)"
proof -
  note inst = path_lookup [where rt = node_realm and obj = example_payload]
  have r1: "or_undefined (reach (step_in node_realm) (Data example_payload)
        (split_on CHR ''.'' ''object.run'')) = Data (JStr ''12.345.678-9'')"
    by code_simp
  have r2: "or_undefined (reach (step_in node_realm) (Data example_payload)
        (split_on CHR ''.'' ''object.run.length'')) = Data JUndefined"
    by code_simp
  have r3: "or_undefined (reach (step_in node_realm) (Data example_payload)
        (split_on CHR ''.'' ''constructor.caller'')) = Data JUndefined"
    by code_simp
  have n4: "''deal.id'' \<noteq> []
      \<and> \<not> reads_function node_realm (Data example_payload) (split_on CHR ''.'' ''deal.id'')"
    by code_simp
  have r4: "or_undefined (reach (step_get node_realm) (Data example_payload)
        (split_on CHR ''.'' ''deal.id'')) = Data (JNum 123)"
    by code_simp
  have n5: "''fecha.length'' \<noteq> []
      \<and> \<not> reads_function node_realm (Data example_payload) (split_on CHR ''.'' ''fecha.length'')"
    by code_simp
  have r5: "or_undefined (reach (step_get node_realm) (Data example_payload)
        (split_on CHR ''.'' ''fecha.length'')) = Data (JNum 16)"
    by code_simp
  have n6: "''deal.name.first'' \<noteq> []
      \<and> \<not> reads_function node_realm (Data example_payload)
            (split_on CHR ''.'' ''deal.name.first'')"
    by code_simp
  have r6: "or_undefined (reach (step_get node_realm) (Data example_payload)
        (split_on CHR ''.'' ''deal.name.first'')) = Data JUndefined"
    by code_simp
  have 1: "getValueByPath node_realm example_payload (JStr ''object.run'')
     = Inr (Data (JStr ''12.345.678-9''))"
    using inst [where p = "''object.run''"] unfolding r1 by blast
  have 2: "getValueByPath node_realm example_payload (JStr ''object.run.length'')
     = Inr (Data JUndefined)"
    using inst [where p = "''object.run.length''"] unfolding r2 by blast
  have 3: "getValueByPath node_realm example_payload (JStr ''constructor.caller'')
     = Inr (Data JUndefined)"
    using inst [where p = "''constructor.caller''"] unfolding r3 by blast
  have 4: "getByPath node_realm example_payload (JStr ''deal.id'') = Inr (Data (JNum 123))"
    using inst [where p = "''deal.id''"] n4 unfolding r4 by blast
  have 5: "getByPath node_realm example_payload (JStr ''fecha.length'') = Inr (Data (JNum 16))"
    using inst [where p = "''fecha.length''"] n5 unfolding r5 by blast
  have 6: "getByPath node_realm example_payload (JStr ''deal.name.first'')
     = Inr (Data JUndefined)"
    using inst [where p = "''deal.name.first''"] n6 unfolding r6 by blast
  from 1 2 3 4 5 6 n4 n5 n6 show ?thesis by blast
qed

text \<open>
  The claim as stated fails for \<^verbatim>\<open>getByPath\<close>. For the empty path it returns
  \<open>undefined\<close> although the one segment, the empty name, can be traversed (and
  \<^verbatim>\<open>getValueByPath\<close> reaches the value). For the path \<open>constructor.caller\<close> it walks
  from an empty object into the function \<open>Object\<close>, whose property \<open>caller\<close> throws.
\<close>

theorem path_lookup_counterexample:
  "getByPath node_realm (JObj [([], JNum 5)]) (JStr []) = Inr (Data JUndefined)
   \<and> reach (step_get node_realm) (Data (JObj [([], JNum 5)])) (split_on CHR ''.'' [])
     = Some (Data (JNum 5))
   \<and> getValueByPath node_realm (JObj [([], JNum 5)]) (JStr []) = Inr (Data (JNum 5))
   \<and> getByPath node_realm (JObj []) (JStr ''constructor.caller'')
     = Inl (TypeError restricted_message)"
  by code_simp

section \<open>JSON array fields\<close>

lemma sublist_mid: "sublist f (a @ f @ b)"
  by (auto simp: sublist_def)

lemma sublist_Error: "sublist f (err_message (Error (a @ f @ b)))"
  by (simp add: Error_def sublist_mid)

text \<open>
  Claim C7. \<^verbatim>\<open>parseJsonArray\<close> (\<^verbatim>\<open>server.js\<close>) returns the empty array for a falsy
  cell (the empty string, which is also what an absent cell becomes), returns the parsed
  array when the cell's text parses to an array, and in every other case throws an error
  whose message contains the field name. \<^verbatim>\<open>safeJsonParse\<close> (second variant) always
  returns a value: the fallback for an input that is not a string or whose text does not
  parse, the parsed value otherwise.
\<close>

theorem json_array_fields:
  "(\<not> truthy raw \<longrightarrow> parseJsonArray parse raw f = Inr (JArr []))
   \<and> (truthy raw \<and> js_String raw = Inr s \<and> parse s = Inr (JArr xs)
        \<longrightarrow> parseJsonArray parse raw f = Inr (JArr xs))
   \<and> (truthy raw \<and> \<not> (\<exists>s xs. js_String raw = Inr s \<and> parse s = Inr (JArr xs))
        \<longrightarrow> (\<exists>e. parseJsonArray parse raw f = Inl e \<and> sublist f (err_message e)))
   \<and> (js_typeof v \<noteq> ''string'' \<longrightarrow> safeJsonParse parse v fb = fb)
   \<and> (parse t = Inl e \<longrightarrow> safeJsonParse parse (JStr t) fb = fb)
   \<and> (parse t = Inr w \<longrightarrow> safeJsonParse parse (JStr t) fb = w)"
proof (intro conjI impI)
  assume "\<not> truthy raw"
  then show "parseJsonArray parse raw f = Inr (JArr [])"
    by (simp add: parseJsonArray_def)
next
  assume "truthy raw \<and> js_String raw = Inr s \<and> parse s = Inr (JArr xs)"
  then show "parseJsonArray parse raw f = Inr (JArr xs)"
    by (simp add: parseJsonArray_def parseJsonArray_try_def bindE_def)
next
  assume a: "truthy raw \<and> \<not> (\<exists>s xs. js_String raw = Inr s \<and> parse s = Inr (JArr xs))"
  have "\<exists>e. parseJsonArray_try parse raw f = Inl e"
  proof (cases "js_String raw")
    case (Inl e)
    then show ?thesis by (simp add: parseJsonArray_try_def bindE_def)
  next
    case (Inr s)
    show ?thesis
    proof (cases "parse s")
      case (Inl e)
      with Inr show ?thesis by (simp add: parseJsonArray_try_def bindE_def)
    next
      case (Inr parsed)
      with a \<open>js_String raw = Inr s\<close> have "\<not> isArray parsed"
        by (cases parsed) auto
      with Inr \<open>js_String raw = Inr s\<close> show ?thesis
        by (simp add: parseJsonArray_try_def bindE_def)
    qed
  qed
  then obtain e0 where "parseJsonArray_try parse raw f = Inl e0" ..
  with a have "parseJsonArray parse raw f
      = Inl (Error (''Invalid JSON in '' @ f @ '': '' @ err_message e0))"
    by (simp add: parseJsonArray_def)
  moreover have "sublist f (err_message (Error (''Invalid JSON in '' @ f @ '': '' @ err_message e0)))"
    by (rule sublist_Error)
  ultimately show "\<exists>e. parseJsonArray parse raw f = Inl e \<and> sublist f (err_message e)"
    by blast
next
  assume "js_typeof v \<noteq> ''string''"
  then show "safeJsonParse parse v fb = fb"
    by (simp add: safeJsonParse_def safeJsonParse_try_def)
next
  assume "parse t = Inl e"
  then show "safeJsonParse parse (JStr t) fb = fb"
    by (simp add: safeJsonParse_def safeJsonParse_try_def bindE_def)
next
  assume "parse t = Inr w"
  then show "safeJsonParse parse (JStr t) fb = w"
    by (simp add: safeJsonParse_def safeJsonParse_try_def bindE_def)
qed

theorem json_array_fields_witness:
  "parseJsonArray toy_parse (JStr []) ''templates.T.required_placeholders'' = Inr (JArr [])
   \<and> parseJsonArray toy_parse (JStr ''[]'') ''templates.T.required_placeholders'' = Inr (JArr [])
   \<and> (\<exists>e. parseJsonArray toy_parse (JStr ''{}'') ''templates.T.required_placeholders'' = Inl e
         \<and> sublist ''templates.T.required_placeholders'' (err_message e))
   \<and> safeJsonParse toy_parse (JNum 3) (JArr []) = JArr []
   \<and> safeJsonParse toy_parse (JStr ''[1,'') (JArr []) = JArr []
   \<and> safeJsonParse toy_parse (JStr ''{}'') (JArr []) = JObj []"
  using json_array_fields [where raw = "JStr []" and parse = toy_parse
      and f = "''templates.T.required_placeholders''"]
    json_array_fields [where raw = "JStr ''[]''" and s = "''[]''" and parse = toy_parse
      and xs = "[]" and f = "''templates.T.required_placeholders''" and v = "JNum 3"
      and fb = "JArr []" and t = "''[1,''"
      and e = "\<lparr>err_name = ''SyntaxError'', err_message = ''Unexpected token'',
                err_code = JUndefined, err_statusCode = JUndefined\<rparr>"]
    json_array_fields [where raw = "JStr ''{}''" and parse = toy_parse
      and f = "''templates.T.required_placeholders''" and fb = "JArr []"
      and t = "''{}''" and w = "JObj []"]
  by (simp add: toy_parse_def quoted_def)

section \<open>Configuration loading: proofs\<close>

lemma bindE_Inr: "bindE m f = Inr y \<longleftrightarrow> (\<exists>x. m = Inr x \<and> f x = Inr y)"
  by (cases m) (simp_all add: bindE_def)

lemma filterE_Inr: "filterE p xs = Inr ys \<Longrightarrow> ys = filter (\<lambda>x. p x = Inr True) xs"
proof (induction xs arbitrary: ys)
  case Nil
  then show ?case by simp
next
  case (Cons x xs)
  then show ?case by (auto simp: bindE_Inr)
qed

lemma mapE_Inr: "mapE f xs = Inr ys \<Longrightarrow> list_all2 (\<lambda>x y. f x = Inr y) xs ys"
proof (induction xs arbitrary: ys)
  case Nil
  then show ?case by simp
next
  case (Cons x xs)
  then show ?case by (auto simp: bindE_Inr)
qed

lemma template_of_row_props:
  "template_of_row parse r = Inr t \<Longrightarrow>
     is_active_record t \<and> js_prop t ''template_key'' = js_prop r ''template_key''"
  by (auto simp: template_of_row_def bindE_Inr is_active_record_def js_prop_def)

lemma package_of_row_props:
  "package_of_row parse r = Inr t \<Longrightarrow>
     is_active_record t \<and> js_prop t ''package_key'' = js_prop r ''package_key''"
  by (auto simp: package_of_row_def bindE_Inr is_active_record_def js_prop_def)

lemma list_all2_props:
  "list_all2 (\<lambda>x y. f x = Inr y) xs ys \<Longrightarrow> (\<And>x y. f x = Inr y \<Longrightarrow> P y \<and> g y = h x)
     \<Longrightarrow> list_all P ys \<and> map g ys = map h xs"
  by (induction xs ys rule: list_all2_induct) auto

lemma normalizeTemplates_active:
  assumes "normalizeTemplates parse rows = Inr tpls"
  shows "list_all is_active_record tpls"
    and "map (\<lambda>t. js_prop t ''template_key'') tpls
         = map (\<lambda>r. js_prop r ''template_key'')
             (filter (\<lambda>r. parseBoolean (js_prop r ''is_active'') = Inr True)
                (mapRowsToObjects rows))"
proof -
  from assms obtain act where
    f: "filterE (\<lambda>row. parseBoolean (js_prop row ''is_active'')) (mapRowsToObjects rows) = Inr act"
    and m: "mapE (template_of_row parse) act = Inr tpls"
    by (auto simp: normalizeTemplates_def bindE_Inr)
  from filterE_Inr [OF f] have act: "act = filter (\<lambda>r. parseBoolean (js_prop r ''is_active'') = Inr True)
                (mapRowsToObjects rows)" .
  from list_all2_props [OF mapE_Inr [OF m], of is_active_record "\<lambda>t. js_prop t ''template_key''"
      "\<lambda>r. js_prop r ''template_key''"] template_of_row_props
  have "list_all is_active_record tpls \<and> map (\<lambda>t. js_prop t ''template_key'') tpls
         = map (\<lambda>r. js_prop r ''template_key'') act" by blast
  with act show "list_all is_active_record tpls"
    and "map (\<lambda>t. js_prop t ''template_key'') tpls
         = map (\<lambda>r. js_prop r ''template_key'')
             (filter (\<lambda>r. parseBoolean (js_prop r ''is_active'') = Inr True)
                (mapRowsToObjects rows))" by auto
qed

lemma normalizeExamPackages_active:
  assumes "normalizeExamPackages parse rows = Inr tpls"
  shows "list_all is_active_record tpls"
    and "map (\<lambda>t. js_prop t ''package_key'') tpls
         = map (\<lambda>r. js_prop r ''package_key'')
             (filter (\<lambda>r. parseBoolean (js_prop r ''is_active'') = Inr True)
                (mapRowsToObjects rows))"
proof -
  from assms obtain act where
    f: "filterE (\<lambda>row. parseBoolean (js_prop row ''is_active'')) (mapRowsToObjects rows) = Inr act"
    and m: "mapE (package_of_row parse) act = Inr tpls"
    by (auto simp: normalizeExamPackages_def bindE_Inr)
  from filterE_Inr [OF f] have act: "act = filter (\<lambda>r. parseBoolean (js_prop r ''is_active'') = Inr True)
                (mapRowsToObjects rows)" .
  from list_all2_props [OF mapE_Inr [OF m], of is_active_record "\<lambda>t. js_prop t ''package_key''"
      "\<lambda>r. js_prop r ''package_key''"] package_of_row_props
  have "list_all is_active_record tpls \<and> map (\<lambda>t. js_prop t ''package_key'') tpls
         = map (\<lambda>r. js_prop r ''package_key'') act" by blast
  with act show "list_all is_active_record tpls"
    and "map (\<lambda>t. js_prop t ''package_key'') tpls
         = map (\<lambda>r. js_prop r ''package_key'')
             (filter (\<lambda>r. parseBoolean (js_prop r ''is_active'') = Inr True)
                (mapRowsToObjects rows))" by auto
qed

lemma build_config_active:
  "build_config parse tr pr = Inr cfg \<Longrightarrow> all_active cfg"
  by (auto simp: build_config_def bindE_Inr all_active_def js_prop_def elems_def
      dest: normalizeTemplates_active(1) normalizeExamPackages_active(1))

lemma template_of_raw_props:
  "template_of_raw parse r = Inr t \<Longrightarrow>
     (truthy (js_prop t ''is_active'') \<longleftrightarrow> toBool (js_prop r ''is_active'') = Inr True)
     \<and> (truthy (js_prop t ''is_active'') \<longrightarrow> is_active_record t)
     \<and> js_prop t ''template_key'' = js_prop r ''template_key''"
  by (auto simp: template_of_raw_def bindE_Inr is_active_record_def js_prop_def)

lemma package_of_raw_props:
  "package_of_raw parse r = Inr t \<Longrightarrow>
     (truthy (js_prop t ''is_active'') \<longleftrightarrow> toBool (js_prop r ''is_active'') = Inr True)
     \<and> (truthy (js_prop t ''is_active'') \<longrightarrow> is_active_record t)
     \<and> js_prop t ''package_key'' = js_prop r ''package_key''"
  by (auto simp: package_of_raw_def bindE_Inr is_active_record_def js_prop_def)

lemma list_all2_filter_props:
  "list_all2 (\<lambda>x y. f x = Inr y) xs ys \<Longrightarrow>
   (\<And>x y. f x = Inr y \<Longrightarrow> (Q y \<longleftrightarrow> P x) \<and> (Q y \<longrightarrow> A y) \<and> g y = h x) \<Longrightarrow>
   list_all A (filter Q ys) \<and> map g (filter Q ys) = map h (filter P xs)"
  by (induction xs ys rule: list_all2_induct) auto

lemma build_config2_active:
  assumes "build_config2 parse tv pv = Inr cfg"
  shows "all_active cfg"
    and "map (\<lambda>t. js_prop t ''template_key'') (elems (js_prop cfg ''templates''))
         = map (\<lambda>r. js_prop r ''template_key'')
             (filter (\<lambda>r. toBool (js_prop r ''is_active'') = Inr True) (rowsToObjects tv))"
    and "map (\<lambda>t. js_prop t ''package_key'') (elems (js_prop cfg ''exam_packages''))
         = map (\<lambda>r. js_prop r ''package_key'')
             (filter (\<lambda>r. toBool (js_prop r ''is_active'') = Inr True) (rowsToObjects pv))"
proof -
  from assms obtain mapped mappedp bt bp where
    m: "mapE (template_of_raw parse) (rowsToObjects tv) = Inr mapped"
    and mp: "mapE (package_of_raw parse) (rowsToObjects pv) = Inr mappedp"
    and cfg: "cfg = JObj [(''templates'', JArr (filter (\<lambda>t. truthy (js_prop t ''is_active'')) mapped)),
                        (''exam_packages'', JArr (filter (\<lambda>p. truthy (js_prop p ''is_active'')) mappedp)),
                        (''byTemplateKey'', bt),
                        (''byPackageKey'', bp)]"
    by (auto simp: build_config2_def bindE_Inr Let_def)
  have t: "list_all is_active_record (filter (\<lambda>t. truthy (js_prop t ''is_active'')) mapped)
      \<and> map (\<lambda>t. js_prop t ''template_key'') (filter (\<lambda>t. truthy (js_prop t ''is_active'')) mapped)
        = map (\<lambda>r. js_prop r ''template_key'')
             (filter (\<lambda>r. toBool (js_prop r ''is_active'') = Inr True) (rowsToObjects tv))"
    by (rule list_all2_filter_props [OF mapE_Inr [OF m]]) (rule template_of_raw_props)
  have p: "list_all is_active_record (filter (\<lambda>t. truthy (js_prop t ''is_active'')) mappedp)
      \<and> map (\<lambda>t. js_prop t ''package_key'') (filter (\<lambda>t. truthy (js_prop t ''is_active'')) mappedp)
        = map (\<lambda>r. js_prop r ''package_key'')
             (filter (\<lambda>r. toBool (js_prop r ''is_active'') = Inr True) (rowsToObjects pv))"
    by (rule list_all2_filter_props [OF mapE_Inr [OF mp]]) (rule package_of_raw_props)
  from t p cfg show "all_active cfg"
    by (simp add: all_active_def js_prop_def elems_def)
  from t cfg show "map (\<lambda>t. js_prop t ''template_key'') (elems (js_prop cfg ''templates''))
         = map (\<lambda>r. js_prop r ''template_key'')
             (filter (\<lambda>r. toBool (js_prop r ''is_active'') = Inr True) (rowsToObjects tv))"
    by (simp add: js_prop_def elems_def)
  from p cfg show "map (\<lambda>t. js_prop t ''package_key'') (elems (js_prop cfg ''exam_packages''))
         = map (\<lambda>r. js_prop r ''package_key'')
             (filter (\<lambda>r. toBool (js_prop r ''is_active'') = Inr True) (rowsToObjects pv))"
    by (simp add: js_prop_def elems_def)
qed

lemma loadConfig_active:
  assumes "cache_active (data (configCache st))" and "loadConfig parse w st = (Inr cfg, st')"
  shows "all_active cfg \<and> cache_active (data (configCache st'))"
proof (cases "truthy (data (configCache st)) \<and> now_start w < expiresAt (configCache st)")
  case True
  with assms show ?thesis by (auto simp: loadConfig_def cache_active_def)
next
  case False
  with assms(2) obtain tv pv where "build_config parse (values_or_empty tv) (values_or_empty pv) = Inr cfg"
    and "data (configCache st') = cfg"
    by (auto simp: loadConfig_def Let_def split: sum.splits prod.splits)
  then show ?thesis using build_config_active by (auto simp: cache_active_def)
qed

lemma loadConfig2_active:
  assumes "cache_active (data2 (CONFIG_CACHE st))" and "loadConfig2 parse ev w st = (Inr cfg, st')"
  shows "all_active cfg \<and> cache_active (data2 (CONFIG_CACHE st'))"
proof (cases "truthy (data2 (CONFIG_CACHE st)) \<and> now_start w - ts (CONFIG_CACHE st) < ttlMs (CONFIG_CACHE st)")
  case True
  with assms show ?thesis by (auto simp: loadConfig2_def cache_active_def)
next
  case False
  with assms(2) obtain tv pv where "build_config2 parse tv pv = Inr cfg"
    and "data2 (CONFIG_CACHE st') = cfg"
    by (auto simp: loadConfig2_def Let_def split: sum.splits prod.splits if_splits)
  then show ?thesis using build_config2_active(1) by (auto simp: cache_active_def)
qed


lemma not_isl_obtain: "\<not> isl (fst r) \<Longrightarrow> \<exists>c s. r = (Inr c, s)"
  by (cases r; cases "fst r") auto

lemma build_config_truthy: "build_config parse a b = Inr cfg \<Longrightarrow> truthy cfg"
  by (auto simp: build_config_def bindE_Inr)


lemma build_config2_truthy: "build_config2 parse a b = Inr cfg \<Longrightarrow> truthy cfg"
  by (auto simp: build_config2_def bindE_Inr Let_def)

lemma loadConfig_hit:
  "cache_hit w st \<Longrightarrow> loadConfig parse w st = (Inr (data (configCache st)), st)"
  by (simp add: loadConfig_def cache_hit_def)

lemma loadConfig_miss_trace:
  "\<not> cache_hit w st \<Longrightarrow> trace (snd (loadConfig parse w st)) = trace st @ sheet_reads"
  by (auto simp: loadConfig_def cache_hit_def Let_def sheet_reads_def split: sum.splits prod.splits)

lemma loadConfig_miss_store:
  "\<lbrakk>\<not> cache_hit w st; sheets_result w = Inr (tv, pv);
    build_config parse (values_or_empty tv) (values_or_empty pv) = Inr cfg\<rbrakk>
   \<Longrightarrow> fst (loadConfig parse w st) = Inr cfg
     \<and> configCache (snd (loadConfig parse w st))
         = \<lparr>expiresAt = now_store w + 60000, data = cfg\<rparr>"
  by (auto simp: loadConfig_def cache_hit_def Let_def CONFIG_TTL_MS_def)

lemma loadConfig_miss_cases:
  "\<lbrakk>\<not> cache_hit w st; loadConfig parse w st = (Inr cfg, st1)\<rbrakk>
   \<Longrightarrow> truthy cfg \<and> configCache st1 = \<lparr>expiresAt = now_store w + 60000, data = cfg\<rparr>"
  by (auto simp: loadConfig_def cache_hit_def Let_def CONFIG_TTL_MS_def
      split: sum.splits prod.splits dest: build_config_truthy)

lemma loadConfig_then:
  assumes "\<not> cache_hit w st" and "loadConfig parse w st = (Inr cfg, st1)"
  shows "cache_hit w' st1 \<longleftrightarrow> now_start w' - now_store w < 60000"
  using loadConfig_miss_cases [OF assms] by (auto simp: cache_hit_def)

lemma loadConfig2_hit:
  "cache_hit2 w st \<Longrightarrow> loadConfig2 parse ev w st = (Inr (data2 (CONFIG_CACHE st)), st)"
  by (simp add: loadConfig2_def cache_hit2_def)

lemma loadConfig2_miss_trace:
  "\<lbrakk>\<not> cache_hit2 w st; env_truthy (SHEETS_SPREADSHEET_ID ev)\<rbrakk>
   \<Longrightarrow> trace2 (snd (loadConfig2 parse ev w st)) = trace2 st @ sheet_reads2"
  by (auto simp: loadConfig2_def cache_hit2_def Let_def sheet_reads2_def
      split: sum.splits prod.splits)

lemma loadConfig2_miss_store:
  "\<lbrakk>\<not> cache_hit2 w st; env_truthy (SHEETS_SPREADSHEET_ID ev); sheets_result w = Inr (tv, pv);
    build_config2 parse tv pv = Inr cfg\<rbrakk>
   \<Longrightarrow> fst (loadConfig2 parse ev w st) = Inr cfg
     \<and> CONFIG_CACHE (snd (loadConfig2 parse ev w st))
         = \<lparr>ts = now_start w, ttlMs = ttlMs (CONFIG_CACHE st), data2 = cfg\<rparr>"
  by (auto simp: loadConfig2_def cache_hit2_def Let_def)

lemma loadConfig2_miss_cases:
  "\<lbrakk>\<not> cache_hit2 w st; loadConfig2 parse ev w st = (Inr cfg, st1)\<rbrakk>
   \<Longrightarrow> truthy cfg \<and> CONFIG_CACHE st1
         = \<lparr>ts = now_start w, ttlMs = ttlMs (CONFIG_CACHE st), data2 = cfg\<rparr>"
  by (auto simp: loadConfig2_def cache_hit2_def Let_def
      split: sum.splits prod.splits if_splits dest: build_config2_truthy)

lemma loadConfig2_then:
  assumes "\<not> cache_hit2 w st" and "loadConfig2 parse ev w st = (Inr cfg, st1)"
    and "ttlMs (CONFIG_CACHE st) = 60000"
  shows "cache_hit2 w' st1 \<longleftrightarrow> now_start w' - now_start w < 60000"
  using loadConfig2_miss_cases [OF assms(1,2)] assms(3) by (auto simp: cache_hit2_def)

text \<open>
  Claim C9 (amended). \<^verbatim>\<open>server.js\<close>: a call finding a cached value before its expiry
  returns it and leaves the state, trace included, as it is; any other call issues both
  reads and, when they and the parsing succeed, replaces the cache by the new
  configuration alone, expiring 60000 ms after the clock reading taken when it is
  stored; so a following call is served from the cache exactly when fewer than 60000 ms
  passed since that reading. Second variant: the same, except that the 60000 ms count
  from the clock reading taken at the start of the load that filled the cache.
\<close>

theorem config_cache_ttl:
  "(cache_hit w st \<longrightarrow> loadConfig parse w st = (Inr (data (configCache st)), st))
   \<and> (\<not> cache_hit w st \<longrightarrow>
        trace (snd (loadConfig parse w st)) = trace st @ sheet_reads
        \<and> (sheets_result w = Inr (tv, pv)
             \<and> build_config parse (values_or_empty tv) (values_or_empty pv) = Inr cfg
           \<longrightarrow> fst (loadConfig parse w st) = Inr cfg
             \<and> configCache (snd (loadConfig parse w st))
                 = \<lparr>expiresAt = now_store w + 60000, data = cfg\<rparr>)
        \<and> (loadConfig parse w st = (Inr cfg', st')
           \<longrightarrow> (cache_hit wa st' \<longleftrightarrow> now_start wa - now_store w < 60000)))
   \<and> (cache_hit2 w stb \<longrightarrow> loadConfig2 parse ev w stb = (Inr (data2 (CONFIG_CACHE stb)), stb))
   \<and> (\<not> cache_hit2 w stb \<and> env_truthy (SHEETS_SPREADSHEET_ID ev) \<longrightarrow>
        trace2 (snd (loadConfig2 parse ev w stb)) = trace2 stb @ sheet_reads2
        \<and> (sheets_result w = Inr (tv, pv) \<and> build_config2 parse tv pv = Inr cfgb
           \<longrightarrow> fst (loadConfig2 parse ev w stb) = Inr cfgb
             \<and> CONFIG_CACHE (snd (loadConfig2 parse ev w stb))
                 = \<lparr>ts = now_start w, ttlMs = ttlMs (CONFIG_CACHE stb), data2 = cfgb\<rparr>)
        \<and> (loadConfig2 parse ev w stb = (Inr cfgb', stb') \<and> ttlMs (CONFIG_CACHE stb) = 60000
           \<longrightarrow> (cache_hit2 wa stb' \<longleftrightarrow> now_start wa - now_start w < 60000)))"
  using loadConfig_hit [of w st parse] loadConfig_miss_trace [of w st parse]
    loadConfig_miss_store [of w st tv pv parse cfg]
    loadConfig_then [of w st parse cfg' st' wa]
    loadConfig2_hit [of w stb parse ev] loadConfig2_miss_trace [of w stb ev parse]
    loadConfig2_miss_store [of w stb ev tv pv parse cfgb]
    loadConfig2_then [of w stb parse ev cfgb' stb' wa]
  by blast

text \<open>
  The claim as stated fails in the second variant: a load starts at 0 and stores its
  result at 5000; a call at 62000, 57000 ms after the value was stored, reads the
  spreadsheet again.
\<close>

theorem config_cache_ttl_counterexample:
  "now_start (later_world 62000) - now_store slow_load_world < 60000
   \<and> trace2 (snd (loadConfig2 toy_parse example_env (later_world 62000)
        (snd (loadConfig2 toy_parse example_env slow_load_world initial_state2))))
      = sheet_reads2 @ sheet_reads2"
  by code_simp

lemma later_world_simps:
  "now_start (later_world t) = t" "now_store slow_load_world = 5000"
  "now_start slow_load_world = 0"
  by (simp_all add: later_world_def slow_load_world_def)

theorem config_cache_ttl_witness:
  "trace (snd (loadConfig toy_parse slow_load_world initial_state)) = sheet_reads
   \<and> (\<exists>c s. loadConfig toy_parse slow_load_world initial_state = (Inr c, s)
        \<and> cache_hit (later_world 64999) s \<and> \<not> cache_hit (later_world 65000) s
        \<and> loadConfig toy_parse (later_world 64999) s = (Inr c, s))
   \<and> trace2 (snd (loadConfig2 toy_parse example_env slow_load_world initial_state2)) = sheet_reads2
   \<and> (\<exists>c s. loadConfig2 toy_parse example_env slow_load_world initial_state2 = (Inr c, s)
        \<and> cache_hit2 (later_world 59999) s \<and> \<not> cache_hit2 (later_world 60000) s
        \<and> loadConfig2 toy_parse example_env (later_world 59999) s = (Inr c, s))"
proof -
  have m1: "\<not> cache_hit slow_load_world initial_state"
    by (simp add: cache_hit_def initial_state_def)
  have m2: "\<not> cache_hit2 slow_load_world initial_state2"
    by (simp add: cache_hit2_def initial_state2_def)
  have e: "env_truthy (SHEETS_SPREADSHEET_ID example_env)"
    by (simp add: env_truthy_def example_env_def)
  have t: "ttlMs (CONFIG_CACHE initial_state2) = 60000"
    by (simp add: initial_state2_def)
  have "\<not> isl (fst (loadConfig toy_parse slow_load_world initial_state))"
    by code_simp
  then obtain c s where h1: "loadConfig toy_parse slow_load_world initial_state = (Inr c, s)"
    using not_isl_obtain by blast
  have "\<not> isl (fst (loadConfig2 toy_parse example_env slow_load_world initial_state2))"
    by code_simp
  then obtain cb sb where
    h2: "loadConfig2 toy_parse example_env slow_load_world initial_state2 = (Inr cb, sb)"
    using not_isl_obtain by blast
  from loadConfig_miss_cases [OF m1 h1] have d1: "data (configCache s) = c" by simp
  from loadConfig2_miss_cases [OF m2 h2] have d2: "data2 (CONFIG_CACHE sb) = cb" by simp
  note inst = config_cache_ttl [where parse = toy_parse and ev = example_env]
  have a1: "trace (snd (loadConfig toy_parse slow_load_world initial_state))
      = trace initial_state @ sheet_reads"
    using inst [where w = slow_load_world and st = initial_state] m1 by blast
  have a2: "cache_hit wa s \<longleftrightarrow> now_start wa - now_store slow_load_world < 60000" for wa
    using inst [where w = slow_load_world and st = initial_state and cfg' = c and st' = s
        and wa = wa] m1 h1 by blast
  have a3: "cache_hit w s \<Longrightarrow> loadConfig toy_parse w s = (Inr (data (configCache s)), s)" for w
    using inst [where w = w and st = s] by blast
  have b1: "trace2 (snd (loadConfig2 toy_parse example_env slow_load_world initial_state2))
      = trace2 initial_state2 @ sheet_reads2"
    using inst [where w = slow_load_world and stb = initial_state2] m2 e by blast
  have b2: "cache_hit2 wa sb \<longleftrightarrow> now_start wa - now_start slow_load_world < 60000" for wa
    using inst [where w = slow_load_world and stb = initial_state2 and cfgb' = cb and stb' = sb
        and wa = wa] m2 e h2 t by blast
  have b3: "cache_hit2 w sb \<Longrightarrow>
      loadConfig2 toy_parse example_env w sb = (Inr (data2 (CONFIG_CACHE sb)), sb)" for w
    using inst [where w = w and stb = sb] by blast
  have c1: "cache_hit (later_world 64999) s" "\<not> cache_hit (later_world 65000) s"
    by (simp_all add: a2 later_world_simps)
  have c2: "cache_hit2 (later_world 59999) sb" "\<not> cache_hit2 (later_world 60000) sb"
    by (simp_all add: b2 later_world_simps)
  have t1: "trace initial_state = []" "trace2 initial_state2 = []"
    by (simp_all add: initial_state_def initial_state2_def)
  show ?thesis
  proof (intro conjI exI)
    show "trace (snd (loadConfig toy_parse slow_load_world initial_state)) = sheet_reads"
      by (simp only: a1 t1 append_Nil)
    show "loadConfig toy_parse slow_load_world initial_state = (Inr c, s)" by (rule h1)
    show "cache_hit (later_world 64999) s" by (rule c1)
    show "\<not> cache_hit (later_world 65000) s" by (rule c1)
    show "loadConfig toy_parse (later_world 64999) s = (Inr c, s)"
      using a3 [OF c1(1)] by (simp only: d1)
    show "trace2 (snd (loadConfig2 toy_parse example_env slow_load_world initial_state2))
        = sheet_reads2"
      by (simp only: b1 t1 append_Nil)
    show "loadConfig2 toy_parse example_env slow_load_world initial_state2 = (Inr cb, sb)"
      by (rule h2)
    show "cache_hit2 (later_world 59999) sb" by (rule c2)
    show "\<not> cache_hit2 (later_world 60000) sb" by (rule c2)
    show "loadConfig2 toy_parse example_env (later_world 59999) sb = (Inr cb, sb)"
      using b3 [OF c2(1)] by (simp only: d2)
  qed
qed

section \<open>The existence poll: proofs\<close>

lemma not_found_run_Suc:
  "not_found_run w n (Suc k)
     \<longleftrightarrow> (\<exists>e. get_result w n = Some e \<and> notFound e) \<and> not_found_run w (Suc n) k"
  by (auto split: option.splits)

declare not_found_run.simps(2) [simp del]

lemma gets_sleeps_simps:
  "gets_of [] = 0" "sleeps_of [] = []"
  "gets_of (DriveGet f # evs) = Suc (gets_of evs)" "sleeps_of (DriveGet f # evs) = sleeps_of evs"
  "gets_of (Sleep d # evs) = gets_of evs" "sleeps_of (Sleep d # evs) = d # sleeps_of evs"
  by (simp_all add: gets_of_def sleeps_of_def)

lemma loop_found:
  "\<lbrakk>k < length ds; not_found_run w n k; get_result w (n + k) = None\<rbrakk>
   \<Longrightarrow> \<exists>evs. waitForFile_loop w f ds n = (Inr True, evs, n + Suc k)
          \<and> gets_of evs = Suc k \<and> sleeps_of evs = take k ds"
proof (induction ds arbitrary: n k)
  case Nil
  then show ?case by simp
next
  case (Cons d ds)
  show ?case
  proof (cases k)
    case 0
    with Cons.prems show ?thesis by (simp add: gets_sleeps_simps)
  next
    case (Suc j)
    with Cons.prems obtain e where e: "get_result w n = Some e" "notFound e"
      and run: "not_found_run w (Suc n) j"
      by (auto simp: not_found_run_Suc)
    from Cons.prems Suc have "j < length ds" "get_result w (Suc n + j) = None" by simp_all
    from Cons.IH [OF this(1) run this(2)] obtain evs where
      "waitForFile_loop w f ds (Suc n) = (Inr True, evs, Suc n + Suc j)"
      "gets_of evs = Suc j" "sleeps_of evs = take j ds" by blast
    with e Suc show ?thesis by (simp add: gets_sleeps_simps)
  qed
qed

lemma loop_rethrow:
  "\<lbrakk>k < length ds; not_found_run w n k; get_result w (n + k) = Some e; \<not> notFound e\<rbrakk>
   \<Longrightarrow> \<exists>evs. waitForFile_loop w f ds n = (Inl e, evs, n + Suc k)
          \<and> gets_of evs = Suc k \<and> sleeps_of evs = take k ds"
proof (induction ds arbitrary: n k)
  case Nil
  then show ?case by simp
next
  case (Cons d ds)
  show ?case
  proof (cases k)
    case 0
    with Cons.prems show ?thesis by (simp add: gets_sleeps_simps)
  next
    case (Suc j)
    with Cons.prems obtain e' where e: "get_result w n = Some e'" "notFound e'"
      and run: "not_found_run w (Suc n) j"
      by (auto simp: not_found_run_Suc)
    from Cons.prems Suc have "j < length ds" "get_result w (Suc n + j) = Some e" by simp_all
    from Cons.IH [OF this(1) run this(2) Cons.prems(4)] obtain evs where
      "waitForFile_loop w f ds (Suc n) = (Inl e, evs, Suc n + Suc j)"
      "gets_of evs = Suc j" "sleeps_of evs = take j ds" by blast
    with e Suc show ?thesis by (simp add: gets_sleeps_simps)
  qed
qed

lemma loop_exhausted:
  "not_found_run w n (length ds)
   \<Longrightarrow> \<exists>evs. waitForFile_loop w f ds n
            = (Inl (Error (''File not found (after retries): '' @ f)), evs, n + length ds)
          \<and> gets_of evs = length ds \<and> sleeps_of evs = ds"
proof (induction ds arbitrary: n)
  case Nil
  then show ?case by (simp add: gets_sleeps_simps)
next
  case (Cons d ds)
  then obtain e where e: "get_result w n = Some e" "notFound e"
    and run: "not_found_run w (Suc n) (length ds)"
    by (auto simp: not_found_run_Suc)
  from Cons.IH [OF run] obtain evs where
    "waitForFile_loop w f ds (Suc n)
       = (Inl (Error (''File not found (after retries): '' @ f)), evs, Suc n + length ds)"
    "gets_of evs = length ds" "sleeps_of evs = ds" by blast
  with e show ?case by (simp add: gets_sleeps_simps)
qed

lemma loop_bound:
  "waitForFile_loop w f ds n = (r, evs, n')
   \<Longrightarrow> gets_of evs \<le> length ds \<and> n' = n + gets_of evs \<and> prefix (sleeps_of evs) ds"
proof (induction ds arbitrary: n r evs n')
  case Nil
  then show ?case by (auto simp: gets_sleeps_simps)
next
  case (Cons d ds)
  show ?case
  proof (cases "get_result w n")
    case None
    with Cons.prems show ?thesis by (auto simp: gets_sleeps_simps)
  next
    case (Some e)
    show ?thesis
    proof (cases "notFound e")
      case False
      with Some Cons.prems show ?thesis by (auto simp: gets_sleeps_simps)
    next
      case True
      obtain r1 evs1 n1 where l: "waitForFile_loop w f ds (Suc n) = (r1, evs1, n1)"
        by (cases "waitForFile_loop w f ds (Suc n)") auto
      from Cons.IH [OF l] Some True Cons.prems l show ?thesis
        by (auto simp: gets_sleeps_simps)
    qed
  qed
qed

lemma delays_increasing: "sorted_wrt (<) delays \<and> length delays = 6 \<and> hd delays = 200 \<and> last delays = 1600"
  by (simp add: delays_def)

text \<open>
  Claim C8. \<^verbatim>\<open>waitForFile\<close> always returns, after at most 6 checks; the delays it
  sleeps are an initial part of 200, 350, 550, 800, 1200, 1600, which increase strictly.
  It returns \<open>true\<close> at the first check that succeeds, rethrows at once (without
  sleeping again) the first error that is not a not-found error, and after six not-found
  answers throws \<open>File not found (after retries)\<close> with the file id.
\<close>

theorem waitForFile_bounded:
  "(\<exists>r evs n'. waitForFile w f n = (r, evs, n')
      \<and> gets_of evs \<le> 6 \<and> n' = n + gets_of evs \<and> prefix (sleeps_of evs) delays)
   \<and> sorted_wrt (<) delays \<and> length delays = 6 \<and> hd delays = 200 \<and> last delays = 1600
   \<and> (k < 6 \<and> not_found_run w n k \<and> get_result w (n + k) = None
      \<longrightarrow> (\<exists>es. waitForFile w f n = (Inr True, es, n + Suc k)
             \<and> gets_of es = Suc k \<and> sleeps_of es = take k delays))
   \<and> (k < 6 \<and> not_found_run w n k \<and> get_result w (n + k) = Some e \<and> \<not> notFound e
      \<longrightarrow> (\<exists>es. waitForFile w f n = (Inl e, es, n + Suc k)
             \<and> gets_of es = Suc k \<and> sleeps_of es = take k delays))
   \<and> (not_found_run w n 6
      \<longrightarrow> (\<exists>es. waitForFile w f n
               = (Inl (Error (''File not found (after retries): '' @ f)), es, n + 6)
             \<and> gets_of es = 6 \<and> sleeps_of es = delays))"
proof -
  obtain r evs n' where l: "waitForFile_loop w f delays n = (r, evs, n')"
    by (cases "waitForFile_loop w f delays n") auto
  from loop_bound [OF l] delays_increasing
  have "\<exists>r evs n'. waitForFile w f n = (r, evs, n')
      \<and> gets_of evs \<le> 6 \<and> n' = n + gets_of evs \<and> prefix (sleeps_of evs) delays"
    unfolding waitForFile_def l by simp
  then show ?thesis
    using delays_increasing
      loop_found [of k delays w n f] loop_rethrow [of k delays w n e f]
      loop_exhausted [of w n delays f]
    unfolding waitForFile_def by (simp only: simp_thms) blast
qed

theorem waitForFile_bounded_witness:
  "waitForFile (eventually_world 2) ''tmp1'' 0
     = (Inr True, [DriveGet ''tmp1'', Sleep 200, DriveGet ''tmp1'', Sleep 350, DriveGet ''tmp1''], 3)
   \<and> (\<exists>es. waitForFile (eventually_world 2) ''tmp1'' 0 = (Inr True, es, 0 + Suc 2)
        \<and> gets_of es = Suc 2 \<and> sleeps_of es = take 2 delays)
   \<and> (\<exists>es. waitForFile (flaky_world 1 (Error ''The caller does not have permission'')) ''tmp1'' 0
         = (Inl (Error ''The caller does not have permission''), es, 0 + Suc 1)
        \<and> gets_of es = Suc 1 \<and> sleeps_of es = take 1 delays)
   \<and> (\<exists>es. waitForFile (eventually_world 6) ''tmp1'' 0
         = (Inl (Error (''File not found (after retries): '' @ ''tmp1'')), es, 0 + 6)
        \<and> gets_of es = 6 \<and> sleeps_of es = delays)"
proof -
  have a: "not_found_run (eventually_world 2) 0 2" by code_simp
  have b: "get_result (eventually_world 2) (0 + 2) = None" by (simp add: eventually_world_def)
  have c: "not_found_run (flaky_world 1 (Error ''The caller does not have permission'')) 0 1"
    by code_simp
  have d: "get_result (flaky_world 1 (Error ''The caller does not have permission'')) (0 + 1)
      = Some (Error ''The caller does not have permission'')"
    by (simp add: flaky_world_def)
  have e: "\<not> notFound (Error ''The caller does not have permission'')" by code_simp
  have f: "not_found_run (eventually_world 6) 0 6" by code_simp
  have k: "(2::nat) < 6" "(1::nat) < 6" by simp_all
  have 1: "waitForFile (eventually_world 2) ''tmp1'' 0
     = (Inr True, [DriveGet ''tmp1'', Sleep 200, DriveGet ''tmp1'', Sleep 350, DriveGet ''tmp1''], 3)"
    by code_simp
  from waitForFile_bounded [where w = "eventually_world 2" and n = 0 and k = 2
      and f = "''tmp1''"] a b k
  have 2: "\<exists>es. waitForFile (eventually_world 2) ''tmp1'' 0 = (Inr True, es, 0 + Suc 2)
        \<and> gets_of es = Suc 2 \<and> sleeps_of es = take 2 delays"
    by blast
  from waitForFile_bounded [where w = "flaky_world 1 (Error ''The caller does not have permission'')"
      and n = 0 and k = 1 and f = "''tmp1''" and e = "Error ''The caller does not have permission''"]
    c d e k
  have 3: "\<exists>es. waitForFile (flaky_world 1 (Error ''The caller does not have permission'')) ''tmp1'' 0
         = (Inl (Error ''The caller does not have permission''), es, 0 + Suc 1)
        \<and> gets_of es = Suc 1 \<and> sleeps_of es = take 1 delays"
    by blast
  from waitForFile_bounded [where w = "eventually_world 6" and n = 0 and f = "''tmp1''"] f
  have 4: "\<exists>es. waitForFile (eventually_world 6) ''tmp1'' 0
         = (Inl (Error (''File not found (after retries): '' @ ''tmp1'')), es, 0 + 6)
        \<and> gets_of es = 6 \<and> sleeps_of es = delays"
    by blast
  from 1 2 3 4 show ?thesis by blast
qed

section \<open>File names: proofs\<close>

lemma no_separator_sanitize: "no_separator (sanitize s)"
  by (induction s) (auto simp: no_separator_def sanitize_def is_separator_def)

lemma no_separator_append: "no_separator (a @ b) \<longleftrightarrow> no_separator a \<and> no_separator b"
  by (simp add: no_separator_def)

lemma no_separator_subset: "\<lbrakk>no_separator s; set t \<subseteq> set s\<rbrakk> \<Longrightarrow> no_separator t"
  by (auto simp: no_separator_def list_all_iff)

lemma set_trim: "set (trim s) \<subseteq> set s"
  by (auto simp: trim_def dest!: set_dropWhileD)

lemma nat_dec_digits: "set (nat_dec n) \<subseteq> set ''0123456789''"
proof (induction n rule: nat_dec.induct)
  case (1 n)
  have d: "digit_char k \<in> set ''0123456789''" if "k < 10" for k
    unfolding digit_char_def using that by (intro nth_mem) simp
  show ?case
  proof (cases "n < 10")
    case True
    then show ?thesis using d [of n] by (subst nat_dec.simps) simp
  next
    case False
    have "n mod 10 < 10" by simp
    with False 1 d [of "n mod 10"] show ?thesis by (subst nat_dec.simps) simp
  qed
qed

lemma no_separator_nat_dec: "no_separator (nat_dec n)"
proof -
  have "no_separator ''0123456789''"
    by (simp add: no_separator_def is_separator_def)
  then show ?thesis using nat_dec_digits by (rule no_separator_subset)
qed

lemma no_separator_replicate: "\<not> is_separator c \<Longrightarrow> no_separator (replicate k c)"
  by (induction k) (simp_all add: no_separator_def)

lemma no_separator_padStart: "no_separator s \<Longrightarrow> no_separator (padStart n CHR ''0'' s)"
proof -
  assume s: "no_separator s"
  have "\<not> is_separator CHR ''0''" by (simp add: is_separator_def)
  then have "no_separator (replicate (n - length s) CHR ''0'')" by (rule no_separator_replicate)
  with s show ?thesis unfolding padStart_def by (simp only: no_separator_append simp_thms)
qed

lemma no_separator_literals:
  "no_separator ''-''" "no_separator ''+''" "no_separator ''T''" "no_separator ''.pdf''"
  "no_separator ''documento_''"
  by (simp_all add: no_separator_def is_separator_def)

lemma no_separator_iso_year: "no_separator (iso_year y)"
proof -
  have p: "no_separator (padStart n CHR ''0'' (nat_dec k))" for n k
    by (rule no_separator_padStart) (rule no_separator_nat_dec)
  show ?thesis
  proof (cases "0 \<le> y \<and> y \<le> 9999")
    case True
    then have "iso_year y = padStart 4 CHR ''0'' (nat_dec (nat y))"
      unfolding iso_year_def by (rule if_P)
    then show ?thesis by (simp only: p)
  next
    case False
    then have e: "iso_year y = (if y < 0 then ''-'' else ''+'') @ padStart 6 CHR ''0'' (nat_dec (nat \<bar>y\<bar>))"
      unfolding iso_year_def by (rule if_not_P)
    have "no_separator (if y < 0 then ''-'' else ''+'')"
      by (cases "y < 0") (simp_all only: if_True if_False no_separator_literals)
    then show ?thesis unfolding e by (simp only: no_separator_append p simp_thms)
  qed
qed

lemma no_separator_iso_head: "no_separator (toISOString_head d)"
  unfolding toISOString_head_def
  by (simp only: no_separator_append no_separator_padStart no_separator_nat_dec
      no_separator_literals no_separator_iso_year simp_thms)

lemma no_separator_dateToken: "no_separator (dateToken d)"
proof -
  have "set (dateToken d) \<subseteq> set (toISOString_head d)"
    by (auto simp: dateToken_def dest: in_set_takeD)
  with no_separator_iso_head show ?thesis by (rule no_separator_subset)
qed

lemma toLowerCase_pdf: "toLowerCase ''.pdf'' = ''.pdf''"
  by (simp add: toLowerCase_def lower_char_def)

lemma pdf_suffix: "endsWith (toLowerCase (ensure_pdf s)) ''.pdf''"
proof (cases "endsWith (toLowerCase s) ''.pdf''")
  case True
  then show ?thesis by (simp only: ensure_pdf_def if_True)
next
  case False
  then have e: "ensure_pdf s = s @ ''.pdf''" by (simp only: ensure_pdf_def if_False)
  have "toLowerCase (s @ ''.pdf'') = toLowerCase s @ toLowerCase ''.pdf''"
    by (simp only: toLowerCase_def map_append)
  then have "toLowerCase (ensure_pdf s) = toLowerCase s @ ''.pdf''"
    by (simp only: e toLowerCase_pdf)
  then show ?thesis
    unfolding endsWith_def by (simp only: suffix_appendI suffix_order.refl)
qed

lemma no_separator_ensure_pdf: "no_separator s \<Longrightarrow> no_separator (ensure_pdf s)"
  unfolding ensure_pdf_def
  by (simp only: no_separator_append no_separator_literals simp_thms split: if_split)

lemma buildPdfFileName_name:
  assumes "buildPdfFileName rt now pattern payload = Inr name"
  shows "no_separator name \<and> endsWith (toLowerCase name) ''.pdf''"
proof -
  define q where "q = (if truthy pattern then pattern else JStr ''documento_{YYYYMMDD}'')"
  note a = assms [unfolded buildPdfFileName_def, folded q_def]
  then obtain p where "q = JStr p" by (cases q) simp_all
  with a [unfolded bindE_Inr Let_def] obtain expanded where
    "Inr (ensure_pdf (if trim (sanitize expanded) \<noteq> []
                then trim (sanitize expanded) else ''documento_'' @ dateToken now))
     = (Inr name :: js_error + string)"
    by (simp only: jsval.case bindE_Inr Let_def) blast
  then have name: "name = ensure_pdf (if trim (sanitize expanded) \<noteq> []
                then trim (sanitize expanded) else ''documento_'' @ dateToken now)"
    by (simp only: sum.inject)
  have 1: "no_separator (trim (sanitize expanded))"
    using no_separator_sanitize set_trim by (rule no_separator_subset)
  have 2: "no_separator (''documento_'' @ dateToken now)"
    by (simp only: no_separator_append no_separator_literals no_separator_dateToken simp_thms)
  from 1 2 have "no_separator (if trim (sanitize expanded) \<noteq> []
                then trim (sanitize expanded) else ''documento_'' @ dateToken now)"
    by (simp only: simp_thms split: if_split)
  then show ?thesis
    unfolding name by (simp only: pdf_suffix no_separator_ensure_pdf simp_thms)
qed

lemma buildFilename_name:
  assumes "buildFilename rt now pattern payload = Inr name"
  shows "no_separator name \<and> endsWith (toLowerCase name) ''.pdf''"
proof -
  from assms [unfolded buildFilename_def bindE_Inr Let_def] obtain expanded where
    "Inr (ensure_pdf (sanitize expanded)) = (Inr name :: js_error + string)"
    by blast
  then have name: "name = ensure_pdf (sanitize expanded)"
    by (simp only: sum.inject)
  show ?thesis
    unfolding name by (simp only: pdf_suffix no_separator_ensure_pdf no_separator_sanitize simp_thms)
qed

lemma plain_own_prop: "\<lbrakk>plain v; own_prop v k = Some w\<rbrakk> \<Longrightarrow> plain w"
proof (cases v)
  case (JArr xs)
  assume p: "plain v" and o: "own_prop v k = Some w"
  show ?thesis
  proof (cases "k = ''length''")
    case True
    with o JArr show ?thesis by auto
  next
    case False
    with o JArr have "map_of (zip (index_keys (length xs)) xs) k = Some w" by simp
    then have "w \<in> set xs" by (auto dest!: map_of_SomeD set_zip_rightD)
    with p JArr show ?thesis by (simp add: list_all_iff)
  qed
next
  case (JObj kvs)
  assume p: "plain v" and o: "own_prop v k = Some w"
  with JObj have "(k, w) \<in> set kvs" by (auto dest: map_of_SomeD)
  then have "w \<in> snd ` set kvs" by force
  with p JObj show ?thesis by (auto simp: list_all_iff)
next
  case (JStr str)
  assume o: "own_prop v k = Some w"
  show ?thesis
  proof (cases "k = ''length''")
    case True
    with o JStr show ?thesis by auto
  next
    case False
    with o JStr have "map_of (zip (index_keys (length str)) (map (\<lambda>c. JStr [c]) str)) k = Some w"
      by simp
    then have "w \<in> set (map (\<lambda>c. JStr [c]) str)" by (auto dest!: map_of_SomeD set_zip_rightD)
    then show ?thesis by auto
  qed
qed simp_all


lemma r_plain_given: "r_plain (given_val g)"
  by (cases g) simp_all

lemma r_plain_lookup:
  "\<lbrakk>r_plain v; lookup_prop rt v k = Some (Inr w)\<rbrakk> \<Longrightarrow> r_plain w"
  by (cases v) (auto simp: r_plain_given split: option.splits sum.splits dest: plain_own_prop)

lemma plain_step_in: "\<lbrakk>r_plain v; step_in rt v k = Some w\<rbrakk> \<Longrightarrow> r_plain w"
  by (auto simp: step_in_def split: if_splits option.splits sum.splits dest: r_plain_lookup)

lemma plain_step_get: "\<lbrakk>r_plain v; step_get rt v k = Some w\<rbrakk> \<Longrightarrow> r_plain w"
  by (auto simp: step_get_def split: if_splits option.splits sum.splits dest: r_plain_lookup)

lemma plain_reach:
  assumes "\<And>v k w. r_plain v \<Longrightarrow> step v k = Some w \<Longrightarrow> r_plain w"
  shows "r_plain v \<Longrightarrow> r_plain (or_undefined (reach step v ks))"
proof (induction ks arbitrary: v)
  case Nil
  then show ?case by (simp add: or_undefined_def)
next
  case (Cons k ks)
  show ?case
  proof (cases "step v k")
    case None
    then show ?thesis by (simp add: or_undefined_def)
  next
    case (Some w)
    with assms Cons.prems have "r_plain w" by blast
    from Cons.IH [OF this] Some show ?thesis by simp
  qed
qed

lemma mapE_total:
  "(\<And>x. x \<in> set xs \<Longrightarrow> \<exists>y. f x = Inr y) \<Longrightarrow> \<exists>ys. mapE f xs = Inr ys"
proof (induction xs)
  case Nil
  show ?case by simp
next
  case (Cons x xs)
  then obtain y ys where "f x = Inr y" "mapE f xs = Inr ys" by (meson list.set_intros)
  then show ?case by (simp add: bindE_def)
qed

lemma js_String_plain: "plain v \<Longrightarrow> \<exists>s. js_String v = Inr s"
proof (induction v)
  case (JArr xs)
  have "\<exists>ys. mapE (\<lambda>x. if is_nullish x then Inr [] else js_String x) xs = Inr ys"
  proof (rule mapE_total)
    fix x assume "x \<in> set xs"
    with JArr show "\<exists>y. (if is_nullish x then Inr [] else js_String x) = Inr y"
      by (auto simp: list_all_iff)
  qed
  then show ?case by (auto simp: bindE_def)
qed auto


lemma r_String_plain: "r_plain v \<Longrightarrow> \<exists>s. r_String rt v = Inr s"
  by (cases v) (auto dest: js_String_plain)

lemma replace_tokens_total:
  "(\<And>tok. tok \<in> set (tokens_of s) \<Longrightarrow> \<exists>r. f tok = Inr r) \<Longrightarrow> \<exists>r. replace_tokens f s = Inr r"
proof (induction f s rule: replace_tokens.induct)
  case (1 f)
  show ?case by (simp add: replace_tokens.simps)
next
  case (2 f c cs)
  show ?case
  proof (cases "c = CHR ''{'' \<and> takeWhile (\<lambda>x. x \<noteq> CHR ''}'') cs \<noteq> []
           \<and> dropWhile (\<lambda>x. x \<noteq> CHR ''}'') cs \<noteq> []")
    case True
    then have t: "tokens_of (c # cs) = takeWhile (\<lambda>x. x \<noteq> CHR ''}'') cs
             # tokens_of (tl (dropWhile (\<lambda>x. x \<noteq> CHR ''}'') cs))"
      by (subst tokens_of.simps) simp
    from 2(3) t obtain r where "f (takeWhile (\<lambda>x. x \<noteq> CHR ''}'') cs) = Inr r" by auto
    moreover have "\<exists>r'. replace_tokens f (tl (dropWhile (\<lambda>x. x \<noteq> CHR ''}'') cs)) = Inr r'"
      by (rule 2(1) [OF True]) (use 2(3) t in auto)
    then obtain r' where
      "replace_tokens f (tl (dropWhile (\<lambda>x. x \<noteq> CHR ''}'') cs)) = Inr r'" ..
    moreover have "replace_tokens f (c # cs)
        = bindE (f (takeWhile (\<lambda>x. x \<noteq> CHR ''}'') cs)) (\<lambda>r.
             bindE (replace_tokens f (tl (dropWhile (\<lambda>x. x \<noteq> CHR ''}'') cs))) (\<lambda>s.
               Inr (r @ s)))"
      using True by (subst replace_tokens.simps) simp
    ultimately show ?thesis by (simp add: bindE_def)
  next
    case False
    then have t: "tokens_of (c # cs) = tokens_of cs"
      by (subst tokens_of.simps) (simp only: if_False)
    have "\<exists>r'. replace_tokens f cs = Inr r'"
      by (rule 2(2) [OF False]) (use 2(3) t in auto)
    then obtain r' where r': "replace_tokens f cs = Inr r'" ..
    have "replace_tokens f (c # cs) = bindE (replace_tokens f cs) (\<lambda>s. Inr (c # s))"
      by (subst replace_tokens.simps) (simp only: False if_False)
    with r' show ?thesis by (simp add: bindE_def)
  qed
qed

lemma token_value_total:
  assumes "plain payload"
  shows "\<exists>r. token_value rt payload tok = Inr r"
proof -
  have "r_plain (or_undefined (reach (step_in rt) (Data payload) (split_on CHR ''.'' tok)))"
    by (rule plain_reach [where step = "step_in rt"]) (use assms plain_step_in in auto)
  from r_String_plain [OF this] show ?thesis
    by (auto simp: token_value_def getValueByPath_reach bindE_def)
qed

lemma token_value2_total:
  assumes "plain payload"
    and "\<not> reads_function rt (Data payload) (split_on CHR ''.'' (trim tok))"
  shows "\<exists>r. token_value2 rt ymd payload tok = Inr r"
proof (cases "trim tok = []")
  case True
  then show ?thesis by (simp add: token_value2_def getByPath_empty bindE_def Let_def)
next
  case False
  have "r_plain (or_undefined (reach (step_get rt) (Data payload) (split_on CHR ''.'' (trim tok))))"
    by (rule plain_reach [where step = "step_get rt"]) (use assms(1) plain_step_get in auto)
  from r_String_plain [OF this] getByPath_reach [OF False assms(2)] show ?thesis
    by (auto simp: token_value2_def bindE_def Let_def)
qed

lemma pattern_text_cases:
  "is_str pattern \<or> \<not> truthy pattern
   \<Longrightarrow> (if truthy pattern then pattern else JStr d) = JStr (pattern_text d pattern)"
  by (cases pattern) (auto simp: pattern_text_def)

lemma buildPdfFileName_total:
  assumes "plain payload" and "is_str pattern \<or> \<not> truthy pattern"
  shows "\<exists>name. buildPdfFileName rt now pattern payload = Inr name"
proof -
  note q = pattern_text_cases [OF assms(2), of "''documento_{YYYYMMDD}''"]
  obtain expanded where
    "replace_tokens (token_value rt payload)
       (replace_date_token (dateToken now) (pattern_text ''documento_{YYYYMMDD}'' pattern))
     = Inr expanded"
    using replace_tokens_total [of _ "token_value rt payload"] token_value_total [OF assms(1)]
    by blast
  then show ?thesis
    unfolding buildPdfFileName_def q by (simp add: bindE_def Let_def)
qed

lemma buildFilename_total:
  assumes "plain payload" and "is_str pattern \<or> \<not> truthy pattern"
    and "tokens_stay rt payload (pattern_text ''output_{YYYYMMDD}_{object.run}'' pattern)"
  shows "\<exists>name. buildFilename rt now pattern payload = Inr name"
proof -
  note q = pattern_text_cases [OF assms(2), of "''output_{YYYYMMDD}_{object.run}''"]
  have "\<exists>r. token_value2 rt (fmtYYYYMMDD now) payload tok = Inr r"
    if "tok \<in> set (tokens_of (pattern_text ''output_{YYYYMMDD}_{object.run}'' pattern))" for tok
    using that assms(3) token_value2_total [OF assms(1)]
    by (auto simp: tokens_stay_def list_all_iff)
  then obtain expanded where
    "replace_tokens (token_value2 rt (fmtYYYYMMDD now) payload)
       (pattern_text ''output_{YYYYMMDD}_{object.run}'' pattern) = Inr expanded"
    using replace_tokens_total
      [of "pattern_text ''output_{YYYYMMDD}_{object.run}'' pattern"
          "token_value2 rt (fmtYYYYMMDD now) payload"]
    by blast
  then show ?thesis
    unfolding buildFilename_def q by (simp add: bindE_def Let_def)
qed

text \<open>
  Claim C6 (amended). Whenever a builder returns, the name has no \<open>/\<close> and no
  backslash and ends with \<open>.pdf\<close>, compared in lower case. For every pattern that is a
  string or missing and every payload in which no object has an own \<open>toString\<close>
  property, \<^verbatim>\<open>buildPdfFileName\<close> returns, and \<^verbatim>\<open>buildFilename\<close> returns when no token
  of the pattern is a path whose walk reads a property of a built-in function.
\<close>

theorem filename_safe:
  "(buildPdfFileName rt now pattern payload = Inr name
      \<longrightarrow> no_separator name \<and> endsWith (toLowerCase name) ''.pdf'')
   \<and> (buildFilename rt now pattern payload = Inr name'
      \<longrightarrow> no_separator name' \<and> endsWith (toLowerCase name') ''.pdf'')
   \<and> (plain payload \<and> (is_str pattern \<or> \<not> truthy pattern)
      \<longrightarrow> (\<exists>n. buildPdfFileName rt now pattern payload = Inr n))
   \<and> (plain payload \<and> (is_str pattern \<or> \<not> truthy pattern)
        \<and> tokens_stay rt payload (pattern_text ''output_{YYYYMMDD}_{object.run}'' pattern)
      \<longrightarrow> (\<exists>n. buildFilename rt now pattern payload = Inr n))"
  using buildPdfFileName_name [of rt now pattern payload name]
    buildFilename_name [of rt now pattern payload name']
    buildPdfFileName_total [of payload pattern rt now]
    buildFilename_total [of payload pattern rt now]
  by blast

theorem filename_safe_witness:
  "buildPdfFileName node_realm (today example_world)
       (JStr ''orden_{object.run}_{YYYYMMDD}/{deal.id}'') example_payload
     = Inr ''orden_12.345.678-9_20250520_123.pdf''
   \<and> no_separator ''orden_12.345.678-9_20250520_123.pdf''
   \<and> endsWith (toLowerCase ''orden_12.345.678-9_20250520_123.pdf'') ''.pdf''
   \<and> buildFilename node_realm (today example_world) JUndefined example_payload
     = Inr ''output_20250520_12.345.678-9.pdf''
   \<and> no_separator ''output_20250520_12.345.678-9.pdf''
   \<and> plain example_payload
   \<and> tokens_stay node_realm example_payload ''{constructor}_{fecha.length}''
   \<and> (\<exists>n. buildPdfFileName node_realm (today example_world) JUndefined example_payload
          = Inr n)
   \<and> (\<exists>n. buildFilename node_realm (today example_world)
            (JStr ''{constructor}_{fecha.length}'') example_payload = Inr n)"
proof -
  have a: "buildPdfFileName node_realm (today example_world)
       (JStr ''orden_{object.run}_{YYYYMMDD}/{deal.id}'') example_payload
     = Inr ''orden_12.345.678-9_20250520_123.pdf''"
    by code_simp
  have b: "buildFilename node_realm (today example_world) JUndefined example_payload
     = Inr ''output_20250520_12.345.678-9.pdf''"
    by code_simp
  have p: "plain example_payload" by code_simp
  have u: "is_str JUndefined \<or> \<not> truthy JUndefined" by simp
  have s: "is_str (JStr ''{constructor}_{fecha.length}'')
      \<or> \<not> truthy (JStr ''{constructor}_{fecha.length}'')" by simp
  have k: "tokens_stay node_realm example_payload ''{constructor}_{fecha.length}''"
    by code_simp
  have pt: "pattern_text ''output_{YYYYMMDD}_{object.run}'' (JStr ''{constructor}_{fecha.length}'')
      = ''{constructor}_{fecha.length}''"
    by (simp add: pattern_text_def)
  from filename_safe [where rt = node_realm and now = "today example_world"
      and pattern = "JStr ''orden_{object.run}_{YYYYMMDD}/{deal.id}''"
      and payload = example_payload and name = "''orden_12.345.678-9_20250520_123.pdf''"] a
  have 1: "no_separator ''orden_12.345.678-9_20250520_123.pdf''
      \<and> endsWith (toLowerCase ''orden_12.345.678-9_20250520_123.pdf'') ''.pdf''"
    by blast
  from filename_safe [where rt = node_realm and now = "today example_world"
      and pattern = JUndefined and payload = example_payload
      and name' = "''output_20250520_12.345.678-9.pdf''"] b p u
  have 2: "no_separator ''output_20250520_12.345.678-9.pdf''
      \<and> (\<exists>n. buildPdfFileName node_realm (today example_world) JUndefined example_payload
          = Inr n)"
    by blast
  from filename_safe [where rt = node_realm and now = "today example_world"
      and pattern = "JStr ''{constructor}_{fecha.length}''" and payload = example_payload] p s k
  have 3: "\<exists>n. buildFilename node_realm (today example_world)
            (JStr ''{constructor}_{fecha.length}'') example_payload = Inr n"
    unfolding pt by blast
  from a b p k 1 2 3 show ?thesis by blast
qed

text \<open>
  The claim as stated fails. For the pattern \<open>{a}\<close> and a payload whose \<open>a\<close> is an
  object with an own \<open>toString\<close> property, \<open>String(value)\<close> throws and neither builder
  returns a name. For the pattern \<open>{constructor.caller}\<close> and the empty payload, the
  lookup of \<^verbatim>\<open>buildFilename\<close> throws, while \<^verbatim>\<open>buildPdfFileName\<close> returns a name.
\<close>

theorem filename_safe_counterexample:
  "isl (buildPdfFileName node_realm (today example_world) (JStr ''{a}'')
          (JObj [(''a'', JObj [(''toString'', JNum 1)])]))
   \<and> isl (buildFilename node_realm (today example_world) (JStr ''{a}'')
          (JObj [(''a'', JObj [(''toString'', JNum 1)])]))
   \<and> buildFilename node_realm (today example_world) (JStr ''{constructor.caller}'') (JObj [])
     = Inl (TypeError restricted_message)
   \<and> buildPdfFileName node_realm (today example_world) (JStr ''{constructor.caller}'') (JObj [])
     = Inr ''documento_20250520.pdf''"
  by code_simp

section \<open>Template resolution: proofs\<close>



lemma is_str_cases: "is_str v \<Longrightarrow> \<exists>s. v = JStr s"
  by (cases v) auto


lemma js_find_Some: "List.find p xs = Some x \<Longrightarrow> js_find p xs = x"
  by (simp add: js_find_def)

lemma js_find_None: "List.find p xs = None \<Longrightarrow> js_find p xs = JUndefined"
  by (simp add: js_find_def)















section \<open>Required placeholders: proofs\<close>

lemma getValueByPath_non_string:
  "\<not> is_str p \<Longrightarrow> getValueByPath rt payload p = Inl (TypeError ''path.split is not a function'')"
  by (cases p) (simp_all add: getValueByPath_def)

lemma missing_placeholders_strings:
  "list_all is_str ps
   \<Longrightarrow> missing_placeholders rt payload ps = Inr (filter (resolves_missing rt payload) ps)"
proof (induction ps)
  case Nil
  show ?case by (simp add: missing_placeholders_def)
next
  case (Cons p ps)
  then obtain s where "p = JStr s" using is_str_cases by auto
  with Cons show ?case
    by (simp add: missing_placeholders_def resolves_missing_def getValueByPath_reach bindE_def)
qed

lemma missing_placeholders_non_string:
  "\<not> list_all is_str ps \<Longrightarrow> isl (missing_placeholders rt payload ps)"
proof (induction ps)
  case Nil
  then show ?case by simp
next
  case (Cons p ps)
  show ?case
  proof (cases "is_str p")
    case True
    then obtain s where s: "p = JStr s" using is_str_cases by auto
    from True Cons have "isl (missing_placeholders rt payload ps)" by simp
    then obtain e where "missing_placeholders rt payload ps = Inl e"
      by (cases "missing_placeholders rt payload ps") auto
    with s show ?thesis
      by (simp add: missing_placeholders_def getValueByPath_reach bindE_def)
  next
    case False
    then show ?thesis
      by (simp add: missing_placeholders_def getValueByPath_non_string bindE_def)
  qed
qed

lemma render_try_missing:
  assumes "truthy (resolveTemplate config payload)"
    and "js_prop (resolveTemplate config payload) ''required_placeholders'' = JArr ps"
    and "list_all is_str ps"
    and "list_ex (resolves_missing rt payload) ps"
  shows "render_try parse rt ev w config payload
           = leave (Inr (missing_response (filter (resolves_missing rt payload) ps))) [] [] 0"
proof -
  from assms(4) have "filter (resolves_missing rt payload) ps \<noteq> []"
    by (auto simp: list_ex_iff filter_empty_conv)
  with assms(1,2) missing_placeholders_strings [OF assms(3), of rt payload] show ?thesis
    by (simp add: render_try_def missing_response_def Let_def)
qed

lemma render_handler_missing:
  assumes "loadConfig parse w st = (Inr config, st1)"
    and "truthy (resolveTemplate config (or_empty_object reqBody))"
    and "js_prop (resolveTemplate config (or_empty_object reqBody)) ''required_placeholders''
           = JArr ps"
    and "list_all is_str ps"
    and "list_ex (resolves_missing rt (or_empty_object reqBody)) ps"
  shows "render_handler parse rt ev w st reqBody
           = (missing_response (filter (resolves_missing rt (or_empty_object reqBody)) ps), st1)"
  using assms(1) render_try_missing [OF assms(2,3,4,5), of parse ev w]
  by (simp add: render_handler_def render_catch_def leave_def)

lemma render_try_proceeds:
  assumes "truthy (resolveTemplate config payload)"
    and "js_prop (resolveTemplate config payload) ''required_placeholders'' = JArr ps"
    and "events (render_try parse rt ev w config payload) \<noteq> []"
  shows "list_all is_str ps \<and> \<not> list_ex (resolves_missing rt payload) ps"
proof (cases "list_all is_str ps")
  case True
  with render_try_missing [OF assms(1,2), of rt parse ev w] assms(3) show ?thesis
    by (auto simp: leave_def)
next
  case False
  from missing_placeholders_non_string [OF this, of rt payload] obtain e where
    "missing_placeholders rt payload ps = Inl e"
    by (cases "missing_placeholders rt payload ps") auto
  with assms(1,2) have "events (render_try parse rt ev w config payload) = []"
    by (simp add: render_try_def leave_def)
  with assms(3) show ?thesis by simp
qed

lemma waitForFile_loop_events:
  "waitForFile_loop w f ds n = (r, evs, n') \<Longrightarrow> x \<in> set evs
   \<Longrightarrow> x = DriveGet f \<or> (\<exists>d. x = Sleep d)"
proof (induction ds arbitrary: n r evs n')
  case Nil
  then show ?case by simp
next
  case (Cons d ds)
  show ?case
  proof (cases "get_result w n")
    case None
    with Cons.prems show ?thesis by auto
  next
    case (Some e)
    show ?thesis
    proof (cases "notFound e")
      case False
      with Some Cons.prems show ?thesis by auto
    next
      case True
      obtain r1 evs1 n1 where l: "waitForFile_loop w f ds (Suc n) = (r1, evs1, n1)"
        by (cases "waitForFile_loop w f ds (Suc n)") auto
      with Some True Cons.prems have "x = DriveGet f \<or> x = Sleep d \<or> x \<in> set evs1"
        by auto
      with Cons.IH [OF l] show ?thesis by blast
    qed
  qed
qed

lemma waitForFile_events:
  "waitForFile w f n = (r, evs, n') \<Longrightarrow> x \<in> set evs
   \<Longrightarrow> x = DriveGet f \<or> (\<exists>d. x = Sleep d)"
  unfolding waitForFile_def by (rule waitForFile_loop_events)

lemma placeholder_request_flag:
  "placeholder_request rt payload p = Inr (m, t, r) \<Longrightarrow> m = resolves_missing2 rt payload p"
  by (auto simp: placeholder_request_def resolves_missing2_def bindE_Inr)

lemma mapE_placeholder_missing:
  "mapE (placeholder_request rt payload) ps = Inr built
   \<Longrightarrow> map fst (filter (\<lambda>(p, m, r). m) (zip ps built))
       = filter (resolves_missing2 rt payload) ps"
proof (induction ps arbitrary: built)
  case Nil
  then show ?case by simp
next
  case (Cons p ps)
  from Cons.prems obtain b bs where b: "placeholder_request rt payload p = Inr b"
    and bs: "mapE (placeholder_request rt payload) ps = Inr bs"
    and built: "built = b # bs"
    by (auto simp: bindE_Inr)
  obtain m t r where "b = (m, t, r)" by (cases b) auto
  with placeholder_request_flag [of rt payload p m t r] b
  have "fst b = resolves_missing2 rt payload p" by simp
  with Cons.IH [OF bs] built show ?case by (auto simp: case_prod_beta)
qed

lemma render_missing_branch:
  assumes R: "js_prop t ''required_placeholders'' = JArr ps"
    and M: "list_ex (resolves_missing2 rt payload) ps"
    and K: "js_String (js_prop t ''template_key'') = Inr nm"
    and C: "copy_result w = Inr docId"
    and W: "waitForFile w docId 0 = (Inr ok, g, n)"
    and B: "mapE (placeholder_request rt payload) ps = Inr built"
  shows "renderGoogleDocToPdf rt w t payload folderId
     = (case missing_error (filter (resolves_missing2 rt payload) ps) of
          Inl e \<Rightarrow> Inl e | Inr err \<Rightarrow> Inl err,
        [DriveCopy (js_prop t ''doc_template_id'') JUndefined] @ g
          @ (if \<not> truthy (js_prop t ''keep_intermediate_doc'') then [DriveDelete docId] else []))"
proof -
  from M have ne: "filter (resolves_missing2 rt payload) ps \<noteq> []"
    by (auto simp: list_ex_iff filter_empty_conv)
  from mapE_placeholder_missing [OF B]
  have m: "map fst (filter (\<lambda>(p, m, r). m) (zip ps built))
       = filter (resolves_missing2 rt payload) ps" .
  show ?thesis
    unfolding renderGoogleDocToPdf_def
    by (simp add: K C W R B elems_def Let_def m ne)
qed

lemma renderGoogleDocToPdf_missing:
  assumes R: "js_prop t ''required_placeholders'' = JArr ps"
    and M: "list_ex (resolves_missing2 rt payload) ps"
    and X: "renderGoogleDocToPdf rt w t payload folderId = (r, evs)"
  shows "isl r \<and> (\<forall>x \<in> set evs. \<exists>a b f d. x = DriveCopy a b \<or> x = DriveGet f
            \<or> x = Sleep d \<or> x = DriveDelete f)"
proof (cases "js_String (js_prop t ''template_key'')")
  case (Inl e)
  with X show ?thesis by (auto simp: renderGoogleDocToPdf_def)
next
  case K: (Inr nm)
  show ?thesis
  proof (cases "copy_result w")
    case (Inl e)
    with K X show ?thesis by (auto simp: renderGoogleDocToPdf_def Let_def)
  next
    case C: (Inr docId)
    obtain wr g n where W: "waitForFile w docId 0 = (wr, g, n)"
      by (cases "waitForFile w docId 0") auto
    have G: "\<forall>x \<in> set g. \<exists>f d. x = DriveGet f \<or> x = Sleep d"
      using waitForFile_events [OF W] by blast
    show ?thesis
    proof (cases wr)
      case (Inl e)
      with K C W X G show ?thesis
        by (auto simp: renderGoogleDocToPdf_def Let_def; metis?)
    next
      case ok: (Inr okv)
      show ?thesis
      proof (cases "mapE (placeholder_request rt payload) ps")
        case (Inl e)
        with K C W ok X G R show ?thesis
          by (auto simp: renderGoogleDocToPdf_def Let_def elems_def; metis?)
      next
        case B: (Inr built)
        from render_missing_branch [OF R M K C W [unfolded ok] B, of folderId] X
        have r: "r = (case missing_error (filter (resolves_missing2 rt payload) ps) of
                        Inl e \<Rightarrow> Inl e | Inr err \<Rightarrow> Inl err)"
          and e: "evs = [DriveCopy (js_prop t ''doc_template_id'') JUndefined] @ g
            @ (if \<not> truthy (js_prop t ''keep_intermediate_doc'') then [DriveDelete docId] else [])"
          by simp_all
        from r have "isl r" by (simp split: sum.splits)
        moreover from e G have "\<forall>x \<in> set evs. \<exists>a b f d. x = DriveCopy a b \<or> x = DriveGet f
            \<or> x = Sleep d \<or> x = DriveDelete f"
          by (auto split: if_splits; metis?)
        ultimately show ?thesis ..
      qed
    qed
  qed
qed

lemma mapE_strings:
  "mapE (\<lambda>p. if is_nullish p then Inr [] else js_String p) (map JStr ms) = Inr ms"
  by (induction ms) (simp_all add: bindE_def is_nullish_def)

lemma missing_error_strings: "missing_error (map JStr ms) = Inr (missing_error_of ms)"
  by (simp add: missing_error_def mapE_strings bindE_def missing_error_of_def)

lemma strings_str_of: "list_all is_str xs \<Longrightarrow> map JStr (map str_of xs) = xs"
  by (induction xs) (auto dest: is_str_cases)

lemma missing_error_filter:
  assumes "list_all is_str ps"
  shows "missing_error (filter P ps) = Inr (missing_error_of (map str_of (filter P ps)))"
proof -
  from assms have "list_all is_str (filter P ps)" by (simp add: list_all_iff)
  from strings_str_of [OF this] missing_error_strings [of "map str_of (filter P ps)"]
  show ?thesis by simp
qed

lemma catch_status_missing:
  "catch_status (Inl (missing_error_of ms))
     = \<lparr>status = JNum 400,
        body = error_body (''Missing required placeholders: '' @ join_with '', '' ms)\<rparr>"
  by (simp add: catch_status_def missing_error_of_def)

lemma plain_js_prop: "plain v \<Longrightarrow> plain (js_prop v k)"
  by (auto simp: js_prop_def split: option.splits dest: plain_own_prop)

lemma placeholder_request_total:
  assumes "plain payload"
    and "\<not> reads_function rt (Data payload) (split_on CHR ''.'' s)"
  shows "\<exists>b. placeholder_request rt payload (JStr s) = Inr b"
proof (cases "s = []")
  case True
  then show ?thesis by (simp add: placeholder_request_def getByPath_empty bindE_def)
next
  case False
  have "r_plain (or_undefined (reach (step_get rt) (Data payload) (split_on CHR ''.'' s)))"
    by (rule plain_reach [where step = "step_get rt"]) (use assms(1) plain_step_get in auto)
  from r_String_plain [OF this, of rt] obtain x where
    "r_String rt (or_undefined (reach (step_get rt) (Data payload) (split_on CHR ''.'' s)))
       = Inr x" ..
  with getByPath_reach [OF False assms(2)] show ?thesis
    by (simp add: placeholder_request_def bindE_def)
qed

lemma paths_stay_strings: "paths_stay rt payload ps \<Longrightarrow> list_all is_str ps"
  by (induction ps) (auto simp: paths_stay_def split: jsval.splits)

lemma paths_stay_member:
  "\<lbrakk>paths_stay rt payload ps; p \<in> set ps\<rbrakk>
   \<Longrightarrow> \<exists>s. p = JStr s \<and> \<not> reads_function rt (Data payload) (split_on CHR ''.'' s)"
  by (cases p) (auto simp: paths_stay_def list_all_iff)

lemma mapE_placeholder_total:
  assumes "plain payload" and "paths_stay rt payload ps"
  shows "\<exists>built. mapE (placeholder_request rt payload) ps = Inr built"
proof (rule mapE_total)
  fix p assume "p \<in> set ps"
  with assms(2) obtain s where "p = JStr s"
    and "\<not> reads_function rt (Data payload) (split_on CHR ''.'' s)"
    using paths_stay_member by blast
  with placeholder_request_total [OF assms(1)]
  show "\<exists>y. placeholder_request rt payload p = Inr y" by blast
qed

lemma str_or_absent_String: "str_or_absent v \<Longrightarrow> \<exists>s. js_String v = Inr s"
  by (cases v) (auto simp: str_or_absent_def)

lemma renderGoogleDocToPdf_missing_400:
  assumes R: "js_prop t ''required_placeholders'' = JArr ps"
    and M: "list_ex (resolves_missing2 rt payload) ps"
    and K: "str_or_absent (js_prop t ''template_key'')"
    and C: "copy_result w = Inr docId"
    and W: "fst (waitForFile w docId 0) = Inr True"
    and P: "plain payload" and S: "paths_stay rt payload ps"
  shows "fst (renderGoogleDocToPdf rt w t payload folderId)
           = Inl (missing_error_of (map str_of (filter (resolves_missing2 rt payload) ps)))"
proof -
  from str_or_absent_String [OF K] obtain nm where K': "js_String (js_prop t ''template_key'') = Inr nm" ..
  from W obtain g n where W': "waitForFile w docId 0 = (Inr True, g, n)"
    by (cases "waitForFile w docId 0") auto
  from mapE_placeholder_total [OF P S] obtain built where
    B: "mapE (placeholder_request rt payload) ps = Inr built" ..
  from render_missing_branch [OF R M K' C W' B, of folderId] show ?thesis
    by (simp add: missing_error_filter [OF paths_stay_strings [OF S]])
qed

lemma normalizeDriveId_total: "plain v \<Longrightarrow> \<exists>s. normalizeDriveId v = Inr s"
  using js_String_plain [of v] by (auto simp: normalizeDriveId_def bindE_def Let_def)

lemma plain_payload_folder2: "plain payload \<Longrightarrow> plain (payload_folder2 payload)"
  by (simp add: payload_folder2_def plain_js_prop)

lemma render_after_config_missing_400:
  assumes T: "resolveTemplate2 rt config payload = Inr t" and TT: "r_truthy t"
    and R: "js_prop (fields_of t) ''required_placeholders'' = JArr ps"
    and M: "list_ex (resolves_missing2 rt payload) ps"
    and K: "str_or_absent (js_prop (fields_of t) ''template_key'')"
    and C: "copy_result w = Inr docId"
    and W: "fst (waitForFile w docId 0) = Inr True"
    and P: "plain payload" and S: "paths_stay rt payload ps"
  shows "catch_status (fst (render_after_config parse rt ev w config payload))
     = \<lparr>status = JNum 400,
        body = error_body (''Missing required placeholders: ''
                 @ join_with '', '' (map str_of (filter (resolves_missing2 rt payload) ps)))\<rparr>"
proof -
  from normalizeDriveId_total [OF plain_payload_folder2 [OF P]] obtain folderId where
    F: "normalizeDriveId (payload_folder2 payload) = Inr folderId" ..
  obtain r evs where X: "renderGoogleDocToPdf rt w (fields_of t) payload folderId = (r, evs)"
    by (cases "renderGoogleDocToPdf rt w (fields_of t) payload folderId") auto
  with renderGoogleDocToPdf_missing_400 [OF R M K C W P S, of folderId]
  have "r = Inl (missing_error_of (map str_of (filter (resolves_missing2 rt payload) ps)))"
    by simp
  with T TT F X show ?thesis
    by (simp add: render_after_config_def catch_status_missing)
qed

lemma render_after_config_missing_events:
  assumes T: "resolveTemplate2 rt config payload = Inr t"
    and R: "js_prop (fields_of t) ''required_placeholders'' = JArr ps"
    and M: "list_ex (resolves_missing2 rt payload) ps"
  shows "(isl (fst (render_after_config parse rt ev w config payload))
       \<or> status (catch_status (fst (render_after_config parse rt ev w config payload))) = JNum 400)
     \<and> (\<forall>x \<in> set (snd (render_after_config parse rt ev w config payload)).
           \<exists>a b f d. x = DriveCopy a b \<or> x = DriveGet f \<or> x = Sleep d \<or> x = DriveDelete f)"
proof (cases "r_truthy t")
  case False
  with T show ?thesis by (simp add: render_after_config_def catch_status_def respond_def)
next
  case True
  show ?thesis
  proof (cases "normalizeDriveId (payload_folder2 payload)")
    case (Inl e)
    with T True show ?thesis by (simp add: render_after_config_def)
  next
    case (Inr folderId)
    obtain r evs where X: "renderGoogleDocToPdf rt w (fields_of t) payload folderId = (r, evs)"
      by (cases "renderGoogleDocToPdf rt w (fields_of t) payload folderId") auto
    from renderGoogleDocToPdf_missing [OF R M X] obtain e where "r = Inl e"
      and "\<forall>x \<in> set evs. \<exists>a b f d. x = DriveCopy a b \<or> x = DriveGet f
          \<or> x = Sleep d \<or> x = DriveDelete f"
      by (cases r) auto
    with T True Inr X show ?thesis by (simp add: render_after_config_def)
  qed
qed

lemma no_pipeline_events:
  "\<forall>x \<in> set evs. \<exists>a b f d. x = DriveCopy a b \<or> x = DriveGet f
            \<or> x = Sleep d \<or> x = DriveDelete f
   \<Longrightarrow> \<not> list_ex pipeline_event evs"
  by (fastforce simp: list_ex_iff pipeline_event_def)

text \<open>
  Claim C1 (amended). \<^verbatim>\<open>server.js\<close>: with a resolved template whose required paths are
  strings, if some path resolves to \<open>undefined\<close>, \<open>null\<close> or the empty string, the
  handler answers 400 with the list of those paths and issues no call at all after the
  configuration is loaded; any call is issued only when every required path is a string
  and none is missing. Second variant: the check runs after the copy and the existence
  poll; with a missing path nothing is replaced, exported or uploaded and the request
  ends in an error or a 400 response; the response is 400 with the missing paths in its
  message when the copy and the poll succeeded, no object of the payload has an own
  \<open>toString\<close> property, and every required path is a string whose walk reads no
  property of a built-in function.
\<close>

theorem missing_placeholders_rejected:
  "(truthy (resolveTemplate config payload)
      \<and> js_prop (resolveTemplate config payload) ''required_placeholders'' = JArr ps
      \<and> list_all is_str ps
      \<and> list_ex (resolves_missing rt payload) ps
    \<longrightarrow> render_try parse rt ev w config payload
          = leave (Inr (missing_response (filter (resolves_missing rt payload) ps))) [] [] 0)
   \<and> (loadConfig parse w st = (Inr config, st1)
      \<and> truthy (resolveTemplate config (or_empty_object reqBody))
      \<and> js_prop (resolveTemplate config (or_empty_object reqBody)) ''required_placeholders''
           = JArr ps
      \<and> list_all is_str ps
      \<and> list_ex (resolves_missing rt (or_empty_object reqBody)) ps
    \<longrightarrow> render_handler parse rt ev w st reqBody
          = (missing_response (filter (resolves_missing rt (or_empty_object reqBody)) ps), st1))
   \<and> (truthy (resolveTemplate config payload)
      \<and> js_prop (resolveTemplate config payload) ''required_placeholders'' = JArr ps
      \<and> events (render_try parse rt ev w config payload) \<noteq> []
    \<longrightarrow> list_all is_str ps \<and> \<not> list_ex (resolves_missing rt payload) ps)
   \<and> (resolveTemplate2 rt configb payload = Inr t
      \<and> js_prop (fields_of t) ''required_placeholders'' = JArr ps
      \<and> list_ex (resolves_missing2 rt payload) ps
    \<longrightarrow> \<not> list_ex pipeline_event (snd (render_after_config parse rt ev w configb payload))
      \<and> (isl (fst (render_after_config parse rt ev w configb payload))
         \<or> status (catch_status (fst (render_after_config parse rt ev w configb payload)))
             = JNum 400))
   \<and> (resolveTemplate2 rt configb payload = Inr t \<and> r_truthy t
      \<and> js_prop (fields_of t) ''required_placeholders'' = JArr ps
      \<and> list_ex (resolves_missing2 rt payload) ps
      \<and> str_or_absent (js_prop (fields_of t) ''template_key'')
      \<and> copy_result w = Inr docId \<and> fst (waitForFile w docId 0) = Inr True
      \<and> plain payload \<and> paths_stay rt payload ps
    \<longrightarrow> catch_status (fst (render_after_config parse rt ev w configb payload))
        = \<lparr>status = JNum 400,
           body = error_body (''Missing required placeholders: ''
                    @ join_with '', ''
                        (map str_of (filter (resolves_missing2 rt payload) ps)))\<rparr>)
   \<and> (resolveTemplate2 rt configb payload = Inr t
      \<and> js_prop (fields_of t) ''required_placeholders'' = JArr ps
      \<and> list_ex pipeline_event (snd (render_after_config parse rt ev w configb payload))
    \<longrightarrow> \<not> list_ex (resolves_missing2 rt payload) ps)"
  using render_try_missing [of config payload ps rt parse ev w]
    render_handler_missing [of parse w st config st1 reqBody ps rt ev]
    render_try_proceeds [of config payload ps parse rt ev w]
    render_after_config_missing_events [of rt configb payload t ps parse ev w]
    render_after_config_missing_400 [of rt configb payload t ps w docId parse ev]
    no_pipeline_events [of "snd (render_after_config parse rt ev w configb payload)"]
  by blast

theorem missing_placeholders_rejected_witness:
  "render_handler toy_parse node_realm example_env render_world initial_state
       incomplete_payload
     = (missing_response [JStr ''fecha'', JStr ''object.run''],
        snd (loadConfig toy_parse render_world initial_state))
   \<and> plain incomplete_payload
   \<and> paths_stay node_realm incomplete_payload [JStr ''fecha'', JStr ''object.run'']
   \<and> catch_status (fst (render_after_config toy_parse node_realm example_env render_world
          render_config2 incomplete_payload))
     = \<lparr>status = JNum 400,
        body = error_body (''Missing required placeholders: ''
                 @ join_with '', '' [''fecha'', ''object.run''])\<rparr>
   \<and> \<not> list_ex pipeline_event (snd (render_after_config toy_parse node_realm example_env
          render_world render_config2 incomplete_payload))"
proof -
  let ?ps = "[JStr ''fecha'', JStr ''object.run'']"
  have p: "or_empty_object incomplete_payload = incomplete_payload" by code_simp
  have l: "loadConfig toy_parse render_world initial_state
      = (Inr render_config, snd (loadConfig toy_parse render_world initial_state))"
    by code_simp
  have t: "truthy (resolveTemplate render_config incomplete_payload)" by code_simp
  have r: "js_prop (resolveTemplate render_config incomplete_payload) ''required_placeholders''
      = JArr ?ps" by code_simp
  have s: "list_all is_str ?ps" by simp
  have m: "list_ex (resolves_missing node_realm incomplete_payload) ?ps" by code_simp
  have f: "filter (resolves_missing node_realm incomplete_payload) ?ps = ?ps"
    by code_simp
  have t2: "resolveTemplate2 node_realm render_config2 incomplete_payload
      = Inr render_template2" by code_simp
  have tt2: "r_truthy render_template2" by code_simp
  have r2: "js_prop (fields_of render_template2) ''required_placeholders'' = JArr ?ps"
    by code_simp
  have m2: "list_ex (resolves_missing2 node_realm incomplete_payload) ?ps" by code_simp
  have f2: "map str_of (filter (resolves_missing2 node_realm incomplete_payload) ?ps)
      = [''fecha'', ''object.run'']"
    by code_simp
  have k2: "str_or_absent (js_prop (fields_of render_template2) ''template_key'')" by code_simp
  have c2: "copy_result render_world = Inr ''tmp1''" by code_simp
  have w2: "fst (waitForFile render_world ''tmp1'' 0) = Inr True" by code_simp
  have pl: "plain incomplete_payload" by code_simp
  have st: "paths_stay node_realm incomplete_payload ?ps" by code_simp
  note inst = missing_placeholders_rejected [where parse = toy_parse and rt = node_realm
      and ev = example_env and w = render_world and ps = ?ps
      and reqBody = incomplete_payload and payload = incomplete_payload
      and t = render_template2 and docId = "''tmp1''"]
  have 1: "render_handler toy_parse node_realm example_env render_world initial_state
       incomplete_payload
     = (missing_response (filter (resolves_missing node_realm
            (or_empty_object incomplete_payload)) ?ps),
        snd (loadConfig toy_parse render_world initial_state))"
    using inst [where config = render_config and st = initial_state
        and ?st1.0 = "snd (loadConfig toy_parse render_world initial_state)"]
      l t r s m unfolding p by blast
  have 2: "catch_status (fst (render_after_config toy_parse node_realm example_env
          render_world render_config2 incomplete_payload))
     = \<lparr>status = JNum 400,
        body = error_body (''Missing required placeholders: ''
                 @ join_with '', '' (map str_of (filter (resolves_missing2 node_realm
                     incomplete_payload) ?ps)))\<rparr>"
    using inst [where configb = render_config2] t2 tt2 r2 m2 k2 c2 w2 pl st by blast
  have 3: "\<not> list_ex pipeline_event (snd (render_after_config toy_parse node_realm
          example_env render_world render_config2 incomplete_payload))"
    using inst [where configb = render_config2] t2 r2 m2 by blast
  from 1 2 3 pl st show ?thesis unfolding p f f2 by blast
qed

text \<open>
  The claim as stated fails. In the second variant, with a resolved template and both
  required placeholders missing, a failing copy call makes the endpoint answer 500. In
  \<^verbatim>\<open>server.js\<close>, with \<open>fecha\<close> missing and a second entry of the list that is the
  number 5, the endpoint answers 500. In the second variant, with \<open>fecha\<close> missing and
  the second path \<open>constructor.caller\<close>, the lookup throws after the copy: the endpoint
  answers 500 and the copy is left behind.
\<close>

theorem missing_placeholders_rejected_counterexample:
  "resolveTemplate2 node_realm render_config2 incomplete_payload = Inr render_template2
   \<and> r_truthy render_template2
   \<and> list_ex (resolves_missing2 node_realm incomplete_payload)
        [JStr ''fecha'', JStr ''object.run'']
   \<and> fst (post_render2 toy_parse node_realm example_env copy_fails_world (Some ''secret'')
          incomplete_payload initial_state2)
     = respond 500 (error_body ''File not found: doc1'')
   \<and> resolves_missing node_realm incomplete_payload (JStr ''fecha'')
   \<and> fst (post_render paths_parse node_realm example_env (placeholders_world number_path_cell)
          (Some ''secret'') incomplete_payload initial_state)
     = respond 500 (error_body ''path.split is not a function'')
   \<and> resolves_missing2 node_realm incomplete_payload (JStr ''fecha'')
   \<and> fst (post_render2 paths_parse node_realm example_env
          (placeholders_world function_path_cell) (Some ''secret'') incomplete_payload
          initial_state2)
     = respond 500 (error_body restricted_message)
   \<and> trace2 (snd (post_render2 paths_parse node_realm example_env
          (placeholders_world function_path_cell) (Some ''secret'') incomplete_payload
          initial_state2))
     = [SheetsGet ''templates!A:K'', SheetsGet ''exam_packages!A:G'',
        DriveCopy (JStr ''doc1'') JUndefined, DriveGet ''tmp1'']"
  by code_simp

section \<open>Records seen by the render, and the intermediate copy\<close>

text \<open>
  Claim C5. The configuration of both variants holds only active records, and
  \<^verbatim>\<open>server.js\<close> resolves a template among them. The second variant misses it for a
  \<open>template_key\<close> that names an inherited property: for the request
  \<open>{"template_key": "constructor"}\<close> its index lookup gives the function \<open>Object\<close>,
  which is no record of the configuration, and the render goes on with it (copy, export,
  upload) and answers 200, where \<^verbatim>\<open>server.js\<close> answers 400.
\<close>

theorem inherited_name_resolves_builtin:
  "all_active example_config2
   \<and> resolveTemplate2 node_realm example_config2 constructor_payload = Inr (BFun ''Object'')
   \<and> status (fst (post_render2 toy_parse node_realm example_env example_world (Some ''secret'')
        constructor_payload initial_state2)) = JNum 200
   \<and> trace2 (snd (post_render2 toy_parse node_realm example_env example_world (Some ''secret'')
        constructor_payload initial_state2))
     = [SheetsGet ''templates!A:K'', SheetsGet ''exam_packages!A:G'',
        DriveCopy JUndefined JUndefined, DriveGet ''tmp1'', DriveGet ''tmp1'',
        DriveExport ''tmp1'', DriveCreate ''output_20250520_NA.pdf'' JUndefined,
        DriveDelete ''tmp1'']
   \<and> resolveTemplate example_config constructor_payload = JUndefined
   \<and> fst (post_render toy_parse node_realm example_env example_world (Some ''secret'')
        constructor_payload initial_state)
     = respond 400 (error_body ''Unable to resolve template from template_key/package_key'')"
  by code_simp

text \<open>
  Claim C3. For a complete request and a template that does not keep its intermediate
  document, let the export call fail. \<^verbatim>\<open>server.js\<close> answers 500 and its \<open>catch\<close>
  deletes the copy. The second variant answers 500 and issues no delete: nothing around
  the calls after the copy catches the error, so the copy is left behind.
\<close>

theorem intermediate_doc_cleanup_diverges:
  "fst (post_render toy_parse node_realm example_env export_fails_world (Some ''secret'')
        example_payload initial_state)
     = respond 500 (error_body ''export failed'')
   \<and> trace (snd (post_render toy_parse node_realm example_env export_fails_world
        (Some ''secret'') example_payload initial_state))
     = [SheetsGet ''templates!A:Z'', SheetsGet ''exam_packages!A:Z'',
        DriveCopy (JStr ''doc1'') (JArr [JStr ''FOLDER'']),
        DocsBatchUpdate ''tmp1''
          [(''{{fecha}}'', ''20 de Mayo, 2025''), (''{{object.run}}'', ''12.345.678-9'')],
        DriveExport ''tmp1'', DriveDelete ''tmp1'']
   \<and> fst (post_render2 toy_parse node_realm example_env export_fails_world (Some ''secret'')
        example_payload initial_state2)
     = respond 500 (error_body ''export failed'')
   \<and> trace2 (snd (post_render2 toy_parse node_realm example_env export_fails_world
        (Some ''secret'') example_payload initial_state2))
     = [SheetsGet ''templates!A:K'', SheetsGet ''exam_packages!A:G'',
        DriveCopy (JStr ''doc1'') JUndefined, DriveGet ''tmp1'',
        DocsBatchUpdate ''tmp1''
          [(''{{fecha}}'', ''20 de Mayo, 2025''), (''{{object.run}}'', ''12.345.678-9'')],
        DriveGet ''tmp1'', DriveExport ''tmp1'']"
  by code_simp

end
